theory Spec2Isabelle
  imports Complex_Main
begin

section \<open>The scalar type \<open>T\<close>\<close>

text \<open>
  The sampler of \<^verbatim>\<open>frame/bslmm.hpp\<close> is a template over a scalar type \<open>T\<close>
  (\<^verbatim>\<open>double\<close> in practice). The embedding keeps the values that decide the
  control flow of the code: a scalar is a finite number, one of the two infinities, or
  not-a-number. Finite arithmetic is exact (no rounding, no overflow) and signed zeros are
  not distinguished; on the other values the operations follow IEEE 754: not-a-number
  is absorbing, every comparison with it is false, \<open>x / 0\<close> is an infinity of the sign
  of \<open>x\<close> for \<open>x \<noteq> 0\<close>, and \<open>0 / 0\<close>, \<open>0 * \<infinity>\<close>, \<open>\<infinity> - \<infinity>\<close> are not-a-number.
\<close>

datatype T = Fin real | PInf | MInf | NaN

fun fin :: "T \<Rightarrow> bool" where
  "fin (Fin a) = True"
| "fin PInf = False"
| "fin MInf = False"
| "fin NaN = False"

fun rv :: "T \<Rightarrow> real" where
  "rv (Fin a) = a"
| "rv PInf = 0"
| "rv MInf = 0"
| "rv NaN = 0"

instantiation T :: "{plus, uminus, minus, times, inverse, abs, ord}"
begin

fun plus_T :: "T \<Rightarrow> T \<Rightarrow> T" where
  "plus_T NaN y = NaN"
| "plus_T x NaN = NaN"
| "plus_T (Fin a) (Fin b) = Fin (a + b)"
| "plus_T PInf MInf = NaN"
| "plus_T MInf PInf = NaN"
| "plus_T PInf y = PInf"
| "plus_T MInf y = MInf"
| "plus_T x PInf = PInf"
| "plus_T x MInf = MInf"

fun uminus_T :: "T \<Rightarrow> T" where
  "uminus_T (Fin a) = Fin (- a)"
| "uminus_T PInf = MInf"
| "uminus_T MInf = PInf"
| "uminus_T NaN = NaN"

definition minus_T :: "T \<Rightarrow> T \<Rightarrow> T" where
  "minus_T x y = x + (- y)"

fun times_T :: "T \<Rightarrow> T \<Rightarrow> T" where
  "times_T NaN y = NaN"
| "times_T x NaN = NaN"
| "times_T (Fin a) (Fin b) = Fin (a * b)"
| "times_T (Fin a) PInf = (if a = 0 then NaN else if 0 < a then PInf else MInf)"
| "times_T (Fin a) MInf = (if a = 0 then NaN else if 0 < a then MInf else PInf)"
| "times_T PInf (Fin b) = (if b = 0 then NaN else if 0 < b then PInf else MInf)"
| "times_T MInf (Fin b) = (if b = 0 then NaN else if 0 < b then MInf else PInf)"
| "times_T PInf PInf = PInf"
| "times_T PInf MInf = MInf"
| "times_T MInf PInf = MInf"
| "times_T MInf MInf = PInf"

fun inverse_T :: "T \<Rightarrow> T" where
  "inverse_T (Fin a) = (if a = 0 then PInf else Fin (inverse a))"
| "inverse_T PInf = Fin 0"
| "inverse_T MInf = Fin 0"
| "inverse_T NaN = NaN"

fun divide_T :: "T \<Rightarrow> T \<Rightarrow> T" where
  "divide_T NaN y = NaN"
| "divide_T x NaN = NaN"
| "divide_T (Fin a) (Fin b) =
     (if b \<noteq> 0 then Fin (a / b)
      else if a = 0 then NaN else if 0 < a then PInf else MInf)"
| "divide_T (Fin a) PInf = Fin 0"
| "divide_T (Fin a) MInf = Fin 0"
| "divide_T PInf (Fin b) = (if 0 \<le> b then PInf else MInf)"
| "divide_T MInf (Fin b) = (if 0 \<le> b then MInf else PInf)"
| "divide_T PInf y = NaN"
| "divide_T MInf y = NaN"

fun abs_T :: "T \<Rightarrow> T" where
  "abs_T (Fin a) = Fin \<bar>a\<bar>"
| "abs_T PInf = PInf"
| "abs_T MInf = PInf"
| "abs_T NaN = NaN"

fun less_T :: "T \<Rightarrow> T \<Rightarrow> bool" where
  "less_T NaN y = False"
| "less_T x NaN = False"
| "less_T (Fin a) (Fin b) = (a < b)"
| "less_T x MInf = False"
| "less_T PInf y = False"
| "less_T MInf y = True"
| "less_T x PInf = True"

fun less_eq_T :: "T \<Rightarrow> T \<Rightarrow> bool" where
  "less_eq_T NaN y = False"
| "less_eq_T x NaN = False"
| "less_eq_T (Fin a) (Fin b) = (a \<le> b)"
| "less_eq_T MInf y = True"
| "less_eq_T x PInf = True"
| "less_eq_T x MInf = False"
| "less_eq_T PInf y = False"

instance ..

end

text \<open>\<^verbatim>\<open>std::sqrt\<close>, \<^verbatim>\<open>std::exp\<close>, \<^verbatim>\<open>std::log\<close> and the conversion of a \<^verbatim>\<open>size_t\<close>.\<close>

fun sqrt_T :: "T \<Rightarrow> T" where
  "sqrt_T (Fin a) = (if 0 \<le> a then Fin (sqrt a) else NaN)"
| "sqrt_T PInf = PInf"
| "sqrt_T MInf = NaN"
| "sqrt_T NaN = NaN"

fun exp_T :: "T \<Rightarrow> T" where
  "exp_T (Fin a) = Fin (exp a)"
| "exp_T PInf = PInf"
| "exp_T MInf = Fin 0"
| "exp_T NaN = NaN"

fun log_T :: "T \<Rightarrow> T" where
  "log_T (Fin a) = (if 0 < a then Fin (ln a) else if a = 0 then MInf else NaN)"
| "log_T PInf = PInf"
| "log_T MInf = NaN"
| "log_T NaN = NaN"

definition of_size :: "nat \<Rightarrow> T" where
  "of_size k = Fin (real k)"


section \<open>Collaborators outside the file\<close>

text \<open>
  The distributions of the C++ standard library draw from the engine they are handed;
  their algorithms are implementation-defined. They are parameters of the model: each
  takes the distribution's parameters and the engine's state \<open>'g\<close> and returns the draw
  and the engine's next state. \<^verbatim>\<open>hmlp::Data<T>::rand\<close> is not handed the member
  engine; it and \<^verbatim>\<open>srand\<close> work on a random state \<open>'u\<close> of the process.
  \<open>put_T\<close> is \<^verbatim>\<open>operator<<\<close> of an output stream on a scalar.
\<close>

record ('g, 'u) Lib =
  gamma_distribution :: "T \<Rightarrow> T \<Rightarrow> 'g \<Rightarrow> T \<times> 'g"
  normal_distribution :: "T \<Rightarrow> T \<Rightarrow> 'g \<Rightarrow> T \<times> 'g"
  bernoulli_distribution :: "T \<Rightarrow> 'g \<Rightarrow> bool \<times> 'g"
  data_rand :: "nat \<Rightarrow> T \<Rightarrow> T \<Rightarrow> 'u \<Rightarrow> T list \<times> 'u"
  srand :: "nat \<Rightarrow> 'u \<Rightarrow> 'u"
  put_T :: "T \<Rightarrow> string"

text \<open>
  Modelled from the spec: the container \<^verbatim>\<open>hmlp::Data<T>\<close> (the matrix/vector
  abstraction, an external collaborator) is a flat vector in column-major order.
  \<open>at2 d X i j\<close> is \<^verbatim>\<open>X( i, j )\<close> for a container of \<open>d\<close> rows, as
  \<^verbatim>\<open>Normalize\<close> spells it (\<^verbatim>\<open>A[ j * m + i ]\<close>); \<open>resize k v X\<close> is
  \<^verbatim>\<open>X.resize( m, n, v )\<close> with \<open>k = m * n\<close>: a vector resize, which keeps the
  entries that are there and fills new ones with \<open>v\<close>.
\<close>

definition at2 :: "nat \<Rightarrow> T list \<Rightarrow> nat \<Rightarrow> nat \<Rightarrow> T" where
  "at2 d X i j = X ! (j * d + i)"

definition set2 :: "nat \<Rightarrow> T list \<Rightarrow> nat \<Rightarrow> nat \<Rightarrow> T \<Rightarrow> T list" where
  "set2 d X i j v = X[j * d + i := v]"

definition resize :: "nat \<Rightarrow> T \<Rightarrow> T list \<Rightarrow> T list" where
  "resize k v X = take k X @ replicate (k - length X) v"

text \<open>
  Modelled from the spec: the dense matrix multiply-accumulate of the linear-algebra
  collaborator, \<^verbatim>\<open>xgemm( "N", "N", m, n, k, alpha, A, lda, B, ldb, beta, C, ldc )\<close>:
  \<open>C(i,j) := alpha * (\<Sum>p<k. A(i,p) * B(p,j)) + beta * C(i,j)\<close> on column-major storage.
\<close>

definition xgemm ::
  "nat \<Rightarrow> nat \<Rightarrow> nat \<Rightarrow> T \<Rightarrow> T list \<Rightarrow> nat \<Rightarrow> T list \<Rightarrow> nat \<Rightarrow> T \<Rightarrow> T list \<Rightarrow> nat \<Rightarrow> T list" where
  "xgemm m k l alpha X lda B ldb beta C ldc =
     fold (\<lambda>j C. fold (\<lambda>i C.
         C[j * ldc + i :=
             alpha * fold (\<lambda>p acc. acc + X ! (p * lda + i) * B ! (j * ldb + p)) [0..<l] (Fin 0)
               + beta * C ! (j * ldc + i)])
       [0..<m] C) [0..<k] C"

section \<open>The model state: class \<open>Variables\<close>\<close>

record 'g Variables =
  n :: nat
  w1 :: nat
  w2 :: nat
  q :: nat
  q1 :: nat
  q2 :: nat
  generator :: 'g
  sigma_m0 :: T
  sigma_m1 :: T
  sigma_a :: T
  sigma_ma0 :: T
  sigma_ma1 :: T
  sigma_g :: T
  sigma_e :: T
  alpha_a :: "T list"
  beta_a :: "T list"
  beta_m :: "T list"
  pi_m :: "T list"
  pi_a :: "T list"
  alpha_c :: "T list"
  beta_c :: "T list"
  A :: "T list"
  A2norm :: "T list"
  M :: "T list"
  M2norm :: "T list"
  Y :: "T list"
  C1 :: "T list"
  C2 :: "T list"
  C1_2norm :: "T list"
  C2_2norm :: "T list"
  r1 :: "T list"
  r3 :: "T list"
  res1 :: "T list"
  res2 :: "T list"
  res2_c :: "T list"
  var_m0 :: "T list"
  var_m1 :: "T list"
  var_alpha_a0 :: "T list"
  var_alpha_a1 :: "T list"
  var_a :: "T list"
  old :: T

text \<open>The hyperparameters are members with default initialisers that no code writes.\<close>

definition km0 :: T where "km0 = Fin 2"
definition lm0 :: T where "lm0 = Fin (1 / 10)"
definition km1 :: T where "km1 = Fin 2"
definition lm1 :: T where "lm1 = Fin (1 / 2)"
definition ka :: T where "ka = Fin 2"
definition la :: T where "la = Fin 1"
definition kma0 :: T where "kma0 = Fin 2"
definition lma0 :: T where "lma0 = Fin 1"
definition kma1 :: T where "kma1 = Fin 2"
definition lma1 :: T where "lma1 = Fin 2"
definition ke :: T where "ke = Fin 2"
definition le :: T where "le = Fin 1"
definition kg :: T where "kg = Fin 2"
definition lg :: T where "lg = Fin 1"

text \<open>
  What a call can change outside the object: the random state of the process, the
  standard output (one entry per \<^verbatim>\<open>printf\<close>, with its arguments) and the files,
  by name.
\<close>

datatype Printed =
  PrintSigmas nat T T T T T T T
| PrintIter nat

record 'u World =
  crand :: 'u
  console :: "Printed list"
  files :: "string \<rightharpoonup> string"


section \<open>The constructor\<close>

text \<open>
  The members start as the default-constructed objects they are (empty containers, the
  engine in its initial state \<open>g0\<close>); \<open>old\<close> has the initialiser \<open>0.0\<close>. Seven Gamma
  draws initialise the variance components, in the order of the code.
\<close>

definition col_2norm :: "nat \<Rightarrow> T list \<Rightarrow> nat \<Rightarrow> T list \<Rightarrow> T list" where
  "col_2norm d X k N =
     fold (\<lambda>j N. fold (\<lambda>i N. N[j := N ! j + X ! (j * d + i) * X ! (j * d + i)]) [0..<d] N)
       [0..<k] N"

definition Variables_ctor ::
  "('g, 'u) Lib \<Rightarrow> 'g \<Rightarrow> T list \<Rightarrow> T list \<Rightarrow> T list \<Rightarrow> T list \<Rightarrow> T list \<Rightarrow>
   T list \<Rightarrow> T list \<Rightarrow> T list \<Rightarrow> T list \<Rightarrow>
   nat \<Rightarrow> nat \<Rightarrow> nat \<Rightarrow> nat \<Rightarrow> nat \<Rightarrow> nat \<Rightarrow> 'g Variables" where
  "Variables_ctor L g0 userY userA userM userC1 userC2 userbeta_m useralpha_a userpi_m userpi_a
      n' w1' w2' q' q1' q2' =
    (let (x_m0, g) = gamma_distribution L km0 (Fin 1 / lm0) g0;
         (x_m1, g) = gamma_distribution L km1 (Fin 1 / lm1) g;
         (x_a, g) = gamma_distribution L ka (Fin 1 / la) g;
         (x_ma0, g) = gamma_distribution L kma0 (Fin 1 / lma0) g;
         (x_ma1, g) = gamma_distribution L kma1 (Fin 1 / lma1) g;
         (x_g, g) = gamma_distribution L kg (Fin 1 / lg) g;
         (x_e, g) = gamma_distribution L ke (Fin 1 / le) g
     in \<lparr> n = n', w1 = w1', w2 = w2', q = q', q1 = q1', q2 = q2',
          generator = g,
          sigma_m0 = Fin 1 / x_m0,
          sigma_m1 = Fin 1 / x_m1,
          sigma_a = Fin 1 / x_a,
          sigma_ma0 = Fin 1 / x_ma0,
          sigma_ma1 = Fin 1 / x_ma1,
          sigma_g = Fin 1 / x_g,
          sigma_e = Fin 1 / x_e,
          alpha_a = useralpha_a,
          beta_a = (resize 1 (Fin 0) (resize 0 (Fin 0) []))[0 := Fin (135567741 / 10000000000)],
          beta_m = userbeta_m,
          pi_m = userpi_m,
          pi_a = userpi_a,
          alpha_c = resize (w2' * q') (Fin 0) [],
          beta_c = resize w1' (Fin 0) [],
          A = userA,
          A2norm = fold (\<lambda>i N. N[0 := N ! 0 + userA ! i * userA ! i]) [0..<n']
                     (resize 1 (Fin 0) []),
          M = userM,
          M2norm = col_2norm n' userM q' (resize q' (Fin 0) []),
          Y = userY,
          C1 = userC1,
          C2 = userC2,
          C1_2norm = col_2norm n' userC1 w1' (resize w1' (Fin 0) []),
          C2_2norm = col_2norm n' userC2 w2' (resize w2' (Fin 0) []),
          r1 = resize q' (Fin 0) [],
          r3 = resize q' (Fin 0) [],
          res1 = [], res2 = [], res2_c = [],
          var_m0 = [], var_m1 = [],
          var_alpha_a0 = [], var_alpha_a1 = [], var_a = [],
          old = Fin 0 \<rparr>)"

section \<open>\<open>Residual\<close> and the log-posterior helpers\<close>

definition Residual :: "nat \<Rightarrow> 'g Variables \<Rightarrow> 'g Variables" where
  "Residual it s =
    (let s = s\<lparr>res1 := Y s\<rparr>;
         s = s\<lparr>res1 := fold (\<lambda>i r. r[i := r ! i - beta_a s ! 0 * A s ! i]) [0..<n s] (res1 s)\<rparr>;
         s = s\<lparr>res1 := xgemm (n s) 1 (q s) (Fin (- 1)) (M s) (n s) (beta_m s) (q s)
                          (Fin 1) (res1 s) (n s)\<rparr>;
         s = s\<lparr>res1 := xgemm (n s) 1 (w1 s) (Fin (- 1)) (C1 s) (n s) (beta_c s) (w1 s)
                          (Fin 1) (res1 s) (n s)\<rparr>;
         s = s\<lparr>res2 := M s\<rparr>;
         s = s\<lparr>res2 := xgemm (n s) (q s) 1 (Fin (- 1)) (A s) (n s) (alpha_a s) 1
                          (Fin 1) (res2 s) (n s)\<rparr>;
         s = s\<lparr>res2 := xgemm (n s) (q s) (w2 s) (Fin (- 1)) (C2 s) (n s) (alpha_c s) (w2 s)
                          (Fin 1) (res2 s) (n s)\<rparr>;
         s = s\<lparr>res2_c := M s\<rparr>
     in s\<lparr>res2_c := xgemm (n s) (q s) (w2 s) (Fin (- 1)) (C2 s) (n s) (alpha_c s) (w2 s)
                          (Fin 1) (res2_c s) (n s)\<rparr>)"

definition PostDistribution1 :: "'g Variables \<Rightarrow> T list \<Rightarrow> T" where
  "PostDistribution1 s my_pi_m =
     fold (\<lambda>j logc1. logc1 + (log_T (my_pi_m ! j) * r1 s ! j
                               + log_T (Fin 1 - my_pi_m ! j) * (Fin 1 - r1 s ! j)))
       [0..<q s] (Fin 0)"

definition PostDistribution2 :: "'g Variables \<Rightarrow> T list \<Rightarrow> T" where
  "PostDistribution2 s my_pi_a =
     fold (\<lambda>j logc2. logc2 + (log_T (my_pi_a ! j) * r3 s ! j
                               + log_T (Fin 1 - my_pi_a ! j) * (Fin 1 - r3 s ! j)))
       [0..<q s] (Fin 0)"


section \<open>\<open>Iteration\<close>, block by block\<close>

text \<open>
  Each definition is one block of \<^verbatim>\<open>Variables::Iteration\<close>, in the order of the
  code. Where one expression calls two distributions, the draws are taken left to
  right.
\<close>

definition update_var_m :: "'g Variables \<Rightarrow> 'g Variables" where
  "update_var_m s =
     fold (\<lambda>j s.
         (let s = s\<lparr>var_m0 := (var_m0 s)[j := Fin 1 / (Fin 1 / sigma_m0 s + M2norm s ! j / sigma_e s)]\<rparr>
          in s\<lparr>var_m1 := (var_m1 s)[j := Fin 1 / (Fin 1 / sigma_m1 s + M2norm s ! j / sigma_e s)]\<rparr>))
       [0..<q s]
       (s\<lparr>var_m0 := resize (q s) (Fin 0) (var_m0 s), var_m1 := resize (q s) (Fin 0) (var_m1 s)\<rparr>)"

definition update_sigma_e_g :: "('g, 'u) Lib \<Rightarrow> 'g Variables \<Rightarrow> 'g Variables" where
  "update_sigma_e_g L s =
    (let ke1 = ke + of_size (n s) / Fin 2;
         kg1 = of_size (q s) * (of_size (n s) / Fin 2) + kg;
         le1 = fold (\<lambda>i le1. le1 + res1 s ! i * res1 s ! i) [0..<n s] (Fin 0);
         lg1 = fold (\<lambda>i lg1. lg1 + res2 s ! i * res2 s ! i) [0..<n s * q s] (Fin 0);
         le1 = Fin 1 / (le1 / Fin 2 + le);
         lg1 = Fin 1 / (lg1 / Fin 2 + lg);
         (x_e, g) = gamma_distribution L ke1 le1 (generator s);
         s = s\<lparr>sigma_e := Fin 1 / x_e, generator := g\<rparr>;
         (x_g, g) = gamma_distribution L kg1 lg1 (generator s)
     in s\<lparr>sigma_g := Fin 1 / x_g, generator := g\<rparr>)"

definition update_var_a :: "'g Variables \<Rightarrow> 'g Variables" where
  "update_var_a s =
    (let s = s\<lparr>var_alpha_a0 := resize 1 (Fin 0) (var_alpha_a0 s),
               var_alpha_a1 := resize 1 (Fin 0) (var_alpha_a1 s)\<rparr>;
         s = s\<lparr>var_a := resize 1 (Fin 0) (var_a s)\<rparr>;
         s = s\<lparr>var_alpha_a0 := (var_alpha_a0 s)[0 := sigma_g s / (sigma_g s / sigma_ma0 s + A2norm s ! 0)]\<rparr>;
         s = s\<lparr>var_alpha_a1 := (var_alpha_a1 s)[0 := sigma_g s / (sigma_g s / sigma_ma1 s + A2norm s ! 0)]\<rparr>
     in s\<lparr>var_a := (var_a s)[0 := sigma_e s / (sigma_e s / sigma_a s + A2norm s ! 0)]\<rparr>)"

text \<open>The sums \<open>mu_mj\<close> and \<open>mu_alpha_aj\<close> of mediator \<open>j\<close>, accumulated in one loop.\<close>

definition mu_sums :: "'g Variables \<Rightarrow> nat \<Rightarrow> T \<times> T" where
  "mu_sums s j =
     fold (\<lambda>i (mu_mj, mu_alpha_aj).
         (mu_mj + at2 (n s) (M s) i j * (res1 s ! i + at2 (n s) (M s) i j * beta_m s ! j),
          mu_alpha_aj + A s ! i * res2_c s ! (j * n s + i)))
       [0..<n s] (Fin 0, Fin 0)"

definition update_beta_m :: "('g, 'u) Lib \<Rightarrow> nat \<Rightarrow> T \<Rightarrow> T \<Rightarrow> 'g Variables \<Rightarrow> 'g Variables" where
  "update_beta_m L j mu_mj0 mu_mj1 s =
    (let s = s\<lparr>old := beta_m s ! j\<rparr>;
         (x1, g) = normal_distribution L mu_mj1 (sqrt_T (var_m1 s ! j)) (generator s);
         (x0, g) = normal_distribution L mu_mj0 (sqrt_T (var_m0 s ! j)) g;
         s = s\<lparr>beta_m := (beta_m s)[j := r1 s ! j * x1 + (Fin 1 - r1 s ! j) * x0],
               generator := g\<rparr>
     in s\<lparr>res1 := fold (\<lambda>i r. r[i := r ! i + (old s - beta_m s ! j) * at2 (n s) (M s) i j])
                      [0..<n s] (res1 s)\<rparr>)"

definition update_alpha_a :: "('g, 'u) Lib \<Rightarrow> nat \<Rightarrow> T \<Rightarrow> T \<Rightarrow> 'g Variables \<Rightarrow> 'g Variables" where
  "update_alpha_a L j mu_alpha_aj0 mu_alpha_aj1 s =
    (let s = s\<lparr>old := alpha_a s ! j\<rparr>;
         (x1, g) = normal_distribution L mu_alpha_aj1 (sqrt_T (var_alpha_a1 s ! 0)) (generator s);
         (x0, g) = normal_distribution L mu_alpha_aj0 (sqrt_T (var_alpha_a0 s ! 0)) g;
         s = s\<lparr>alpha_a := (alpha_a s)[j := r3 s ! j * x1 + (Fin 1 - r3 s ! j) * x0],
               generator := g\<rparr>
     in s\<lparr>res2 := fold (\<lambda>i r. r[j * n s + i := r ! (j * n s + i) + (old s - alpha_a s ! j) * A s ! i])
                      [0..<n s] (res2 s)\<rparr>)"

definition update_r1 :: "('g, 'u) Lib \<Rightarrow> nat \<Rightarrow> T \<Rightarrow> T \<Rightarrow> 'g Variables \<Rightarrow> 'g Variables" where
  "update_r1 L j mu_mj0 mu_mj1 s =
    (let const2 = mu_mj1 * mu_mj1 / (Fin 2 * var_m1 s ! j) - mu_mj0 * mu_mj0 / (Fin 2 * var_m0 s ! j)
                  + Fin (1 / 2) * log_T (var_m1 s ! j / sigma_m1 s)
                  - Fin (1 / 2) * log_T (var_m0 s ! j / sigma_m0 s)
                  + log_T (pi_m s ! j / (Fin 1 - pi_m s ! j))
     in if const2 < Fin 300
        then (let const2 = exp_T const2;
                  (b, g) = bernoulli_distribution L (const2 / (Fin 1 + const2)) (generator s)
              in if b then s\<lparr>r1 := (r1 s)[j := Fin 1], generator := g\<rparr>
                 else s\<lparr>r1 := (r1 s)[j := Fin 0], generator := g\<rparr>)
        else s\<lparr>r1 := (r1 s)[j := Fin 1]\<rparr>)"

definition update_r3 :: "('g, 'u) Lib \<Rightarrow> nat \<Rightarrow> T \<Rightarrow> T \<Rightarrow> 'g Variables \<Rightarrow> 'g Variables" where
  "update_r3 L j mu_alpha_aj0 mu_alpha_aj1 s =
    (let const5 = mu_alpha_aj1 * mu_alpha_aj1 / (Fin 2 * var_alpha_a1 s ! 0)
                  - mu_alpha_aj0 * mu_alpha_aj0 / (Fin 2 * var_alpha_a0 s ! 0)
                  + Fin (1 / 2) * log_T (var_alpha_a1 s ! 0 / sigma_ma1 s)
                  - Fin (1 / 2) * log_T (var_alpha_a0 s ! 0 / sigma_ma0 s)
                  + log_T (pi_a s ! j / (Fin 1 - pi_a s ! j))
     in if const5 < Fin 300
        then (let const5 = exp_T const5;
                  (b, g) = bernoulli_distribution L (const5 / (Fin 1 + const5)) (generator s)
              in if b then s\<lparr>r3 := (r3 s)[j := Fin 1], generator := g\<rparr>
                 else s\<lparr>r3 := (r3 s)[j := Fin 0], generator := g\<rparr>)
        else s\<lparr>r3 := (r3 s)[j := Fin 1]\<rparr>)"

definition update_alpha_c :: "('g, 'u) Lib \<Rightarrow> nat \<Rightarrow> nat \<Rightarrow> 'g Variables \<Rightarrow> 'g Variables" where
  "update_alpha_c L j j1 s =
    (let s = s\<lparr>old := at2 (w2 s) (alpha_c s) j1 j\<rparr>;
         mu_alpha_cj = fold (\<lambda>i mu. mu + at2 (n s) (C2 s) i j1
                            * (res2 s ! (j * n s + i) + at2 (w2 s) (alpha_c s) j1 j * at2 (n s) (C2 s) i j1))
                         [0..<n s] (Fin 0);
         mu_alpha_cj = mu_alpha_cj / C2_2norm s ! j1;
         (x, g) = normal_distribution L mu_alpha_cj (sqrt_T (sigma_g s / C2_2norm s ! j1)) (generator s);
         s = s\<lparr>alpha_c := set2 (w2 s) (alpha_c s) j1 j x, generator := g\<rparr>
     in fold (\<lambda>i s.
            (let s = s\<lparr>res2 := (res2 s)[j * n s + i := res2 s ! (j * n s + i)
                          + (old s - at2 (w2 s) (alpha_c s) j1 j) * at2 (n s) (C2 s) i j1]\<rparr>
             in s\<lparr>res2_c := (res2_c s)[j * n s + i := res2_c s ! (j * n s + i)
                          + (old s - at2 (w2 s) (alpha_c s) j1 j) * at2 (n s) (C2 s) i j1]\<rparr>))
          [0..<n s] s)"

definition mediator_step :: "('g, 'u) Lib \<Rightarrow> nat \<Rightarrow> 'g Variables \<Rightarrow> 'g Variables" where
  "mediator_step L j s =
    (let (mu_mj, mu_alpha_aj) = mu_sums s j;
         mu_mj0 = mu_mj / (sigma_e s / sigma_m0 s + M2norm s ! j);
         mu_mj1 = mu_mj / (sigma_e s / sigma_m1 s + M2norm s ! j);
         mu_alpha_aj0 = mu_alpha_aj * (var_alpha_a0 s ! 0 / sigma_g s);
         mu_alpha_aj1 = mu_alpha_aj * (var_alpha_a1 s ! 0 / sigma_g s);
         s = update_beta_m L j mu_mj0 mu_mj1 s;
         s = update_alpha_a L j mu_alpha_aj0 mu_alpha_aj1 s;
         s = update_r1 L j mu_mj0 mu_mj1 s;
         s = update_r3 L j mu_alpha_aj0 mu_alpha_aj1 s
     in fold (update_alpha_c L j) [0..<w2 s] s)"

text \<open>
  The update of \<open>beta_c[j]\<close>: the division, the construction of the distribution and the
  draw stand inside the loop over \<open>i\<close>, as in the code.
\<close>

definition update_beta_c :: "('g, 'u) Lib \<Rightarrow> nat \<Rightarrow> 'g Variables \<Rightarrow> 'g Variables" where
  "update_beta_c L j s =
    (let s = s\<lparr>old := beta_c s ! j\<rparr>;
         (mu_cj, s) = fold (\<lambda>i (mu_cj, s).
             (let mu_cj = mu_cj + at2 (n s) (C1 s) i j * (res1 s ! i + at2 (n s) (C1 s) i j * beta_c s ! j);
                  mu_cj = mu_cj / C1_2norm s ! j;
                  (x, g) = normal_distribution L mu_cj (sqrt_T (sigma_e s / C1_2norm s ! j)) (generator s)
              in (mu_cj, s\<lparr>beta_c := (beta_c s)[j := x], generator := g\<rparr>)))
           [0..<n s] (Fin 0, s)
     in s\<lparr>res1 := fold (\<lambda>i r. r[i := r ! i + (old s - beta_c s ! j) * at2 (n s) (C1 s) i j])
                      [0..<n s] (res1 s)\<rparr>)"

definition update_beta_a :: "('g, 'u) Lib \<Rightarrow> 'g Variables \<Rightarrow> 'g Variables" where
  "update_beta_a L s =
    (let s = s\<lparr>old := beta_a s ! 0\<rparr>;
         mu_a = fold (\<lambda>i mu_a. mu_a + A s ! i * (res1 s ! i + beta_a s ! 0 * A s ! i)) [0..<n s] (Fin 0);
         mu_a = mu_a * (var_a s ! 0 / sigma_e s);
         (x, g) = normal_distribution L mu_a (sqrt_T (var_a s ! 0)) (generator s);
         s = s\<lparr>beta_a := (beta_a s)[0 := x], generator := g\<rparr>
     in s\<lparr>res1 := fold (\<lambda>i r. r[i := r ! i + (old s - beta_a s ! 0) * A s ! i]) [0..<n s] (res1 s)\<rparr>)"

definition update_sigma_m_a :: "('g, 'u) Lib \<Rightarrow> 'g Variables \<Rightarrow> 'g Variables" where
  "update_sigma_m_a L s =
    (let (const6, const7, const8, const9) =
           fold (\<lambda>j (const6, const7, const8, const9).
               (const6 + r1 s ! j,
                const7 + beta_m s ! j * beta_m s ! j * r1 s ! j,
                const8 + r3 s ! j,
                const9 + alpha_a s ! j * alpha_a s ! j * r3 s ! j))
             [0..<q s] (Fin 0, Fin 0, Fin 0, Fin 0);
         const6 = const6 / Fin 2;
         const7 = const7 / Fin 2;
         const8 = const8 / Fin 2;
         const9 = const9 / Fin 2;
         (x_m1, g) = gamma_distribution L (const6 + km1) (Fin 1 / (const7 + lm1)) (generator s);
         s = s\<lparr>sigma_m1 := Fin 1 / x_m1, generator := g\<rparr>;
         (x_a, g) = gamma_distribution L (Fin (1 / 2) + ka)
                      (Fin 1 / (beta_a s ! 0 * beta_a s ! 0 / Fin 2 + la)) (generator s);
         s = s\<lparr>sigma_a := Fin 1 / x_a, generator := g\<rparr>;
         (x_ma1, g) = gamma_distribution L (const8 + kma1) (Fin 1 / (const9 + lma1)) (generator s);
         s = s\<lparr>sigma_ma1 := Fin 1 / x_ma1, generator := g\<rparr>;
         (const6, const7, const8, const9) =
           fold (\<lambda>j (const6, const7, const8, const9).
               (const6 + (Fin 1 - r1 s ! j),
                const7 + beta_m s ! j * beta_m s ! j * (Fin 1 - r1 s ! j),
                const8 + (Fin 1 - r3 s ! j),
                const9 + alpha_a s ! j * alpha_a s ! j * (Fin 1 - r3 s ! j)))
             [0..<q s] (Fin 0, Fin 0, Fin 0, Fin 0);
         const6 = const6 / Fin 2;
         const7 = const7 / Fin 2;
         const8 = const8 / Fin 2;
         const9 = const9 / Fin 2;
         (x_m0, g) = gamma_distribution L (const6 + km0) (Fin 1 / (const7 + lm0)) (generator s);
         s = s\<lparr>sigma_m0 := Fin 1 / x_m0, generator := g\<rparr>;
         (x_ma0, g) = gamma_distribution L (const8 + kma0) (Fin 1 / (const9 + lma0)) (generator s)
     in s\<lparr>sigma_ma0 := Fin 1 / x_ma0, generator := g\<rparr>)"


text \<open>
  The adaptive prior step. \<^verbatim>\<open>size_t\<close> is taken as a 64-bit unsigned integer:
  the product \<^verbatim>\<open>q*q\<close> is computed in it before it meets a scalar, so it wraps.
  Products that index a container stay below its size and are written without the
  wrap.
\<close>

definition size_mul :: "nat \<Rightarrow> nat \<Rightarrow> nat" where
  "size_mul a b = (a * b) mod 2 ^ 64"

definition propose :: "nat \<Rightarrow> T \<Rightarrow> T \<Rightarrow> T" where
  "propose q' p e =
    (let v = p * exp_T e;
         v = \<bar>v\<bar>;
         v = (if Fin 1 < v then Fin 1 / v else v)
     in if v < Fin 1 / of_size q' then Fin 1 / (of_size (size_mul q' q') * v) else v)"

definition adaptive_prior ::
  "('g, 'u) Lib \<Rightarrow> 'g Variables \<times> 'u World \<Rightarrow> 'g Variables \<times> 'u World" where
  "adaptive_prior L = (\<lambda>(s, w).
    (let (log_my_pi_m, u) = data_rand L (1 * q s) (Fin (- (1 / 100))) (Fin (1 / 100)) (crand w);
         (log_my_pi_a, u) = data_rand L (1 * q s) (Fin (- (1 / 100))) (Fin (1 / 100)) u;
         (my_pi_m, my_pi_a) =
           fold (\<lambda>j (my_pi_m, my_pi_a).
               (my_pi_m[j := propose (q s) (pi_m s ! j) (log_my_pi_m ! j)],
                my_pi_a[j := propose (q s) (pi_a s ! j) (log_my_pi_a ! j)]))
             [0..<q s] (replicate (1 * q s) (Fin 0), replicate (1 * q s) (Fin 0));
         probab = PostDistribution2 s my_pi_a - PostDistribution2 s (pi_a s)
                  + PostDistribution1 s my_pi_m - PostDistribution1 s (pi_m s);
         (my_unif, u) = data_rand L (1 * 1) (Fin 0) (Fin 1) u;
         w = w\<lparr>crand := u\<rparr>
     in if log_T (my_unif ! 0) < probab
        then (fold (\<lambda>j s. (let s = s\<lparr>pi_a := (pi_a s)[j := my_pi_a ! j]\<rparr>
                            in s\<lparr>pi_m := (pi_m s)[j := my_pi_m ! j]\<rparr>)) [0..<q s] s, w)
        else (s, w)))"

text \<open>
  The result sink. \<open>to_string\<close> is \<^verbatim>\<open>std::to_string\<close> on an \<^verbatim>\<open>int\<close>, and
  \<open>int_of_size\<close> the conversion \<^verbatim>\<open>(int)q\<close> (modulo \<open>2^32\<close>, into the signed range).
  A stream opened with \<^verbatim>\<open>std::ios_base::app\<close> creates the file when there is none
  and writes at its end.
\<close>

function dec :: "nat \<Rightarrow> string" where
  "dec k = (if k < 10 then [''0123456789'' ! k] else dec (k div 10) @ [''0123456789'' ! (k mod 10)])"
  by pat_completeness auto
termination
  by (relation "measure id") auto

declare dec.simps [simp del]

definition to_string :: "int \<Rightarrow> string" where
  "to_string k = (if k < 0 then ''-'' @ dec (nat (- k)) else dec (nat k))"

definition int_of_size :: "nat \<Rightarrow> int" where
  "int_of_size k = (int k + 2 ^ 31) mod 2 ^ 32 - 2 ^ 31"

definition outfilename :: "'g Variables \<Rightarrow> string" where
  "outfilename s = ''results_'' @ to_string (int_of_size (q s)) @ ''.txt''"

definition row :: "('g, 'u) Lib \<Rightarrow> 'g Variables \<Rightarrow> string" where
  "row L s =
     fold (\<lambda>i out. out @ put_T L (beta_m s ! i) @ '' '' @ put_T L (pi_m s ! i) @ '' ''
                       @ put_T L (alpha_a s ! i) @ '' '' @ put_T L (pi_a s ! i) @ '' '')
       [0..<q s] []
     @ put_T L (beta_a s ! 0) @ [CHR 0x0A]"

definition append_file :: "string \<Rightarrow> string \<Rightarrow> (string \<rightharpoonup> string) \<Rightarrow> (string \<rightharpoonup> string)" where
  "append_file name text fs =
     fs(name \<mapsto> (case fs name of None \<Rightarrow> [] | Some c \<Rightarrow> c) @ text)"

definition gibbs_sweep :: "('g, 'u) Lib \<Rightarrow> nat \<Rightarrow> 'g Variables \<Rightarrow> 'g Variables" where
  "gibbs_sweep L it s =
    (let s = (if it = 0 then Residual it s else s);
         s = update_var_m s;
         s = update_sigma_e_g L s;
         s = update_var_a s;
         s = fold (mediator_step L) [0..<q s] s;
         s = fold (update_beta_c L) [0..<w1 s] s;
         s = update_beta_a L s
     in update_sigma_m_a L s)"

definition Iteration ::
  "('g, 'u) Lib \<Rightarrow> nat \<Rightarrow> nat \<Rightarrow> 'g Variables \<times> 'u World \<Rightarrow> 'g Variables \<times> 'u World" where
  "Iteration L burnIn it = (\<lambda>(s, w).
    (let w = w\<lparr>crand := srand L it (crand w)\<rparr>;
         w = (if it mod 10000 = 0
              then w\<lparr>console := console w @ [PrintSigmas it (sigma_m0 s) (sigma_e s) (sigma_g s)
                                   (sigma_ma0 s) (sigma_m1 s) (sigma_a s) (sigma_ma1 s)]\<rparr>
              else w);
         s = gibbs_sweep L it s;
         (s, w) = adaptive_prior L (s, w);
         w = (if it mod 1000 = 0 then w\<lparr>console := console w @ [PrintIter it]\<rparr> else w);
         w = (if burnIn < it \<and> it mod 10 = 0
              then w\<lparr>files := append_file (outfilename s) (row L s) (files w)\<rparr>
              else w)
     in (s, w)))"

section \<open>The driver \<open>mcmc\<close>\<close>

definition mcmc ::
  "('g, 'u) Lib \<Rightarrow> 'g \<Rightarrow> T list \<Rightarrow> T list \<Rightarrow> T list \<Rightarrow> T list \<Rightarrow> T list \<Rightarrow>
   T list \<Rightarrow> T list \<Rightarrow> T list \<Rightarrow> T list \<Rightarrow>
   nat \<Rightarrow> nat \<Rightarrow> nat \<Rightarrow> nat \<Rightarrow> nat \<Rightarrow> nat \<Rightarrow> nat \<Rightarrow> nat \<Rightarrow> 'u World \<Rightarrow> 'g Variables \<times> 'u World" where
  "mcmc L g0 Y' A' M' C1' C2' beta_m' alpha_a' pi_m' pi_a' n' w1' w2' q' q1' q2' burnIn niter w =
     fold (Iteration L burnIn) [0..<niter]
       (Variables_ctor L g0 Y' A' M' C1' C2' beta_m' alpha_a' pi_m' pi_a' n' w1' w2' q' q1' q2', w)"

section \<open>The specification's vocabulary\<close>

text \<open>
  The definitions of this section follow the words of the specification; the theorems
  compare them with the code above.
\<close>

text \<open>
  The log-posterior of a probability vector \<open>p\<close> under indicators \<open>r\<close>:
  \<open>\<Sum>j<k. r[j] * log(p[j]) + (1 - r[j]) * log(1 - p[j])\<close>.
\<close>

definition logPosterior :: "T list \<Rightarrow> T list \<Rightarrow> nat \<Rightarrow> T" where
  "logPosterior r p k =
     fold (\<lambda>j acc. acc + (r ! j * log_T (p ! j) + (Fin 1 - r ! j) * log_T (Fin 1 - p ! j)))
       [0..<k] (Fin 0)"

text \<open>
  Names for what the adaptive prior step draws: the two proposals (from the first and the
  second call of \<^verbatim>\<open>rand( -0.01, 0.01 )\<close>) and the uniform number (from the third call).
\<close>

definition proposal_m :: "('g, 'u) Lib \<Rightarrow> 'g Variables \<Rightarrow> 'u World \<Rightarrow> T list" where
  "proposal_m L s w =
     map (\<lambda>j. propose (q s) (pi_m s ! j)
                 (fst (data_rand L (q s) (Fin (- (1 / 100))) (Fin (1 / 100)) (crand w)) ! j))
       [0..<q s]"

definition proposal_a :: "('g, 'u) Lib \<Rightarrow> 'g Variables \<Rightarrow> 'u World \<Rightarrow> T list" where
  "proposal_a L s w =
     map (\<lambda>j. propose (q s) (pi_a s ! j)
                 (fst (data_rand L (q s) (Fin (- (1 / 100))) (Fin (1 / 100))
                        (snd (data_rand L (q s) (Fin (- (1 / 100))) (Fin (1 / 100)) (crand w)))) ! j))
       [0..<q s]"

definition uniform_draw :: "('g, 'u) Lib \<Rightarrow> 'g Variables \<Rightarrow> 'u World \<Rightarrow> T" where
  "uniform_draw L s w =
     fst (data_rand L 1 (Fin 0) (Fin 1)
           (snd (data_rand L (q s) (Fin (- (1 / 100))) (Fin (1 / 100))
                  (snd (data_rand L (q s) (Fin (- (1 / 100))) (Fin (1 / 100)) (crand w)))))) ! 0"

definition logRatio :: "('g, 'u) Lib \<Rightarrow> 'g Variables \<Rightarrow> 'u World \<Rightarrow> T" where
  "logRatio L s w =
     logPosterior (r3 s) (proposal_a L s w) (q s) - logPosterior (r3 s) (pi_a s) (q s)
       + logPosterior (r1 s) (proposal_m L s w) (q s) - logPosterior (r1 s) (pi_m s) (q s)"

text \<open>The range \<open>(1/q\<^sup>2, 1]\<close> of a prior inclusion probability.\<close>

definition in_range :: "nat \<Rightarrow> T \<Rightarrow> bool" where
  "in_range k x \<longleftrightarrow> Fin (1 / (real k * real k)) < x \<and> x \<le> Fin 1"

text \<open>
  A row of the result sink: for each mediator in order \<open>beta_m[j] pi_m[j] alpha_a[j] pi_a[j]\<close>,
  each followed by a space, then \<open>beta_a\<close> and a newline.
\<close>

definition sink_row :: "('g, 'u) Lib \<Rightarrow> 'g Variables \<Rightarrow> string" where
  "sink_row L s =
     concat (map (\<lambda>j. put_T L (beta_m s ! j) @ '' '' @ put_T L (pi_m s ! j) @ '' ''
                       @ put_T L (alpha_a s ! j) @ '' '' @ put_T L (pi_a s ! j) @ '' '') [0..<q s])
     @ put_T L (beta_a s ! 0) @ [CHR 0x0A]"

text \<open>The random state of the process after the three calls of \<^verbatim>\<open>rand\<close> of one iteration.\<close>

definition rand_after :: "('g, 'u) Lib \<Rightarrow> nat \<Rightarrow> 'u \<Rightarrow> 'u" where
  "rand_after L k u =
     snd (data_rand L 1 (Fin 0) (Fin 1)
           (snd (data_rand L k (Fin (- (1 / 100))) (Fin (1 / 100))
                  (snd (data_rand L k (Fin (- (1 / 100))) (Fin (1 / 100)) u)))))"

text \<open>
  A sum over an index range, and a variance drawn as the reciprocal of a Gamma draw with
  a shape and a rate (\<^verbatim>\<open>std::gamma_distribution\<close> takes the shape and the scale, the
  reciprocal of the rate). The second component is the engine's state after the draw.
\<close>

definition sum_T :: "(nat \<Rightarrow> T) \<Rightarrow> nat \<Rightarrow> T" where
  "sum_T f k = fold (\<lambda>j acc. acc + f j) [0..<k] (Fin 0)"

definition inv_gamma :: "('g, 'u) Lib \<Rightarrow> T \<Rightarrow> T \<Rightarrow> 'g \<Rightarrow> T \<times> 'g" where
  "inv_gamma L shape rate g =
     (Fin 1 / fst (gamma_distribution L shape (Fin 1 / rate) g),
      snd (gamma_distribution L shape (Fin 1 / rate) g))"

text \<open>
  Two points of the sweep: the state the noise variances are drawn from, and the state
  the component variances are drawn from (after the coefficient and indicator updates).
\<close>

definition before_noise :: "nat \<Rightarrow> 'g Variables \<Rightarrow> 'g Variables" where
  "before_noise it s = update_var_m (if it = 0 then Residual it s else s)"

definition before_components :: "('g, 'u) Lib \<Rightarrow> nat \<Rightarrow> 'g Variables \<Rightarrow> 'g Variables" where
  "before_components L it s =
     (let s = update_var_a (update_sigma_e_g L (before_noise it s));
          s = fold (mediator_step L) [0..<q s] s;
          s = fold (update_beta_c L) [0..<w1 s] s
      in update_beta_a L s)"

text \<open>
  The log-odds of an inclusion indicator, from the active (\<open>1\<close>) and inactive (\<open>0\<close>)
  posterior mean and variance, the two prior variances and the prior inclusion
  probability; and the indicator drawn from it: below \<open>300\<close> a Bernoulli draw with success
  probability \<open>p / (1 + p)\<close> for \<open>p = exp logOdds\<close>, otherwise \<open>1\<close>.
\<close>

definition logOdds :: "T \<Rightarrow> T \<Rightarrow> T \<Rightarrow> T \<Rightarrow> T \<Rightarrow> T \<Rightarrow> T \<Rightarrow> T" where
  "logOdds mean1 var1 mean0 var0 priorVar1 priorVar0 p =
     mean1 * mean1 / (Fin 2 * var1) - mean0 * mean0 / (Fin 2 * var0)
       + Fin (1 / 2) * log_T (var1 / priorVar1) - Fin (1 / 2) * log_T (var0 / priorVar0)
       + log_T (p / (Fin 1 - p))"

definition indicator_draw :: "('g, 'u) Lib \<Rightarrow> T \<Rightarrow> 'g \<Rightarrow> T" where
  "indicator_draw L lo g =
     (if lo < Fin 300
      then (if fst (bernoulli_distribution L (exp_T lo / (Fin 1 + exp_T lo)) g) then Fin 1 else Fin 0)
      else Fin 1)"

text \<open>
  The state in which mediator \<open>j\<close> is visited, and within the visit the states in which
  \<open>r1[j]\<close> and \<open>r3[j]\<close> are updated.
\<close>

definition before_step :: "('g, 'u) Lib \<Rightarrow> nat \<Rightarrow> 'g Variables \<Rightarrow> nat \<Rightarrow> 'g Variables" where
  "before_step L it s j =
     fold (mediator_step L) [0..<j] (update_var_a (update_sigma_e_g L (before_noise it s)))"

definition at_r1 :: "('g, 'u) Lib \<Rightarrow> nat \<Rightarrow> 'g Variables \<Rightarrow> 'g Variables" where
  "at_r1 L j s =
     (let (mu_mj, mu_alpha_aj) = mu_sums s j
      in update_alpha_a L j (mu_alpha_aj * (var_alpha_a0 s ! 0 / sigma_g s))
           (mu_alpha_aj * (var_alpha_a1 s ! 0 / sigma_g s))
           (update_beta_m L j (mu_mj / (sigma_e s / sigma_m0 s + M2norm s ! j))
              (mu_mj / (sigma_e s / sigma_m1 s + M2norm s ! j)) s))"

definition at_r3 :: "('g, 'u) Lib \<Rightarrow> nat \<Rightarrow> 'g Variables \<Rightarrow> 'g Variables" where
  "at_r3 L j s =
     (let (mu_mj, mu_alpha_aj) = mu_sums s j
      in update_r1 L j (mu_mj / (sigma_e s / sigma_m0 s + M2norm s ! j))
           (mu_mj / (sigma_e s / sigma_m1 s + M2norm s ! j)) (at_r1 L j s))"

text \<open>
  The residual caches. What the run needs of the library: a Normal draw with a finite
  mean and a finite positive standard deviation is finite, and a Gamma draw with a
  finite positive shape and scale is finite and positive. Outside these parameters
  (a mean that is not-a-number, say) the library may return anything. The containers
  have the sizes the dimensions say and hold finite values, and no column of the
  covariate matrices \<open>C1\<close> and \<open>C2\<close> is zero. The three defining formulas are
  \<open>res1 = Y - beta_a A - M beta_m - C1 beta_c\<close>, column \<open>j\<close> of \<open>res2\<close> is
  \<open>M[:,j] - A alpha_a[j] - C2 alpha_c[:,j]\<close>, and column \<open>j\<close> of \<open>res2_c\<close> is
  \<open>M[:,j] - C2 alpha_c[:,j]\<close>; \<open>caches_ok\<close> says that the caches hold exactly these values,
  which are numbers.
\<close>

definition posfin :: "T \<Rightarrow> bool" where
  "posfin x \<longleftrightarrow> fin x \<and> Fin 0 < x"

definition nonneg :: "T \<Rightarrow> bool" where
  "nonneg x \<longleftrightarrow> fin x \<and> Fin 0 \<le> x"

definition lib_ok :: "('g, 'u) Lib \<Rightarrow> bool" where
  "lib_ok L \<longleftrightarrow>
     (\<forall>m sd g. fin m \<and> posfin sd \<longrightarrow> fin (fst (normal_distribution L m sd g)))
     \<and> (\<forall>a b g. posfin a \<and> posfin b \<longrightarrow> posfin (fst (gamma_distribution L a b g)))"

definition cols_nonzero :: "nat \<Rightarrow> nat \<Rightarrow> T list \<Rightarrow> bool" where
  "cols_nonzero d k X \<longleftrightarrow> (\<forall>j<k. \<exists>i<d. X ! (j * d + i) \<noteq> Fin 0)"

definition wf :: "'g Variables \<Rightarrow> bool" where
  "wf s \<longleftrightarrow>
     length (Y s) = n s \<and> length (A s) = n s \<and> length (M s) = n s * q s
     \<and> length (C1 s) = n s * w1 s \<and> length (C2 s) = n s * w2 s
     \<and> length (beta_a s) = 1 \<and> length (beta_m s) = q s \<and> length (alpha_a s) = q s
     \<and> length (beta_c s) = w1 s \<and> length (alpha_c s) = w2 s * q s
     \<and> length (r1 s) = q s \<and> length (r3 s) = q s
     \<and> list_all fin (Y s) \<and> list_all fin (A s) \<and> list_all fin (M s)
     \<and> list_all fin (C1 s) \<and> list_all fin (C2 s)
     \<and> list_all fin (beta_a s) \<and> list_all fin (beta_m s) \<and> list_all fin (alpha_a s)
     \<and> list_all fin (beta_c s) \<and> list_all fin (alpha_c s)
     \<and> list_all fin (r1 s) \<and> list_all fin (r3 s)"

definition res1_formula :: "'g Variables \<Rightarrow> nat \<Rightarrow> real" where
  "res1_formula s i =
     rv (Y s ! i) - rv (beta_a s ! 0) * rv (A s ! i)
       - (\<Sum>k<q s. rv (M s ! (k * n s + i)) * rv (beta_m s ! k))
       - (\<Sum>k<w1 s. rv (C1 s ! (k * n s + i)) * rv (beta_c s ! k))"

definition res2_c_formula :: "'g Variables \<Rightarrow> nat \<Rightarrow> nat \<Rightarrow> real" where
  "res2_c_formula s j i =
     rv (M s ! (j * n s + i))
       - (\<Sum>k<w2 s. rv (C2 s ! (k * n s + i)) * rv (alpha_c s ! (j * w2 s + k)))"

definition res2_formula :: "'g Variables \<Rightarrow> nat \<Rightarrow> nat \<Rightarrow> real" where
  "res2_formula s j i =
     rv (M s ! (j * n s + i)) - rv (A s ! i) * rv (alpha_a s ! j)
       - (\<Sum>k<w2 s. rv (C2 s ! (k * n s + i)) * rv (alpha_c s ! (j * w2 s + k)))"

definition caches_ok :: "'g Variables \<Rightarrow> bool" where
  "caches_ok s \<longleftrightarrow>
     length (res1 s) = n s \<and> length (res2 s) = n s * q s \<and> length (res2_c s) = n s * q s
     \<and> (\<forall>i<n s. res1 s ! i = Fin (res1_formula s i))
     \<and> (\<forall>j<q s. \<forall>i<n s. res2 s ! (j * n s + i) = Fin (res2_formula s j i))
     \<and> (\<forall>j<q s. \<forall>i<n s. res2_c s ! (j * n s + i) = Fin (res2_c_formula s j i))"

text \<open>The members the two predicates read.\<close>

definition view ::
  "'g Variables \<Rightarrow> nat \<times> nat \<times> nat \<times> nat \<times> T list \<times> T list \<times> T list \<times> T list \<times> T list \<times> T list
     \<times> T list \<times> T list \<times> T list \<times> T list \<times> T list \<times> T list \<times> T list \<times> T list \<times> T list" where
  "view s = (n s, w1 s, w2 s, q s, Y s, A s, M s, C1 s, C2 s, beta_a s, beta_m s, alpha_a s,
             beta_c s, alpha_c s, r1 s, r3 s, res1 s, res2 s, res2_c s)"

text \<open>What the caller hands to the constructor: containers of the stated sizes, finite.\<close>

definition input_ok ::
  "nat \<Rightarrow> nat \<Rightarrow> nat \<Rightarrow> nat \<Rightarrow> T list \<Rightarrow> T list \<Rightarrow> T list \<Rightarrow> T list \<Rightarrow> T list \<Rightarrow> T list \<Rightarrow> T list \<Rightarrow> bool" where
  "input_ok nn ww1 ww2 qq uY uA uM uC1 uC2 ubm uaa \<longleftrightarrow>
     length uY = nn \<and> length uA = nn \<and> length uM = nn * qq
     \<and> length uC1 = nn * ww1 \<and> length uC2 = nn * ww2
     \<and> length ubm = qq \<and> length uaa = qq
     \<and> list_all fin uY \<and> list_all fin uA \<and> list_all fin uM
     \<and> list_all fin uC1 \<and> list_all fin uC2 \<and> list_all fin ubm \<and> list_all fin uaa"

text \<open>
  What the run keeps besides: the variance components are finite and positive, the
  squared column norms are finite, those of \<open>C1\<close> and \<open>C2\<close> positive, and the indicators are
  \<open>0\<close> or \<open>1\<close>; within a sweep the cached posterior variances are finite and positive.
\<close>

definition indicator :: "T \<Rightarrow> bool" where
  "indicator x \<longleftrightarrow> x = Fin 0 \<or> x = Fin 1"

definition pos :: "'g Variables \<Rightarrow> bool" where
  "pos s \<longleftrightarrow>
     posfin (sigma_m0 s) \<and> posfin (sigma_m1 s) \<and> posfin (sigma_a s) \<and> posfin (sigma_ma0 s)
     \<and> posfin (sigma_ma1 s) \<and> posfin (sigma_g s) \<and> posfin (sigma_e s)
     \<and> length (A2norm s) = 1 \<and> length (M2norm s) = q s
     \<and> length (C1_2norm s) = w1 s \<and> length (C2_2norm s) = w2 s
     \<and> list_all nonneg (A2norm s) \<and> list_all nonneg (M2norm s)
     \<and> list_all posfin (C1_2norm s) \<and> list_all posfin (C2_2norm s)
     \<and> list_all indicator (r1 s) \<and> list_all indicator (r3 s)"

definition vars_ok :: "'g Variables \<Rightarrow> bool" where
  "vars_ok s \<longleftrightarrow>
     length (var_m0 s) = q s \<and> length (var_m1 s) = q s
     \<and> list_all posfin (var_m0 s) \<and> list_all posfin (var_m1 s)
     \<and> posfin (var_alpha_a0 s ! 0) \<and> posfin (var_alpha_a1 s ! 0) \<and> posfin (var_a s ! 0)"

text \<open>
  The invariant of the run: \<open>q\<close> and the two containers have length \<open>k\<close>, and every entry
  lies in the range.
\<close>

definition pi_ok :: "nat \<Rightarrow> 'g Variables \<Rightarrow> bool" where
  "pi_ok k s \<longleftrightarrow> q s = k \<and> length (pi_m s) = k \<and> length (pi_a s) = k
     \<and> (\<forall>j<k. in_range k (pi_m s ! j) \<and> in_range k (pi_a s ! j))"

section \<open>A concrete instance\<close>

text \<open>
  A library whose draws are fixed: a Gamma draw is \<open>1\<close>, a Normal draw is its mean (\<open>0\<close>
  for a mean that is not finite), a
  Bernoulli draw succeeds from \<open>1/2\<close> on, \<^verbatim>\<open>rand( a, b )\<close> fills with the midpoint. Both
  random states count the draws. The data has two observations, two mediators and one
  covariate per stage.
\<close>

definition L0 :: "(nat, nat) Lib" where
  "L0 = \<lparr> gamma_distribution = (\<lambda>shape scale g. (Fin 1, Suc g)),
          normal_distribution = (\<lambda>mean sd g. (Fin (rv mean), Suc g)),
          bernoulli_distribution = (\<lambda>p g. (Fin (1 / 2) \<le> p, Suc g)),
          data_rand = (\<lambda>k a b u. (replicate k ((a + b) / Fin 2), Suc u)),
          srand = (\<lambda>it u. it),
          put_T = (\<lambda>x. (case x of Fin a \<Rightarrow> (if a = 0 then ''0'' else ''x'') | _ \<Rightarrow> ''nan'')) \<rparr>"

text \<open>The same library, except that a Normal draw is its mean whatever the mean is.\<close>

definition L1 :: "(nat, nat) Lib" where
  "L1 = L0\<lparr>normal_distribution := (\<lambda>mean sd g. (mean, Suc g))\<rparr>"

definition w0 :: "nat World" where
  "w0 = \<lparr> crand = 0, console = [], files = Map.empty \<rparr>"

definition s0 :: "nat Variables" where
  "s0 = Variables_ctor L0 0
          [Fin 1, Fin 2] [Fin 1, Fin (- 1)] [Fin 1, Fin 0, Fin 0, Fin 1] [Fin 2, Fin 1] [Fin 1, Fin 2]
          [Fin 0, Fin 0] [Fin 0, Fin 0] [Fin (1 / 2), Fin (1 / 2)] [Fin (1 / 2), Fin (1 / 2)]
          2 1 1 2 0 0"

text \<open>The run on this data, with both prior vectors set to \<open>p\<close>.\<close>

definition mcmc0 :: "T \<Rightarrow> nat \<Rightarrow> nat \<Rightarrow> nat Variables \<times> nat World" where
  "mcmc0 p burnIn niter =
     mcmc L0 0 [Fin 1, Fin 2] [Fin 1, Fin (- 1)] [Fin 1, Fin 0, Fin 0, Fin 1] [Fin 2, Fin 1] [Fin 1, Fin 2]
       [Fin 0, Fin 0] [Fin 0, Fin 0] [p, p] [p, p] 2 1 1 2 0 0 burnIn niter w0"

section \<open>Arithmetic of \<open>T\<close> and loops over index ranges\<close>

lemma times_T_commute: "(x::T) * y = y * x"
  by (cases x; cases y) (auto simp: mult.commute)

lemma plus_T_commute: "(x::T) + y = y + x"
  by (cases x; cases y) (auto simp: add.commute)

lemma plus_NaN_right [simp]: "(x::T) + NaN = NaN"
  by (cases x) auto

lemma times_NaN_right [simp]: "(x::T) * NaN = NaN"
  by (cases x) auto

lemma minus_NaN_right [simp]: "(x::T) - NaN = NaN"
  by (simp add: minus_T_def)

lemma minus_NaN_left [simp]: "NaN - (x::T) = NaN"
  by (simp add: minus_T_def)

lemma less_NaN_right [simp]: "\<not> (x::T) < NaN"
  by (cases x) auto

lemma upd_map_drop:
  "k < length a \<Longrightarrow> (map f [0..<k] @ drop k a)[k := v] = map f [0..<k] @ v # drop (Suc k) a"
  by (simp add: list_update_append upd_conv_take_nth_drop)

lemma map_nth_map_upt: "map (\<lambda>j. map f [0..<k] ! j) [0..<k] = map f [0..<k]"
  by (simp add: list_eq_iff_nth_eq)

lemma fold_pair_update:
  "k \<le> length a \<Longrightarrow> k \<le> length b \<Longrightarrow>
   fold (\<lambda>j (a, b). (a[j := f j], b[j := g j])) [0..<k] (a, b)
     = (map f [0..<k] @ drop k a, map g [0..<k] @ drop k b)"
proof (induction k)
  case 0
  then show ?case by simp
next
  case (Suc k)
  then show ?case by (simp add: upd_map_drop)
qed

lemma L0_simps:
  "gamma_distribution L0 shape scale g = (Fin 1, Suc g)"
  "normal_distribution L0 mean sd g = (Fin (rv mean), Suc g)"
  "bernoulli_distribution L0 p g = (Fin (1 / 2) \<le> p, Suc g)"
  "data_rand L0 k a b u = (replicate k ((a + b) / Fin 2), Suc u)"
  "srand L0 it u = it"
  by (simp_all add: L0_def)

lemma ctor_pi:
  "q (Variables_ctor L g0 uY uA uM uC1 uC2 ubm uaa upm upa nn ww1 ww2 qq qq1 qq2) = qq"
  "pi_m (Variables_ctor L g0 uY uA uM uC1 uC2 ubm uaa upm upa nn ww1 ww2 qq qq1 qq2) = upm"
  "pi_a (Variables_ctor L g0 uY uA uM uC1 uC2 ubm uaa upm upa nn ww1 ww2 qq qq1 qq2) = upa"
  by (simp_all add: Variables_ctor_def Let_def split_beta)

lemma fold_upd_length [simp]:
  "length (fold (\<lambda>i C. C[h i := f i C]) xs C) = length C"
  by (induction xs arbitrary: C) simp_all

lemma fold_upd_range:
  "fold (\<lambda>i C. C[b + i := f i (C ! (b + i))]) [0..<m] C ! x
     = (if b \<le> x \<and> x < b + m \<and> x < length C then f (x - b) (C ! x) else C ! x)"
proof (induction m)
  case 0
  then show ?case by auto
next
  case (Suc m)
  show ?case
  proof (cases "x = b + m")
    case True
    then show ?thesis using Suc by (simp add: nth_list_update list_update_beyond)
  next
    case False
    then show ?thesis using Suc by (auto simp add: nth_list_update)
  qed
qed

lemma fold_upd_range0:
  "fold (\<lambda>i C. C[i := f i (C ! i)]) [0..<m] C ! x
     = (if x < m \<and> x < length C then f x (C ! x) else C ! x)"
  using fold_upd_range [of 0 f m C x] by simp

section \<open>Frame lemmas: the members a block leaves alone\<close>

lemma fold_preserves:
  "(\<And>x s. sel (f x s) = sel s) \<Longrightarrow> sel (fold f xs s) = sel s"
  by (induction xs arbitrary: s) simp_all

lemma fold_snd_preserves:
  "(\<And>x p. sel (snd (f x p)) = sel (snd p)) \<Longrightarrow> sel (snd (fold f xs p)) = sel (snd p)"
  by (induction xs arbitrary: p) simp_all

lemma fold_frame:
  "(\<And>x s. n (fa0 x s) = n s) \<Longrightarrow> n (fold fa0 xa0 sa0) = n sa0"
  "(\<And>x s. w1 (fa1 x s) = w1 s) \<Longrightarrow> w1 (fold fa1 xa1 sa1) = w1 sa1"
  "(\<And>x s. w2 (fa2 x s) = w2 s) \<Longrightarrow> w2 (fold fa2 xa2 sa2) = w2 sa2"
  "(\<And>x s. q (fa3 x s) = q s) \<Longrightarrow> q (fold fa3 xa3 sa3) = q sa3"
  "(\<And>x s. q1 (fa4 x s) = q1 s) \<Longrightarrow> q1 (fold fa4 xa4 sa4) = q1 sa4"
  "(\<And>x s. q2 (fa5 x s) = q2 s) \<Longrightarrow> q2 (fold fa5 xa5 sa5) = q2 sa5"
  "(\<And>x s. generator (fa6 x s) = generator s) \<Longrightarrow> generator (fold fa6 xa6 sa6) = generator sa6"
  "(\<And>x s. sigma_m0 (fa7 x s) = sigma_m0 s) \<Longrightarrow> sigma_m0 (fold fa7 xa7 sa7) = sigma_m0 sa7"
  "(\<And>x s. sigma_m1 (fa8 x s) = sigma_m1 s) \<Longrightarrow> sigma_m1 (fold fa8 xa8 sa8) = sigma_m1 sa8"
  "(\<And>x s. sigma_a (fa9 x s) = sigma_a s) \<Longrightarrow> sigma_a (fold fa9 xa9 sa9) = sigma_a sa9"
  "(\<And>x s. sigma_ma0 (fa10 x s) = sigma_ma0 s) \<Longrightarrow> sigma_ma0 (fold fa10 xa10 sa10) = sigma_ma0 sa10"
  "(\<And>x s. sigma_ma1 (fa11 x s) = sigma_ma1 s) \<Longrightarrow> sigma_ma1 (fold fa11 xa11 sa11) = sigma_ma1 sa11"
  "(\<And>x s. sigma_g (fa12 x s) = sigma_g s) \<Longrightarrow> sigma_g (fold fa12 xa12 sa12) = sigma_g sa12"
  "(\<And>x s. sigma_e (fa13 x s) = sigma_e s) \<Longrightarrow> sigma_e (fold fa13 xa13 sa13) = sigma_e sa13"
  "(\<And>x s. alpha_a (fa14 x s) = alpha_a s) \<Longrightarrow> alpha_a (fold fa14 xa14 sa14) = alpha_a sa14"
  "(\<And>x s. beta_a (fa15 x s) = beta_a s) \<Longrightarrow> beta_a (fold fa15 xa15 sa15) = beta_a sa15"
  "(\<And>x s. beta_m (fa16 x s) = beta_m s) \<Longrightarrow> beta_m (fold fa16 xa16 sa16) = beta_m sa16"
  "(\<And>x s. pi_m (fa17 x s) = pi_m s) \<Longrightarrow> pi_m (fold fa17 xa17 sa17) = pi_m sa17"
  "(\<And>x s. pi_a (fa18 x s) = pi_a s) \<Longrightarrow> pi_a (fold fa18 xa18 sa18) = pi_a sa18"
  "(\<And>x s. alpha_c (fa19 x s) = alpha_c s) \<Longrightarrow> alpha_c (fold fa19 xa19 sa19) = alpha_c sa19"
  "(\<And>x s. beta_c (fa20 x s) = beta_c s) \<Longrightarrow> beta_c (fold fa20 xa20 sa20) = beta_c sa20"
  "(\<And>x s. A (fa21 x s) = A s) \<Longrightarrow> A (fold fa21 xa21 sa21) = A sa21"
  "(\<And>x s. A2norm (fa22 x s) = A2norm s) \<Longrightarrow> A2norm (fold fa22 xa22 sa22) = A2norm sa22"
  "(\<And>x s. M (fa23 x s) = M s) \<Longrightarrow> M (fold fa23 xa23 sa23) = M sa23"
  "(\<And>x s. M2norm (fa24 x s) = M2norm s) \<Longrightarrow> M2norm (fold fa24 xa24 sa24) = M2norm sa24"
  "(\<And>x s. Y (fa25 x s) = Y s) \<Longrightarrow> Y (fold fa25 xa25 sa25) = Y sa25"
  "(\<And>x s. C1 (fa26 x s) = C1 s) \<Longrightarrow> C1 (fold fa26 xa26 sa26) = C1 sa26"
  "(\<And>x s. C2 (fa27 x s) = C2 s) \<Longrightarrow> C2 (fold fa27 xa27 sa27) = C2 sa27"
  "(\<And>x s. C1_2norm (fa28 x s) = C1_2norm s) \<Longrightarrow> C1_2norm (fold fa28 xa28 sa28) = C1_2norm sa28"
  "(\<And>x s. C2_2norm (fa29 x s) = C2_2norm s) \<Longrightarrow> C2_2norm (fold fa29 xa29 sa29) = C2_2norm sa29"
  "(\<And>x s. r1 (fa30 x s) = r1 s) \<Longrightarrow> r1 (fold fa30 xa30 sa30) = r1 sa30"
  "(\<And>x s. r3 (fa31 x s) = r3 s) \<Longrightarrow> r3 (fold fa31 xa31 sa31) = r3 sa31"
  "(\<And>x s. res1 (fa32 x s) = res1 s) \<Longrightarrow> res1 (fold fa32 xa32 sa32) = res1 sa32"
  "(\<And>x s. res2 (fa33 x s) = res2 s) \<Longrightarrow> res2 (fold fa33 xa33 sa33) = res2 sa33"
  "(\<And>x s. res2_c (fa34 x s) = res2_c s) \<Longrightarrow> res2_c (fold fa34 xa34 sa34) = res2_c sa34"
  "(\<And>x s. var_m0 (fa35 x s) = var_m0 s) \<Longrightarrow> var_m0 (fold fa35 xa35 sa35) = var_m0 sa35"
  "(\<And>x s. var_m1 (fa36 x s) = var_m1 s) \<Longrightarrow> var_m1 (fold fa36 xa36 sa36) = var_m1 sa36"
  "(\<And>x s. var_alpha_a0 (fa37 x s) = var_alpha_a0 s) \<Longrightarrow> var_alpha_a0 (fold fa37 xa37 sa37) = var_alpha_a0 sa37"
  "(\<And>x s. var_alpha_a1 (fa38 x s) = var_alpha_a1 s) \<Longrightarrow> var_alpha_a1 (fold fa38 xa38 sa38) = var_alpha_a1 sa38"
  "(\<And>x s. var_a (fa39 x s) = var_a s) \<Longrightarrow> var_a (fold fa39 xa39 sa39) = var_a sa39"
  "(\<And>x s. old (fa40 x s) = old s) \<Longrightarrow> old (fold fa40 xa40 sa40) = old sa40"
  by (rule fold_preserves, assumption)+

lemma fold_snd_frame:
  "(\<And>x p. n (snd (ga0 x p)) = n (snd p)) \<Longrightarrow> n (snd (fold ga0 xa0 pa0)) = n (snd pa0)"
  "(\<And>x p. w1 (snd (ga1 x p)) = w1 (snd p)) \<Longrightarrow> w1 (snd (fold ga1 xa1 pa1)) = w1 (snd pa1)"
  "(\<And>x p. w2 (snd (ga2 x p)) = w2 (snd p)) \<Longrightarrow> w2 (snd (fold ga2 xa2 pa2)) = w2 (snd pa2)"
  "(\<And>x p. q (snd (ga3 x p)) = q (snd p)) \<Longrightarrow> q (snd (fold ga3 xa3 pa3)) = q (snd pa3)"
  "(\<And>x p. q1 (snd (ga4 x p)) = q1 (snd p)) \<Longrightarrow> q1 (snd (fold ga4 xa4 pa4)) = q1 (snd pa4)"
  "(\<And>x p. q2 (snd (ga5 x p)) = q2 (snd p)) \<Longrightarrow> q2 (snd (fold ga5 xa5 pa5)) = q2 (snd pa5)"
  "(\<And>x p. generator (snd (ga6 x p)) = generator (snd p)) \<Longrightarrow> generator (snd (fold ga6 xa6 pa6)) = generator (snd pa6)"
  "(\<And>x p. sigma_m0 (snd (ga7 x p)) = sigma_m0 (snd p)) \<Longrightarrow> sigma_m0 (snd (fold ga7 xa7 pa7)) = sigma_m0 (snd pa7)"
  "(\<And>x p. sigma_m1 (snd (ga8 x p)) = sigma_m1 (snd p)) \<Longrightarrow> sigma_m1 (snd (fold ga8 xa8 pa8)) = sigma_m1 (snd pa8)"
  "(\<And>x p. sigma_a (snd (ga9 x p)) = sigma_a (snd p)) \<Longrightarrow> sigma_a (snd (fold ga9 xa9 pa9)) = sigma_a (snd pa9)"
  "(\<And>x p. sigma_ma0 (snd (ga10 x p)) = sigma_ma0 (snd p)) \<Longrightarrow> sigma_ma0 (snd (fold ga10 xa10 pa10)) = sigma_ma0 (snd pa10)"
  "(\<And>x p. sigma_ma1 (snd (ga11 x p)) = sigma_ma1 (snd p)) \<Longrightarrow> sigma_ma1 (snd (fold ga11 xa11 pa11)) = sigma_ma1 (snd pa11)"
  "(\<And>x p. sigma_g (snd (ga12 x p)) = sigma_g (snd p)) \<Longrightarrow> sigma_g (snd (fold ga12 xa12 pa12)) = sigma_g (snd pa12)"
  "(\<And>x p. sigma_e (snd (ga13 x p)) = sigma_e (snd p)) \<Longrightarrow> sigma_e (snd (fold ga13 xa13 pa13)) = sigma_e (snd pa13)"
  "(\<And>x p. alpha_a (snd (ga14 x p)) = alpha_a (snd p)) \<Longrightarrow> alpha_a (snd (fold ga14 xa14 pa14)) = alpha_a (snd pa14)"
  "(\<And>x p. beta_a (snd (ga15 x p)) = beta_a (snd p)) \<Longrightarrow> beta_a (snd (fold ga15 xa15 pa15)) = beta_a (snd pa15)"
  "(\<And>x p. beta_m (snd (ga16 x p)) = beta_m (snd p)) \<Longrightarrow> beta_m (snd (fold ga16 xa16 pa16)) = beta_m (snd pa16)"
  "(\<And>x p. pi_m (snd (ga17 x p)) = pi_m (snd p)) \<Longrightarrow> pi_m (snd (fold ga17 xa17 pa17)) = pi_m (snd pa17)"
  "(\<And>x p. pi_a (snd (ga18 x p)) = pi_a (snd p)) \<Longrightarrow> pi_a (snd (fold ga18 xa18 pa18)) = pi_a (snd pa18)"
  "(\<And>x p. alpha_c (snd (ga19 x p)) = alpha_c (snd p)) \<Longrightarrow> alpha_c (snd (fold ga19 xa19 pa19)) = alpha_c (snd pa19)"
  "(\<And>x p. beta_c (snd (ga20 x p)) = beta_c (snd p)) \<Longrightarrow> beta_c (snd (fold ga20 xa20 pa20)) = beta_c (snd pa20)"
  "(\<And>x p. A (snd (ga21 x p)) = A (snd p)) \<Longrightarrow> A (snd (fold ga21 xa21 pa21)) = A (snd pa21)"
  "(\<And>x p. A2norm (snd (ga22 x p)) = A2norm (snd p)) \<Longrightarrow> A2norm (snd (fold ga22 xa22 pa22)) = A2norm (snd pa22)"
  "(\<And>x p. M (snd (ga23 x p)) = M (snd p)) \<Longrightarrow> M (snd (fold ga23 xa23 pa23)) = M (snd pa23)"
  "(\<And>x p. M2norm (snd (ga24 x p)) = M2norm (snd p)) \<Longrightarrow> M2norm (snd (fold ga24 xa24 pa24)) = M2norm (snd pa24)"
  "(\<And>x p. Y (snd (ga25 x p)) = Y (snd p)) \<Longrightarrow> Y (snd (fold ga25 xa25 pa25)) = Y (snd pa25)"
  "(\<And>x p. C1 (snd (ga26 x p)) = C1 (snd p)) \<Longrightarrow> C1 (snd (fold ga26 xa26 pa26)) = C1 (snd pa26)"
  "(\<And>x p. C2 (snd (ga27 x p)) = C2 (snd p)) \<Longrightarrow> C2 (snd (fold ga27 xa27 pa27)) = C2 (snd pa27)"
  "(\<And>x p. C1_2norm (snd (ga28 x p)) = C1_2norm (snd p)) \<Longrightarrow> C1_2norm (snd (fold ga28 xa28 pa28)) = C1_2norm (snd pa28)"
  "(\<And>x p. C2_2norm (snd (ga29 x p)) = C2_2norm (snd p)) \<Longrightarrow> C2_2norm (snd (fold ga29 xa29 pa29)) = C2_2norm (snd pa29)"
  "(\<And>x p. r1 (snd (ga30 x p)) = r1 (snd p)) \<Longrightarrow> r1 (snd (fold ga30 xa30 pa30)) = r1 (snd pa30)"
  "(\<And>x p. r3 (snd (ga31 x p)) = r3 (snd p)) \<Longrightarrow> r3 (snd (fold ga31 xa31 pa31)) = r3 (snd pa31)"
  "(\<And>x p. res1 (snd (ga32 x p)) = res1 (snd p)) \<Longrightarrow> res1 (snd (fold ga32 xa32 pa32)) = res1 (snd pa32)"
  "(\<And>x p. res2 (snd (ga33 x p)) = res2 (snd p)) \<Longrightarrow> res2 (snd (fold ga33 xa33 pa33)) = res2 (snd pa33)"
  "(\<And>x p. res2_c (snd (ga34 x p)) = res2_c (snd p)) \<Longrightarrow> res2_c (snd (fold ga34 xa34 pa34)) = res2_c (snd pa34)"
  "(\<And>x p. var_m0 (snd (ga35 x p)) = var_m0 (snd p)) \<Longrightarrow> var_m0 (snd (fold ga35 xa35 pa35)) = var_m0 (snd pa35)"
  "(\<And>x p. var_m1 (snd (ga36 x p)) = var_m1 (snd p)) \<Longrightarrow> var_m1 (snd (fold ga36 xa36 pa36)) = var_m1 (snd pa36)"
  "(\<And>x p. var_alpha_a0 (snd (ga37 x p)) = var_alpha_a0 (snd p)) \<Longrightarrow> var_alpha_a0 (snd (fold ga37 xa37 pa37)) = var_alpha_a0 (snd pa37)"
  "(\<And>x p. var_alpha_a1 (snd (ga38 x p)) = var_alpha_a1 (snd p)) \<Longrightarrow> var_alpha_a1 (snd (fold ga38 xa38 pa38)) = var_alpha_a1 (snd pa38)"
  "(\<And>x p. var_a (snd (ga39 x p)) = var_a (snd p)) \<Longrightarrow> var_a (snd (fold ga39 xa39 pa39)) = var_a (snd pa39)"
  "(\<And>x p. old (snd (ga40 x p)) = old (snd p)) \<Longrightarrow> old (snd (fold ga40 xa40 pa40)) = old (snd pa40)"
  by (rule fold_snd_preserves, assumption)+

lemma Residual_frame [simp]:
  "n (Residual it s) = n s"
  "w1 (Residual it s) = w1 s"
  "w2 (Residual it s) = w2 s"
  "q (Residual it s) = q s"
  "q1 (Residual it s) = q1 s"
  "q2 (Residual it s) = q2 s"
  "generator (Residual it s) = generator s"
  "sigma_m0 (Residual it s) = sigma_m0 s"
  "sigma_m1 (Residual it s) = sigma_m1 s"
  "sigma_a (Residual it s) = sigma_a s"
  "sigma_ma0 (Residual it s) = sigma_ma0 s"
  "sigma_ma1 (Residual it s) = sigma_ma1 s"
  "sigma_g (Residual it s) = sigma_g s"
  "sigma_e (Residual it s) = sigma_e s"
  "alpha_a (Residual it s) = alpha_a s"
  "beta_a (Residual it s) = beta_a s"
  "beta_m (Residual it s) = beta_m s"
  "pi_m (Residual it s) = pi_m s"
  "pi_a (Residual it s) = pi_a s"
  "alpha_c (Residual it s) = alpha_c s"
  "beta_c (Residual it s) = beta_c s"
  "A (Residual it s) = A s"
  "A2norm (Residual it s) = A2norm s"
  "M (Residual it s) = M s"
  "M2norm (Residual it s) = M2norm s"
  "Y (Residual it s) = Y s"
  "C1 (Residual it s) = C1 s"
  "C2 (Residual it s) = C2 s"
  "C1_2norm (Residual it s) = C1_2norm s"
  "C2_2norm (Residual it s) = C2_2norm s"
  "r1 (Residual it s) = r1 s"
  "r3 (Residual it s) = r3 s"
  "var_m0 (Residual it s) = var_m0 s"
  "var_m1 (Residual it s) = var_m1 s"
  "var_alpha_a0 (Residual it s) = var_alpha_a0 s"
  "var_alpha_a1 (Residual it s) = var_alpha_a1 s"
  "var_a (Residual it s) = var_a s"
  "old (Residual it s) = old s"
  by (simp_all add: Residual_def Let_def fold_frame fold_snd_frame)

lemma update_var_m_frame [simp]:
  "n (update_var_m s) = n s"
  "w1 (update_var_m s) = w1 s"
  "w2 (update_var_m s) = w2 s"
  "q (update_var_m s) = q s"
  "q1 (update_var_m s) = q1 s"
  "q2 (update_var_m s) = q2 s"
  "generator (update_var_m s) = generator s"
  "sigma_m0 (update_var_m s) = sigma_m0 s"
  "sigma_m1 (update_var_m s) = sigma_m1 s"
  "sigma_a (update_var_m s) = sigma_a s"
  "sigma_ma0 (update_var_m s) = sigma_ma0 s"
  "sigma_ma1 (update_var_m s) = sigma_ma1 s"
  "sigma_g (update_var_m s) = sigma_g s"
  "sigma_e (update_var_m s) = sigma_e s"
  "alpha_a (update_var_m s) = alpha_a s"
  "beta_a (update_var_m s) = beta_a s"
  "beta_m (update_var_m s) = beta_m s"
  "pi_m (update_var_m s) = pi_m s"
  "pi_a (update_var_m s) = pi_a s"
  "alpha_c (update_var_m s) = alpha_c s"
  "beta_c (update_var_m s) = beta_c s"
  "A (update_var_m s) = A s"
  "A2norm (update_var_m s) = A2norm s"
  "M (update_var_m s) = M s"
  "M2norm (update_var_m s) = M2norm s"
  "Y (update_var_m s) = Y s"
  "C1 (update_var_m s) = C1 s"
  "C2 (update_var_m s) = C2 s"
  "C1_2norm (update_var_m s) = C1_2norm s"
  "C2_2norm (update_var_m s) = C2_2norm s"
  "r1 (update_var_m s) = r1 s"
  "r3 (update_var_m s) = r3 s"
  "res1 (update_var_m s) = res1 s"
  "res2 (update_var_m s) = res2 s"
  "res2_c (update_var_m s) = res2_c s"
  "var_alpha_a0 (update_var_m s) = var_alpha_a0 s"
  "var_alpha_a1 (update_var_m s) = var_alpha_a1 s"
  "var_a (update_var_m s) = var_a s"
  "old (update_var_m s) = old s"
  by (simp_all add: update_var_m_def Let_def fold_frame fold_snd_frame)

lemma update_sigma_e_g_frame [simp]:
  "n (update_sigma_e_g L s) = n s"
  "w1 (update_sigma_e_g L s) = w1 s"
  "w2 (update_sigma_e_g L s) = w2 s"
  "q (update_sigma_e_g L s) = q s"
  "q1 (update_sigma_e_g L s) = q1 s"
  "q2 (update_sigma_e_g L s) = q2 s"
  "sigma_m0 (update_sigma_e_g L s) = sigma_m0 s"
  "sigma_m1 (update_sigma_e_g L s) = sigma_m1 s"
  "sigma_a (update_sigma_e_g L s) = sigma_a s"
  "sigma_ma0 (update_sigma_e_g L s) = sigma_ma0 s"
  "sigma_ma1 (update_sigma_e_g L s) = sigma_ma1 s"
  "alpha_a (update_sigma_e_g L s) = alpha_a s"
  "beta_a (update_sigma_e_g L s) = beta_a s"
  "beta_m (update_sigma_e_g L s) = beta_m s"
  "pi_m (update_sigma_e_g L s) = pi_m s"
  "pi_a (update_sigma_e_g L s) = pi_a s"
  "alpha_c (update_sigma_e_g L s) = alpha_c s"
  "beta_c (update_sigma_e_g L s) = beta_c s"
  "A (update_sigma_e_g L s) = A s"
  "A2norm (update_sigma_e_g L s) = A2norm s"
  "M (update_sigma_e_g L s) = M s"
  "M2norm (update_sigma_e_g L s) = M2norm s"
  "Y (update_sigma_e_g L s) = Y s"
  "C1 (update_sigma_e_g L s) = C1 s"
  "C2 (update_sigma_e_g L s) = C2 s"
  "C1_2norm (update_sigma_e_g L s) = C1_2norm s"
  "C2_2norm (update_sigma_e_g L s) = C2_2norm s"
  "r1 (update_sigma_e_g L s) = r1 s"
  "r3 (update_sigma_e_g L s) = r3 s"
  "res1 (update_sigma_e_g L s) = res1 s"
  "res2 (update_sigma_e_g L s) = res2 s"
  "res2_c (update_sigma_e_g L s) = res2_c s"
  "var_m0 (update_sigma_e_g L s) = var_m0 s"
  "var_m1 (update_sigma_e_g L s) = var_m1 s"
  "var_alpha_a0 (update_sigma_e_g L s) = var_alpha_a0 s"
  "var_alpha_a1 (update_sigma_e_g L s) = var_alpha_a1 s"
  "var_a (update_sigma_e_g L s) = var_a s"
  "old (update_sigma_e_g L s) = old s"
  by (simp_all add: update_sigma_e_g_def Let_def split_beta fold_frame fold_snd_frame)

lemma update_var_a_frame [simp]:
  "n (update_var_a s) = n s"
  "w1 (update_var_a s) = w1 s"
  "w2 (update_var_a s) = w2 s"
  "q (update_var_a s) = q s"
  "q1 (update_var_a s) = q1 s"
  "q2 (update_var_a s) = q2 s"
  "generator (update_var_a s) = generator s"
  "sigma_m0 (update_var_a s) = sigma_m0 s"
  "sigma_m1 (update_var_a s) = sigma_m1 s"
  "sigma_a (update_var_a s) = sigma_a s"
  "sigma_ma0 (update_var_a s) = sigma_ma0 s"
  "sigma_ma1 (update_var_a s) = sigma_ma1 s"
  "sigma_g (update_var_a s) = sigma_g s"
  "sigma_e (update_var_a s) = sigma_e s"
  "alpha_a (update_var_a s) = alpha_a s"
  "beta_a (update_var_a s) = beta_a s"
  "beta_m (update_var_a s) = beta_m s"
  "pi_m (update_var_a s) = pi_m s"
  "pi_a (update_var_a s) = pi_a s"
  "alpha_c (update_var_a s) = alpha_c s"
  "beta_c (update_var_a s) = beta_c s"
  "A (update_var_a s) = A s"
  "A2norm (update_var_a s) = A2norm s"
  "M (update_var_a s) = M s"
  "M2norm (update_var_a s) = M2norm s"
  "Y (update_var_a s) = Y s"
  "C1 (update_var_a s) = C1 s"
  "C2 (update_var_a s) = C2 s"
  "C1_2norm (update_var_a s) = C1_2norm s"
  "C2_2norm (update_var_a s) = C2_2norm s"
  "r1 (update_var_a s) = r1 s"
  "r3 (update_var_a s) = r3 s"
  "res1 (update_var_a s) = res1 s"
  "res2 (update_var_a s) = res2 s"
  "res2_c (update_var_a s) = res2_c s"
  "var_m0 (update_var_a s) = var_m0 s"
  "var_m1 (update_var_a s) = var_m1 s"
  "old (update_var_a s) = old s"
  by (simp_all add: update_var_a_def Let_def fold_frame fold_snd_frame)

lemma update_beta_m_frame [simp]:
  "n (update_beta_m L j a b s) = n s"
  "w1 (update_beta_m L j a b s) = w1 s"
  "w2 (update_beta_m L j a b s) = w2 s"
  "q (update_beta_m L j a b s) = q s"
  "q1 (update_beta_m L j a b s) = q1 s"
  "q2 (update_beta_m L j a b s) = q2 s"
  "sigma_m0 (update_beta_m L j a b s) = sigma_m0 s"
  "sigma_m1 (update_beta_m L j a b s) = sigma_m1 s"
  "sigma_a (update_beta_m L j a b s) = sigma_a s"
  "sigma_ma0 (update_beta_m L j a b s) = sigma_ma0 s"
  "sigma_ma1 (update_beta_m L j a b s) = sigma_ma1 s"
  "sigma_g (update_beta_m L j a b s) = sigma_g s"
  "sigma_e (update_beta_m L j a b s) = sigma_e s"
  "alpha_a (update_beta_m L j a b s) = alpha_a s"
  "beta_a (update_beta_m L j a b s) = beta_a s"
  "pi_m (update_beta_m L j a b s) = pi_m s"
  "pi_a (update_beta_m L j a b s) = pi_a s"
  "alpha_c (update_beta_m L j a b s) = alpha_c s"
  "beta_c (update_beta_m L j a b s) = beta_c s"
  "A (update_beta_m L j a b s) = A s"
  "A2norm (update_beta_m L j a b s) = A2norm s"
  "M (update_beta_m L j a b s) = M s"
  "M2norm (update_beta_m L j a b s) = M2norm s"
  "Y (update_beta_m L j a b s) = Y s"
  "C1 (update_beta_m L j a b s) = C1 s"
  "C2 (update_beta_m L j a b s) = C2 s"
  "C1_2norm (update_beta_m L j a b s) = C1_2norm s"
  "C2_2norm (update_beta_m L j a b s) = C2_2norm s"
  "r1 (update_beta_m L j a b s) = r1 s"
  "r3 (update_beta_m L j a b s) = r3 s"
  "res2 (update_beta_m L j a b s) = res2 s"
  "res2_c (update_beta_m L j a b s) = res2_c s"
  "var_m0 (update_beta_m L j a b s) = var_m0 s"
  "var_m1 (update_beta_m L j a b s) = var_m1 s"
  "var_alpha_a0 (update_beta_m L j a b s) = var_alpha_a0 s"
  "var_alpha_a1 (update_beta_m L j a b s) = var_alpha_a1 s"
  "var_a (update_beta_m L j a b s) = var_a s"
  by (simp_all add: update_beta_m_def Let_def split_beta fold_frame fold_snd_frame)

lemma update_alpha_a_frame [simp]:
  "n (update_alpha_a L j a b s) = n s"
  "w1 (update_alpha_a L j a b s) = w1 s"
  "w2 (update_alpha_a L j a b s) = w2 s"
  "q (update_alpha_a L j a b s) = q s"
  "q1 (update_alpha_a L j a b s) = q1 s"
  "q2 (update_alpha_a L j a b s) = q2 s"
  "sigma_m0 (update_alpha_a L j a b s) = sigma_m0 s"
  "sigma_m1 (update_alpha_a L j a b s) = sigma_m1 s"
  "sigma_a (update_alpha_a L j a b s) = sigma_a s"
  "sigma_ma0 (update_alpha_a L j a b s) = sigma_ma0 s"
  "sigma_ma1 (update_alpha_a L j a b s) = sigma_ma1 s"
  "sigma_g (update_alpha_a L j a b s) = sigma_g s"
  "sigma_e (update_alpha_a L j a b s) = sigma_e s"
  "beta_a (update_alpha_a L j a b s) = beta_a s"
  "beta_m (update_alpha_a L j a b s) = beta_m s"
  "pi_m (update_alpha_a L j a b s) = pi_m s"
  "pi_a (update_alpha_a L j a b s) = pi_a s"
  "alpha_c (update_alpha_a L j a b s) = alpha_c s"
  "beta_c (update_alpha_a L j a b s) = beta_c s"
  "A (update_alpha_a L j a b s) = A s"
  "A2norm (update_alpha_a L j a b s) = A2norm s"
  "M (update_alpha_a L j a b s) = M s"
  "M2norm (update_alpha_a L j a b s) = M2norm s"
  "Y (update_alpha_a L j a b s) = Y s"
  "C1 (update_alpha_a L j a b s) = C1 s"
  "C2 (update_alpha_a L j a b s) = C2 s"
  "C1_2norm (update_alpha_a L j a b s) = C1_2norm s"
  "C2_2norm (update_alpha_a L j a b s) = C2_2norm s"
  "r1 (update_alpha_a L j a b s) = r1 s"
  "r3 (update_alpha_a L j a b s) = r3 s"
  "res1 (update_alpha_a L j a b s) = res1 s"
  "res2_c (update_alpha_a L j a b s) = res2_c s"
  "var_m0 (update_alpha_a L j a b s) = var_m0 s"
  "var_m1 (update_alpha_a L j a b s) = var_m1 s"
  "var_alpha_a0 (update_alpha_a L j a b s) = var_alpha_a0 s"
  "var_alpha_a1 (update_alpha_a L j a b s) = var_alpha_a1 s"
  "var_a (update_alpha_a L j a b s) = var_a s"
  by (simp_all add: update_alpha_a_def Let_def split_beta fold_frame fold_snd_frame)

lemma update_r1_frame [simp]:
  "n (update_r1 L j a b s) = n s"
  "w1 (update_r1 L j a b s) = w1 s"
  "w2 (update_r1 L j a b s) = w2 s"
  "q (update_r1 L j a b s) = q s"
  "q1 (update_r1 L j a b s) = q1 s"
  "q2 (update_r1 L j a b s) = q2 s"
  "sigma_m0 (update_r1 L j a b s) = sigma_m0 s"
  "sigma_m1 (update_r1 L j a b s) = sigma_m1 s"
  "sigma_a (update_r1 L j a b s) = sigma_a s"
  "sigma_ma0 (update_r1 L j a b s) = sigma_ma0 s"
  "sigma_ma1 (update_r1 L j a b s) = sigma_ma1 s"
  "sigma_g (update_r1 L j a b s) = sigma_g s"
  "sigma_e (update_r1 L j a b s) = sigma_e s"
  "alpha_a (update_r1 L j a b s) = alpha_a s"
  "beta_a (update_r1 L j a b s) = beta_a s"
  "beta_m (update_r1 L j a b s) = beta_m s"
  "pi_m (update_r1 L j a b s) = pi_m s"
  "pi_a (update_r1 L j a b s) = pi_a s"
  "alpha_c (update_r1 L j a b s) = alpha_c s"
  "beta_c (update_r1 L j a b s) = beta_c s"
  "A (update_r1 L j a b s) = A s"
  "A2norm (update_r1 L j a b s) = A2norm s"
  "M (update_r1 L j a b s) = M s"
  "M2norm (update_r1 L j a b s) = M2norm s"
  "Y (update_r1 L j a b s) = Y s"
  "C1 (update_r1 L j a b s) = C1 s"
  "C2 (update_r1 L j a b s) = C2 s"
  "C1_2norm (update_r1 L j a b s) = C1_2norm s"
  "C2_2norm (update_r1 L j a b s) = C2_2norm s"
  "r3 (update_r1 L j a b s) = r3 s"
  "res1 (update_r1 L j a b s) = res1 s"
  "res2 (update_r1 L j a b s) = res2 s"
  "res2_c (update_r1 L j a b s) = res2_c s"
  "var_m0 (update_r1 L j a b s) = var_m0 s"
  "var_m1 (update_r1 L j a b s) = var_m1 s"
  "var_alpha_a0 (update_r1 L j a b s) = var_alpha_a0 s"
  "var_alpha_a1 (update_r1 L j a b s) = var_alpha_a1 s"
  "var_a (update_r1 L j a b s) = var_a s"
  "old (update_r1 L j a b s) = old s"
  by (simp_all add: update_r1_def Let_def split_beta fold_frame fold_snd_frame)

lemma update_r3_frame [simp]:
  "n (update_r3 L j a b s) = n s"
  "w1 (update_r3 L j a b s) = w1 s"
  "w2 (update_r3 L j a b s) = w2 s"
  "q (update_r3 L j a b s) = q s"
  "q1 (update_r3 L j a b s) = q1 s"
  "q2 (update_r3 L j a b s) = q2 s"
  "sigma_m0 (update_r3 L j a b s) = sigma_m0 s"
  "sigma_m1 (update_r3 L j a b s) = sigma_m1 s"
  "sigma_a (update_r3 L j a b s) = sigma_a s"
  "sigma_ma0 (update_r3 L j a b s) = sigma_ma0 s"
  "sigma_ma1 (update_r3 L j a b s) = sigma_ma1 s"
  "sigma_g (update_r3 L j a b s) = sigma_g s"
  "sigma_e (update_r3 L j a b s) = sigma_e s"
  "alpha_a (update_r3 L j a b s) = alpha_a s"
  "beta_a (update_r3 L j a b s) = beta_a s"
  "beta_m (update_r3 L j a b s) = beta_m s"
  "pi_m (update_r3 L j a b s) = pi_m s"
  "pi_a (update_r3 L j a b s) = pi_a s"
  "alpha_c (update_r3 L j a b s) = alpha_c s"
  "beta_c (update_r3 L j a b s) = beta_c s"
  "A (update_r3 L j a b s) = A s"
  "A2norm (update_r3 L j a b s) = A2norm s"
  "M (update_r3 L j a b s) = M s"
  "M2norm (update_r3 L j a b s) = M2norm s"
  "Y (update_r3 L j a b s) = Y s"
  "C1 (update_r3 L j a b s) = C1 s"
  "C2 (update_r3 L j a b s) = C2 s"
  "C1_2norm (update_r3 L j a b s) = C1_2norm s"
  "C2_2norm (update_r3 L j a b s) = C2_2norm s"
  "r1 (update_r3 L j a b s) = r1 s"
  "res1 (update_r3 L j a b s) = res1 s"
  "res2 (update_r3 L j a b s) = res2 s"
  "res2_c (update_r3 L j a b s) = res2_c s"
  "var_m0 (update_r3 L j a b s) = var_m0 s"
  "var_m1 (update_r3 L j a b s) = var_m1 s"
  "var_alpha_a0 (update_r3 L j a b s) = var_alpha_a0 s"
  "var_alpha_a1 (update_r3 L j a b s) = var_alpha_a1 s"
  "var_a (update_r3 L j a b s) = var_a s"
  "old (update_r3 L j a b s) = old s"
  by (simp_all add: update_r3_def Let_def split_beta fold_frame fold_snd_frame)

lemma update_alpha_c_frame [simp]:
  "n (update_alpha_c L j j1 s) = n s"
  "w1 (update_alpha_c L j j1 s) = w1 s"
  "w2 (update_alpha_c L j j1 s) = w2 s"
  "q (update_alpha_c L j j1 s) = q s"
  "q1 (update_alpha_c L j j1 s) = q1 s"
  "q2 (update_alpha_c L j j1 s) = q2 s"
  "sigma_m0 (update_alpha_c L j j1 s) = sigma_m0 s"
  "sigma_m1 (update_alpha_c L j j1 s) = sigma_m1 s"
  "sigma_a (update_alpha_c L j j1 s) = sigma_a s"
  "sigma_ma0 (update_alpha_c L j j1 s) = sigma_ma0 s"
  "sigma_ma1 (update_alpha_c L j j1 s) = sigma_ma1 s"
  "sigma_g (update_alpha_c L j j1 s) = sigma_g s"
  "sigma_e (update_alpha_c L j j1 s) = sigma_e s"
  "alpha_a (update_alpha_c L j j1 s) = alpha_a s"
  "beta_a (update_alpha_c L j j1 s) = beta_a s"
  "beta_m (update_alpha_c L j j1 s) = beta_m s"
  "pi_m (update_alpha_c L j j1 s) = pi_m s"
  "pi_a (update_alpha_c L j j1 s) = pi_a s"
  "beta_c (update_alpha_c L j j1 s) = beta_c s"
  "A (update_alpha_c L j j1 s) = A s"
  "A2norm (update_alpha_c L j j1 s) = A2norm s"
  "M (update_alpha_c L j j1 s) = M s"
  "M2norm (update_alpha_c L j j1 s) = M2norm s"
  "Y (update_alpha_c L j j1 s) = Y s"
  "C1 (update_alpha_c L j j1 s) = C1 s"
  "C2 (update_alpha_c L j j1 s) = C2 s"
  "C1_2norm (update_alpha_c L j j1 s) = C1_2norm s"
  "C2_2norm (update_alpha_c L j j1 s) = C2_2norm s"
  "r1 (update_alpha_c L j j1 s) = r1 s"
  "r3 (update_alpha_c L j j1 s) = r3 s"
  "res1 (update_alpha_c L j j1 s) = res1 s"
  "var_m0 (update_alpha_c L j j1 s) = var_m0 s"
  "var_m1 (update_alpha_c L j j1 s) = var_m1 s"
  "var_alpha_a0 (update_alpha_c L j j1 s) = var_alpha_a0 s"
  "var_alpha_a1 (update_alpha_c L j j1 s) = var_alpha_a1 s"
  "var_a (update_alpha_c L j j1 s) = var_a s"
  by (simp_all add: update_alpha_c_def Let_def split_beta fold_frame fold_snd_frame)

lemma mediator_step_frame [simp]:
  "n (mediator_step L j s) = n s"
  "w1 (mediator_step L j s) = w1 s"
  "w2 (mediator_step L j s) = w2 s"
  "q (mediator_step L j s) = q s"
  "q1 (mediator_step L j s) = q1 s"
  "q2 (mediator_step L j s) = q2 s"
  "sigma_m0 (mediator_step L j s) = sigma_m0 s"
  "sigma_m1 (mediator_step L j s) = sigma_m1 s"
  "sigma_a (mediator_step L j s) = sigma_a s"
  "sigma_ma0 (mediator_step L j s) = sigma_ma0 s"
  "sigma_ma1 (mediator_step L j s) = sigma_ma1 s"
  "sigma_g (mediator_step L j s) = sigma_g s"
  "sigma_e (mediator_step L j s) = sigma_e s"
  "beta_a (mediator_step L j s) = beta_a s"
  "pi_m (mediator_step L j s) = pi_m s"
  "pi_a (mediator_step L j s) = pi_a s"
  "beta_c (mediator_step L j s) = beta_c s"
  "A (mediator_step L j s) = A s"
  "A2norm (mediator_step L j s) = A2norm s"
  "M (mediator_step L j s) = M s"
  "M2norm (mediator_step L j s) = M2norm s"
  "Y (mediator_step L j s) = Y s"
  "C1 (mediator_step L j s) = C1 s"
  "C2 (mediator_step L j s) = C2 s"
  "C1_2norm (mediator_step L j s) = C1_2norm s"
  "C2_2norm (mediator_step L j s) = C2_2norm s"
  "var_m0 (mediator_step L j s) = var_m0 s"
  "var_m1 (mediator_step L j s) = var_m1 s"
  "var_alpha_a0 (mediator_step L j s) = var_alpha_a0 s"
  "var_alpha_a1 (mediator_step L j s) = var_alpha_a1 s"
  "var_a (mediator_step L j s) = var_a s"
  by (simp_all add: mediator_step_def Let_def split_beta fold_frame fold_snd_frame)

lemma update_beta_c_frame [simp]:
  "n (update_beta_c L j s) = n s"
  "w1 (update_beta_c L j s) = w1 s"
  "w2 (update_beta_c L j s) = w2 s"
  "q (update_beta_c L j s) = q s"
  "q1 (update_beta_c L j s) = q1 s"
  "q2 (update_beta_c L j s) = q2 s"
  "sigma_m0 (update_beta_c L j s) = sigma_m0 s"
  "sigma_m1 (update_beta_c L j s) = sigma_m1 s"
  "sigma_a (update_beta_c L j s) = sigma_a s"
  "sigma_ma0 (update_beta_c L j s) = sigma_ma0 s"
  "sigma_ma1 (update_beta_c L j s) = sigma_ma1 s"
  "sigma_g (update_beta_c L j s) = sigma_g s"
  "sigma_e (update_beta_c L j s) = sigma_e s"
  "alpha_a (update_beta_c L j s) = alpha_a s"
  "beta_a (update_beta_c L j s) = beta_a s"
  "beta_m (update_beta_c L j s) = beta_m s"
  "pi_m (update_beta_c L j s) = pi_m s"
  "pi_a (update_beta_c L j s) = pi_a s"
  "alpha_c (update_beta_c L j s) = alpha_c s"
  "A (update_beta_c L j s) = A s"
  "A2norm (update_beta_c L j s) = A2norm s"
  "M (update_beta_c L j s) = M s"
  "M2norm (update_beta_c L j s) = M2norm s"
  "Y (update_beta_c L j s) = Y s"
  "C1 (update_beta_c L j s) = C1 s"
  "C2 (update_beta_c L j s) = C2 s"
  "C1_2norm (update_beta_c L j s) = C1_2norm s"
  "C2_2norm (update_beta_c L j s) = C2_2norm s"
  "r1 (update_beta_c L j s) = r1 s"
  "r3 (update_beta_c L j s) = r3 s"
  "res2 (update_beta_c L j s) = res2 s"
  "res2_c (update_beta_c L j s) = res2_c s"
  "var_m0 (update_beta_c L j s) = var_m0 s"
  "var_m1 (update_beta_c L j s) = var_m1 s"
  "var_alpha_a0 (update_beta_c L j s) = var_alpha_a0 s"
  "var_alpha_a1 (update_beta_c L j s) = var_alpha_a1 s"
  "var_a (update_beta_c L j s) = var_a s"
  by (simp_all add: update_beta_c_def Let_def split_beta fold_frame fold_snd_frame)

lemma update_beta_a_frame [simp]:
  "n (update_beta_a L s) = n s"
  "w1 (update_beta_a L s) = w1 s"
  "w2 (update_beta_a L s) = w2 s"
  "q (update_beta_a L s) = q s"
  "q1 (update_beta_a L s) = q1 s"
  "q2 (update_beta_a L s) = q2 s"
  "sigma_m0 (update_beta_a L s) = sigma_m0 s"
  "sigma_m1 (update_beta_a L s) = sigma_m1 s"
  "sigma_a (update_beta_a L s) = sigma_a s"
  "sigma_ma0 (update_beta_a L s) = sigma_ma0 s"
  "sigma_ma1 (update_beta_a L s) = sigma_ma1 s"
  "sigma_g (update_beta_a L s) = sigma_g s"
  "sigma_e (update_beta_a L s) = sigma_e s"
  "alpha_a (update_beta_a L s) = alpha_a s"
  "beta_m (update_beta_a L s) = beta_m s"
  "pi_m (update_beta_a L s) = pi_m s"
  "pi_a (update_beta_a L s) = pi_a s"
  "alpha_c (update_beta_a L s) = alpha_c s"
  "beta_c (update_beta_a L s) = beta_c s"
  "A (update_beta_a L s) = A s"
  "A2norm (update_beta_a L s) = A2norm s"
  "M (update_beta_a L s) = M s"
  "M2norm (update_beta_a L s) = M2norm s"
  "Y (update_beta_a L s) = Y s"
  "C1 (update_beta_a L s) = C1 s"
  "C2 (update_beta_a L s) = C2 s"
  "C1_2norm (update_beta_a L s) = C1_2norm s"
  "C2_2norm (update_beta_a L s) = C2_2norm s"
  "r1 (update_beta_a L s) = r1 s"
  "r3 (update_beta_a L s) = r3 s"
  "res2 (update_beta_a L s) = res2 s"
  "res2_c (update_beta_a L s) = res2_c s"
  "var_m0 (update_beta_a L s) = var_m0 s"
  "var_m1 (update_beta_a L s) = var_m1 s"
  "var_alpha_a0 (update_beta_a L s) = var_alpha_a0 s"
  "var_alpha_a1 (update_beta_a L s) = var_alpha_a1 s"
  "var_a (update_beta_a L s) = var_a s"
  by (simp_all add: update_beta_a_def Let_def split_beta fold_frame fold_snd_frame)

lemma update_sigma_m_a_frame [simp]:
  "n (update_sigma_m_a L s) = n s"
  "w1 (update_sigma_m_a L s) = w1 s"
  "w2 (update_sigma_m_a L s) = w2 s"
  "q (update_sigma_m_a L s) = q s"
  "q1 (update_sigma_m_a L s) = q1 s"
  "q2 (update_sigma_m_a L s) = q2 s"
  "sigma_g (update_sigma_m_a L s) = sigma_g s"
  "sigma_e (update_sigma_m_a L s) = sigma_e s"
  "alpha_a (update_sigma_m_a L s) = alpha_a s"
  "beta_a (update_sigma_m_a L s) = beta_a s"
  "beta_m (update_sigma_m_a L s) = beta_m s"
  "pi_m (update_sigma_m_a L s) = pi_m s"
  "pi_a (update_sigma_m_a L s) = pi_a s"
  "alpha_c (update_sigma_m_a L s) = alpha_c s"
  "beta_c (update_sigma_m_a L s) = beta_c s"
  "A (update_sigma_m_a L s) = A s"
  "A2norm (update_sigma_m_a L s) = A2norm s"
  "M (update_sigma_m_a L s) = M s"
  "M2norm (update_sigma_m_a L s) = M2norm s"
  "Y (update_sigma_m_a L s) = Y s"
  "C1 (update_sigma_m_a L s) = C1 s"
  "C2 (update_sigma_m_a L s) = C2 s"
  "C1_2norm (update_sigma_m_a L s) = C1_2norm s"
  "C2_2norm (update_sigma_m_a L s) = C2_2norm s"
  "r1 (update_sigma_m_a L s) = r1 s"
  "r3 (update_sigma_m_a L s) = r3 s"
  "res1 (update_sigma_m_a L s) = res1 s"
  "res2 (update_sigma_m_a L s) = res2 s"
  "res2_c (update_sigma_m_a L s) = res2_c s"
  "var_m0 (update_sigma_m_a L s) = var_m0 s"
  "var_m1 (update_sigma_m_a L s) = var_m1 s"
  "var_alpha_a0 (update_sigma_m_a L s) = var_alpha_a0 s"
  "var_alpha_a1 (update_sigma_m_a L s) = var_alpha_a1 s"
  "var_a (update_sigma_m_a L s) = var_a s"
  "old (update_sigma_m_a L s) = old s"
  by (simp_all add: update_sigma_m_a_def Let_def split_beta fold_frame fold_snd_frame)

lemma gibbs_sweep_frame [simp]:
  "n (gibbs_sweep L it s) = n s"
  "w1 (gibbs_sweep L it s) = w1 s"
  "w2 (gibbs_sweep L it s) = w2 s"
  "q (gibbs_sweep L it s) = q s"
  "q1 (gibbs_sweep L it s) = q1 s"
  "q2 (gibbs_sweep L it s) = q2 s"
  "pi_m (gibbs_sweep L it s) = pi_m s"
  "pi_a (gibbs_sweep L it s) = pi_a s"
  "A (gibbs_sweep L it s) = A s"
  "A2norm (gibbs_sweep L it s) = A2norm s"
  "M (gibbs_sweep L it s) = M s"
  "M2norm (gibbs_sweep L it s) = M2norm s"
  "Y (gibbs_sweep L it s) = Y s"
  "C1 (gibbs_sweep L it s) = C1 s"
  "C2 (gibbs_sweep L it s) = C2 s"
  "C1_2norm (gibbs_sweep L it s) = C1_2norm s"
  "C2_2norm (gibbs_sweep L it s) = C2_2norm s"
  by (simp_all add: gibbs_sweep_def Let_def fold_frame fold_snd_frame)

lemma before_noise_frame [simp]:
  "n (before_noise it s) = n s"
  "w1 (before_noise it s) = w1 s"
  "w2 (before_noise it s) = w2 s"
  "q (before_noise it s) = q s"
  "q1 (before_noise it s) = q1 s"
  "q2 (before_noise it s) = q2 s"
  "generator (before_noise it s) = generator s"
  "sigma_m0 (before_noise it s) = sigma_m0 s"
  "sigma_m1 (before_noise it s) = sigma_m1 s"
  "sigma_a (before_noise it s) = sigma_a s"
  "sigma_ma0 (before_noise it s) = sigma_ma0 s"
  "sigma_ma1 (before_noise it s) = sigma_ma1 s"
  "sigma_g (before_noise it s) = sigma_g s"
  "sigma_e (before_noise it s) = sigma_e s"
  "alpha_a (before_noise it s) = alpha_a s"
  "beta_a (before_noise it s) = beta_a s"
  "beta_m (before_noise it s) = beta_m s"
  "pi_m (before_noise it s) = pi_m s"
  "pi_a (before_noise it s) = pi_a s"
  "alpha_c (before_noise it s) = alpha_c s"
  "beta_c (before_noise it s) = beta_c s"
  "A (before_noise it s) = A s"
  "A2norm (before_noise it s) = A2norm s"
  "M (before_noise it s) = M s"
  "M2norm (before_noise it s) = M2norm s"
  "Y (before_noise it s) = Y s"
  "C1 (before_noise it s) = C1 s"
  "C2 (before_noise it s) = C2 s"
  "C1_2norm (before_noise it s) = C1_2norm s"
  "C2_2norm (before_noise it s) = C2_2norm s"
  "r1 (before_noise it s) = r1 s"
  "r3 (before_noise it s) = r3 s"
  "var_alpha_a0 (before_noise it s) = var_alpha_a0 s"
  "var_alpha_a1 (before_noise it s) = var_alpha_a1 s"
  "var_a (before_noise it s) = var_a s"
  "old (before_noise it s) = old s"
  by (simp_all add: before_noise_def fold_frame fold_snd_frame)

lemma before_step_frame [simp]:
  "n (before_step L it s j) = n s"
  "w1 (before_step L it s j) = w1 s"
  "w2 (before_step L it s j) = w2 s"
  "q (before_step L it s j) = q s"
  "q1 (before_step L it s j) = q1 s"
  "q2 (before_step L it s j) = q2 s"
  "sigma_m0 (before_step L it s j) = sigma_m0 s"
  "sigma_m1 (before_step L it s j) = sigma_m1 s"
  "sigma_a (before_step L it s j) = sigma_a s"
  "sigma_ma0 (before_step L it s j) = sigma_ma0 s"
  "sigma_ma1 (before_step L it s j) = sigma_ma1 s"
  "beta_a (before_step L it s j) = beta_a s"
  "pi_m (before_step L it s j) = pi_m s"
  "pi_a (before_step L it s j) = pi_a s"
  "beta_c (before_step L it s j) = beta_c s"
  "A (before_step L it s j) = A s"
  "A2norm (before_step L it s j) = A2norm s"
  "M (before_step L it s j) = M s"
  "M2norm (before_step L it s j) = M2norm s"
  "Y (before_step L it s j) = Y s"
  "C1 (before_step L it s j) = C1 s"
  "C2 (before_step L it s j) = C2 s"
  "C1_2norm (before_step L it s j) = C1_2norm s"
  "C2_2norm (before_step L it s j) = C2_2norm s"
  by (simp_all add: before_step_def fold_frame fold_snd_frame)

lemma before_components_frame [simp]:
  "n (before_components L it s) = n s"
  "w1 (before_components L it s) = w1 s"
  "w2 (before_components L it s) = w2 s"
  "q (before_components L it s) = q s"
  "q1 (before_components L it s) = q1 s"
  "q2 (before_components L it s) = q2 s"
  "sigma_m0 (before_components L it s) = sigma_m0 s"
  "sigma_m1 (before_components L it s) = sigma_m1 s"
  "sigma_a (before_components L it s) = sigma_a s"
  "sigma_ma0 (before_components L it s) = sigma_ma0 s"
  "sigma_ma1 (before_components L it s) = sigma_ma1 s"
  "pi_m (before_components L it s) = pi_m s"
  "pi_a (before_components L it s) = pi_a s"
  "A (before_components L it s) = A s"
  "A2norm (before_components L it s) = A2norm s"
  "M (before_components L it s) = M s"
  "M2norm (before_components L it s) = M2norm s"
  "Y (before_components L it s) = Y s"
  "C1 (before_components L it s) = C1 s"
  "C2 (before_components L it s) = C2 s"
  "C1_2norm (before_components L it s) = C1_2norm s"
  "C2_2norm (before_components L it s) = C2_2norm s"
  by (simp_all add: before_components_def Let_def fold_frame fold_snd_frame)

lemma adaptive_prior_frame [simp]:
  "n (fst (adaptive_prior L (s, w))) = n s"
  "w1 (fst (adaptive_prior L (s, w))) = w1 s"
  "w2 (fst (adaptive_prior L (s, w))) = w2 s"
  "q (fst (adaptive_prior L (s, w))) = q s"
  "q1 (fst (adaptive_prior L (s, w))) = q1 s"
  "q2 (fst (adaptive_prior L (s, w))) = q2 s"
  "generator (fst (adaptive_prior L (s, w))) = generator s"
  "sigma_m0 (fst (adaptive_prior L (s, w))) = sigma_m0 s"
  "sigma_m1 (fst (adaptive_prior L (s, w))) = sigma_m1 s"
  "sigma_a (fst (adaptive_prior L (s, w))) = sigma_a s"
  "sigma_ma0 (fst (adaptive_prior L (s, w))) = sigma_ma0 s"
  "sigma_ma1 (fst (adaptive_prior L (s, w))) = sigma_ma1 s"
  "sigma_g (fst (adaptive_prior L (s, w))) = sigma_g s"
  "sigma_e (fst (adaptive_prior L (s, w))) = sigma_e s"
  "alpha_a (fst (adaptive_prior L (s, w))) = alpha_a s"
  "beta_a (fst (adaptive_prior L (s, w))) = beta_a s"
  "beta_m (fst (adaptive_prior L (s, w))) = beta_m s"
  "alpha_c (fst (adaptive_prior L (s, w))) = alpha_c s"
  "beta_c (fst (adaptive_prior L (s, w))) = beta_c s"
  "A (fst (adaptive_prior L (s, w))) = A s"
  "A2norm (fst (adaptive_prior L (s, w))) = A2norm s"
  "M (fst (adaptive_prior L (s, w))) = M s"
  "M2norm (fst (adaptive_prior L (s, w))) = M2norm s"
  "Y (fst (adaptive_prior L (s, w))) = Y s"
  "C1 (fst (adaptive_prior L (s, w))) = C1 s"
  "C2 (fst (adaptive_prior L (s, w))) = C2 s"
  "C1_2norm (fst (adaptive_prior L (s, w))) = C1_2norm s"
  "C2_2norm (fst (adaptive_prior L (s, w))) = C2_2norm s"
  "r1 (fst (adaptive_prior L (s, w))) = r1 s"
  "r3 (fst (adaptive_prior L (s, w))) = r3 s"
  "res1 (fst (adaptive_prior L (s, w))) = res1 s"
  "res2 (fst (adaptive_prior L (s, w))) = res2 s"
  "res2_c (fst (adaptive_prior L (s, w))) = res2_c s"
  "var_m0 (fst (adaptive_prior L (s, w))) = var_m0 s"
  "var_m1 (fst (adaptive_prior L (s, w))) = var_m1 s"
  "var_alpha_a0 (fst (adaptive_prior L (s, w))) = var_alpha_a0 s"
  "var_alpha_a1 (fst (adaptive_prior L (s, w))) = var_alpha_a1 s"
  "var_a (fst (adaptive_prior L (s, w))) = var_a s"
  "old (fst (adaptive_prior L (s, w))) = old s"
  "console (snd (adaptive_prior L (s, w))) = console w"
  "files (snd (adaptive_prior L (s, w))) = files w"
  by (simp_all add: adaptive_prior_def Let_def split_beta fold_frame)

lemma adaptive_prior_length [simp]:
  "length (pi_m (fst (adaptive_prior L (s, w)))) = length (pi_m s)"
  "length (pi_a (fst (adaptive_prior L (s, w)))) = length (pi_a s)"
  by (simp_all add: adaptive_prior_def Let_def split_beta fold_preserves [where sel = "\<lambda>s. length (pi_m s)"]
      fold_preserves [where sel = "\<lambda>s. length (pi_a s)"])

lemma Iteration_frame [simp]:
  "n (fst (Iteration L burnIn it (s, w))) = n s"
  "w1 (fst (Iteration L burnIn it (s, w))) = w1 s"
  "w2 (fst (Iteration L burnIn it (s, w))) = w2 s"
  "q (fst (Iteration L burnIn it (s, w))) = q s"
  "q1 (fst (Iteration L burnIn it (s, w))) = q1 s"
  "q2 (fst (Iteration L burnIn it (s, w))) = q2 s"
  "A (fst (Iteration L burnIn it (s, w))) = A s"
  "A2norm (fst (Iteration L burnIn it (s, w))) = A2norm s"
  "M (fst (Iteration L burnIn it (s, w))) = M s"
  "M2norm (fst (Iteration L burnIn it (s, w))) = M2norm s"
  "Y (fst (Iteration L burnIn it (s, w))) = Y s"
  "C1 (fst (Iteration L burnIn it (s, w))) = C1 s"
  "C2 (fst (Iteration L burnIn it (s, w))) = C2 s"
  "C1_2norm (fst (Iteration L burnIn it (s, w))) = C1_2norm s"
  "C2_2norm (fst (Iteration L burnIn it (s, w))) = C2_2norm s"
  by (simp_all add: Iteration_def Let_def split_beta)

section \<open>The adaptive prior step and the iteration as a whole\<close>

lemma fold_accept:
  "k \<le> length (pi_a s) \<Longrightarrow> k \<le> length (pi_m s) \<Longrightarrow>
   fold (\<lambda>j s. s\<lparr>pi_a := (pi_a s)[j := a ! j], pi_m := (pi_m s)[j := b ! j]\<rparr>) [0..<k] s
     = s\<lparr>pi_a := map (\<lambda>j. a ! j) [0..<k] @ drop k (pi_a s),
          pi_m := map (\<lambda>j. b ! j) [0..<k] @ drop k (pi_m s)\<rparr>"
proof (induction k)
  case 0
  then show ?case by simp
next
  case (Suc k)
  then show ?case by (simp add: upd_map_drop)
qed

lemma PostDistribution1_logPosterior: "PostDistribution1 s p = logPosterior (r1 s) p (q s)"
  by (simp add: PostDistribution1_def logPosterior_def times_T_commute)

lemma PostDistribution2_logPosterior: "PostDistribution2 s p = logPosterior (r3 s) p (q s)"
  by (simp add: PostDistribution2_def logPosterior_def times_T_commute)

lemma adaptive_prior_fst:
  assumes "length (pi_m s) = q s" and "length (pi_a s) = q s"
  shows "fst (adaptive_prior L (s, w)) =
           (if log_T (uniform_draw L s w) < logRatio L s w
            then s\<lparr>pi_a := proposal_a L s w, pi_m := proposal_m L s w\<rparr> else s)"
  using assms
  by (simp add: adaptive_prior_def Let_def split_beta fold_pair_update fold_accept map_nth_map_upt
      PostDistribution1_logPosterior PostDistribution2_logPosterior
      logRatio_def proposal_m_def proposal_a_def uniform_draw_def)

lemma adaptive_prior_crand:
  "crand w = crand w' \<Longrightarrow> fst (adaptive_prior L (s, w)) = fst (adaptive_prior L (s, w'))"
  by (simp add: adaptive_prior_def Let_def split_beta)

lemma Iteration_fst:
  "fst (Iteration L burnIn it (s, w))
     = fst (adaptive_prior L (gibbs_sweep L it s, w\<lparr>crand := srand L it (crand w)\<rparr>))"
  by (auto simp add: Iteration_def Let_def split_beta intro: adaptive_prior_crand)

lemma fold_append_concat: "fold (\<lambda>i out. out @ f i) xs acc = acc @ concat (map f xs)"
  by (induction xs arbitrary: acc) simp_all

lemma row_sink_row: "row L s = sink_row L s"
  by (simp add: row_def sink_row_def fold_append_concat)

lemma adaptive_prior_snd:
  "snd (adaptive_prior L (s, w)) = w\<lparr>crand := rand_after L (q s) (crand w)\<rparr>"
  by (simp add: adaptive_prior_def Let_def split_beta rand_after_def)

lemma Iteration_snd:
  "snd (Iteration L burnIn it (s, w)) =
     w\<lparr>crand := rand_after L (q s) (srand L it (crand w)),
        console := console w
          @ (if it mod 10000 = 0
             then [PrintSigmas it (sigma_m0 s) (sigma_e s) (sigma_g s) (sigma_ma0 s)
                     (sigma_m1 s) (sigma_a s) (sigma_ma1 s)] else [])
          @ (if it mod 1000 = 0 then [PrintIter it] else []),
        files := (if burnIn < it \<and> it mod 10 = 0
                  then append_file (outfilename s) (row L (fst (Iteration L burnIn it (s, w)))) (files w)
                  else files w)\<rparr>"
  by (simp add: Iteration_def Let_def split_beta adaptive_prior_snd outfilename_def)

lemma Iteration_fst_crand:
  assumes "crand w = crand w'"
  shows "fst (Iteration L burnIn it (s, w)) = fst (Iteration L burnIn' it (s, w'))"
    and "crand (snd (Iteration L burnIn it (s, w))) = crand (snd (Iteration L burnIn' it (s, w')))"
  using assms by (simp_all add: Iteration_fst Iteration_snd adaptive_prior_crand)

lemma fold_Iteration_crand:
  assumes "crand w = crand w'"
  shows "fst (fold (Iteration L burnIn) [0..<niter] (s, w))
           = fst (fold (Iteration L burnIn') [0..<niter] (s, w'))
         \<and> crand (snd (fold (Iteration L burnIn) [0..<niter] (s, w)))
           = crand (snd (fold (Iteration L burnIn') [0..<niter] (s, w')))"
proof (induction niter)
  case 0
  then show ?case using assms by simp
next
  case (Suc niter)
  obtain a b where p: "fold (Iteration L burnIn) [0..<niter] (s, w) = (a, b)"
    by (cases "fold (Iteration L burnIn) [0..<niter] (s, w)")
  obtain a' b' where p': "fold (Iteration L burnIn') [0..<niter] (s, w') = (a', b')"
    by (cases "fold (Iteration L burnIn') [0..<niter] (s, w')")
  have f: "a = a'" and c: "crand b = crand b'"
    using Suc p p' by simp_all
  show ?case
    using Iteration_fst_crand [OF c, of L burnIn niter a burnIn'] by (simp add: p p' f)
qed

lemma s0_shape:
  "q s0 = 2" "n s0 = 2" "w1 s0 = 1" "w2 s0 = 1"
  "length (pi_m s0) = 2" "length (pi_a s0) = 2"
  "length (r1 s0) = 2" "length (r3 s0) = 2"
  by (simp_all add: s0_def Variables_ctor_def Let_def split_beta resize_def)

section \<open>The variance updates in the specification's vocabulary\<close>

lemma gibbs_sweep_components:
  "gibbs_sweep L it s = update_sigma_m_a L (before_components L it s)"
  by (simp add: gibbs_sweep_def before_components_def before_noise_def Let_def)

lemma half_T: "x / Fin 2 = Fin (1 / 2) * x"
  by (cases x) auto

lemma fold_tuple4:
  "fold (\<lambda>j (a, b, c, d). (a + f1 j, b + f2 j, c + f3 j, d + f4 j)) xs (a0, b0, c0, d0)
     = (fold (\<lambda>j a. a + f1 j) xs a0, fold (\<lambda>j a. a + f2 j) xs b0,
        fold (\<lambda>j a. a + f3 j) xs c0, fold (\<lambda>j a. a + f4 j) xs d0)"
  by (induction xs arbitrary: a0 b0 c0 d0) simp_all

lemma update_sigma_e_g_eq:
  "update_sigma_e_g L s =
     (let e = inv_gamma L (ke + of_size (n s) / Fin 2)
                (le + Fin (1 / 2) * sum_T (\<lambda>i. res1 s ! i * res1 s ! i) (n s)) (generator s);
          g = inv_gamma L (kg + of_size (q s) * of_size (n s) / Fin 2)
                (lg + Fin (1 / 2) * sum_T (\<lambda>i. res2 s ! i * res2 s ! i) (n s * q s)) (snd e)
      in s\<lparr>sigma_e := fst e, sigma_g := fst g, generator := snd g\<rparr>)"
  by (simp add: update_sigma_e_g_def Let_def split_beta inv_gamma_def sum_T_def half_T
      plus_T_commute [of _ le] plus_T_commute [of _ lg] of_size_def kg_def add.commute)


lemma update_sigma_m_a_eq:
  "update_sigma_m_a L s =
     (let m1 = inv_gamma L (km1 + Fin (1 / 2) * sum_T (\<lambda>j. r1 s ! j) (q s))
                 (lm1 + Fin (1 / 2) * sum_T (\<lambda>j. r1 s ! j * (beta_m s ! j * beta_m s ! j)) (q s))
                 (generator s);
          a = inv_gamma L (ka + Fin (1 / 2)) (la + beta_a s ! 0 * beta_a s ! 0 / Fin 2) (snd m1);
          ma1 = inv_gamma L (kma1 + Fin (1 / 2) * sum_T (\<lambda>j. r3 s ! j) (q s))
                 (lma1 + Fin (1 / 2) * sum_T (\<lambda>j. r3 s ! j * (alpha_a s ! j * alpha_a s ! j)) (q s))
                 (snd a);
          m0 = inv_gamma L (km0 + Fin (1 / 2) * sum_T (\<lambda>j. Fin 1 - r1 s ! j) (q s))
                 (lm0 + Fin (1 / 2) * sum_T (\<lambda>j. (Fin 1 - r1 s ! j) * (beta_m s ! j * beta_m s ! j)) (q s))
                 (snd ma1);
          ma0 = inv_gamma L (kma0 + Fin (1 / 2) * sum_T (\<lambda>j. Fin 1 - r3 s ! j) (q s))
                 (lma0 + Fin (1 / 2) * sum_T (\<lambda>j. (Fin 1 - r3 s ! j) * (alpha_a s ! j * alpha_a s ! j)) (q s))
                 (snd m0)
      in s\<lparr>sigma_m1 := fst m1, sigma_a := fst a, sigma_ma1 := fst ma1,
           sigma_m0 := fst m0, sigma_ma0 := fst ma0, generator := snd ma0\<rparr>)"
  by (simp add: update_sigma_m_a_def Let_def split_beta fold_tuple4 inv_gamma_def sum_T_def half_T
      plus_T_commute [of _ km1] plus_T_commute [of _ lm1] plus_T_commute [of _ kma1]
      plus_T_commute [of _ lma1] plus_T_commute [of _ km0] plus_T_commute [of _ lm0]
      plus_T_commute [of _ kma0] plus_T_commute [of _ lma0] plus_T_commute [of _ la]
      times_T_commute [of "r1 s ! _"] times_T_commute [of "r3 s ! _"]
      times_T_commute [of "Fin 1 - r1 s ! _"] times_T_commute [of "Fin 1 - r3 s ! _"] ka_def)


lemma before_components_noise:
  "sigma_e (before_components L it s) = sigma_e (update_sigma_e_g L (before_noise it s))"
  "sigma_g (before_components L it s) = sigma_g (update_sigma_e_g L (before_noise it s))"
  by (simp_all add: before_components_def Let_def fold_frame)

section \<open>The indicator updates within the sweep\<close>

lemma r1_mediator_step: "\<exists>v. r1 (mediator_step L k s) = (r1 s)[k := v]"
  by (auto simp add: mediator_step_def Let_def split_beta fold_frame update_r1_def)

lemma r3_mediator_step: "\<exists>v. r3 (mediator_step L k s) = (r3 s)[k := v]"
  by (auto simp add: mediator_step_def Let_def split_beta fold_frame update_r3_def)

lemma sweep_r1_nth:
  "j < k \<Longrightarrow> r1 (fold (mediator_step L) [0..<k] s) ! j
     = r1 (mediator_step L j (fold (mediator_step L) [0..<j] s)) ! j"
proof (induction k)
  case 0
  then show ?case by simp
next
  case (Suc k)
  show ?case
  proof (cases "j = k")
    case True
    then show ?thesis by simp
  next
    case False
    then have jk: "j < k" using Suc.prems by simp
    obtain v where "r1 (mediator_step L k (fold (mediator_step L) [0..<k] s))
        = (r1 (fold (mediator_step L) [0..<k] s))[k := v]"
      using r1_mediator_step by blast
    then show ?thesis using Suc.IH [OF jk] False by simp
  qed
qed

lemma sweep_r3_nth:
  "j < k \<Longrightarrow> r3 (fold (mediator_step L) [0..<k] s) ! j
     = r3 (mediator_step L j (fold (mediator_step L) [0..<j] s)) ! j"
proof (induction k)
  case 0
  then show ?case by simp
next
  case (Suc k)
  show ?case
  proof (cases "j = k")
    case True
    then show ?thesis by simp
  next
    case False
    then have jk: "j < k" using Suc.prems by simp
    obtain v where "r3 (mediator_step L k (fold (mediator_step L) [0..<k] s))
        = (r3 (fold (mediator_step L) [0..<k] s))[k := v]"
      using r3_mediator_step by blast
    then show ?thesis using Suc.IH [OF jk] False by simp
  qed
qed

lemma sweep_length_r:
  "length (r1 (fold (mediator_step L) [0..<k] s)) = length (r1 s)"
  "length (r3 (fold (mediator_step L) [0..<k] s)) = length (r3 s)"
proof (induction k)
  case 0
  { case 1 show ?case by simp }
  { case 2 show ?case by simp }
next
  case (Suc k)
  { case 1 show ?case using Suc(1) r1_mediator_step [of L k "fold (mediator_step L) [0..<k] s"] by auto }
  { case 2 show ?case using Suc(2) r3_mediator_step [of L k "fold (mediator_step L) [0..<k] s"] by auto }
qed

lemma update_r1_nth:
  "j < length (r1 s) \<Longrightarrow>
   r1 (update_r1 L j mu0 mu1 s) ! j
     = indicator_draw L (logOdds mu1 (var_m1 s ! j) mu0 (var_m0 s ! j) (sigma_m1 s) (sigma_m0 s)
                           (pi_m s ! j)) (generator s)"
  by (simp add: update_r1_def Let_def split_beta indicator_draw_def logOdds_def)

lemma update_r3_nth:
  "j < length (r3 s) \<Longrightarrow>
   r3 (update_r3 L j mu0 mu1 s) ! j
     = indicator_draw L (logOdds mu1 (var_alpha_a1 s ! 0) mu0 (var_alpha_a0 s ! 0) (sigma_ma1 s)
                           (sigma_ma0 s) (pi_a s ! j)) (generator s)"
  by (simp add: update_r3_def Let_def split_beta indicator_draw_def logOdds_def)

lemma mediator_step_r1:
  assumes "j < length (r1 s)"
  shows "r1 (mediator_step L j s) ! j =
     indicator_draw L
       (logOdds (fst (mu_sums s j) / (sigma_e s / sigma_m1 s + M2norm s ! j)) (var_m1 s ! j)
                (fst (mu_sums s j) / (sigma_e s / sigma_m0 s + M2norm s ! j)) (var_m0 s ! j)
                (sigma_m1 s) (sigma_m0 s) (pi_m s ! j))
       (generator (at_r1 L j s))"
  using assms
  by (simp add: mediator_step_def Let_def split_beta fold_frame update_r1_nth at_r1_def)

lemma mediator_step_r3:
  assumes "j < length (r3 s)"
  shows "r3 (mediator_step L j s) ! j =
     indicator_draw L
       (logOdds (snd (mu_sums s j) * (var_alpha_a1 s ! 0 / sigma_g s)) (var_alpha_a1 s ! 0)
                (snd (mu_sums s j) * (var_alpha_a0 s ! 0 / sigma_g s)) (var_alpha_a0 s ! 0)
                (sigma_ma1 s) (sigma_ma0 s) (pi_a s ! j))
       (generator (at_r3 L j s))"
  using assms
  by (simp add: mediator_step_def Let_def split_beta fold_frame update_r3_nth at_r1_def at_r3_def)

lemma Iteration_r:
  "r1 (fst (Iteration L burnIn it (s, w))) = r1 (fold (mediator_step L) [0..<q s] (before_step L it s 0))"
  "r3 (fst (Iteration L burnIn it (s, w))) = r3 (fold (mediator_step L) [0..<q s] (before_step L it s 0))"
  by (simp_all add: Iteration_fst gibbs_sweep_components before_components_def before_step_def
      Let_def fold_frame before_noise_def)

lemma before_step_fold:
  "fold (mediator_step L) [0..<j] (before_step L it s 0) = before_step L it s j"
  by (simp add: before_step_def)

lemma before_step_length:
  "length (r1 (before_step L it s j)) = length (r1 s)"
  "length (r3 (before_step L it s j)) = length (r3 s)"
  by (simp_all add: before_step_def sweep_length_r before_noise_def)

section \<open>The quantities of a mediator's visit\<close>


lemma fold_tuple2:
  "fold (\<lambda>j (a, b). (a + f1 j, b + f2 j)) xs (a0, b0)
     = (fold (\<lambda>j a. a + f1 j) xs a0, fold (\<lambda>j a. a + f2 j) xs b0)"
  by (induction xs arbitrary: a0 b0) simp_all

lemma mu_sums_eq:
  "mu_sums s j =
     (sum_T (\<lambda>i. at2 (n s) (M s) i j * (res1 s ! i + at2 (n s) (M s) i j * beta_m s ! j)) (n s),
      sum_T (\<lambda>i. A s ! i * res2_c s ! (j * n s + i)) (n s))"
  by (simp add: mu_sums_def fold_tuple2 sum_T_def)

lemma resize_length [simp]: "length (resize k v X) = k"
  by (simp add: resize_def)

lemma var_m_loop:
  "fold (\<lambda>j s. s\<lparr>var_m0 := (var_m0 s)[j := f0 j], var_m1 := (var_m1 s)[j := f1 j]\<rparr>) xs (s::'g Variables)
     = s\<lparr>var_m0 := fold (\<lambda>j v. v[j := f0 j]) xs (var_m0 s),
          var_m1 := fold (\<lambda>j v. v[j := f1 j]) xs (var_m1 s)\<rparr>"
  by (induction xs arbitrary: s) simp_all

lemma fold_set_nth:
  "j < k \<Longrightarrow> j < length v \<Longrightarrow> fold (\<lambda>j v. v[j := f j]) [0..<k] v ! j = f j"
  using fold_upd_range0 [where f = "\<lambda>i _. f i", of k v j] by simp

lemma update_var_m_nth:
  assumes "j < q s"
  shows "var_m0 (update_var_m s) ! j = Fin 1 / (Fin 1 / sigma_m0 s + M2norm s ! j / sigma_e s)"
    and "var_m1 (update_var_m s) ! j = Fin 1 / (Fin 1 / sigma_m1 s + M2norm s ! j / sigma_e s)"
proof -
  have e: "update_var_m s =
      fold (\<lambda>j s. s\<lparr>var_m0 := (var_m0 s)[j := Fin 1 / (Fin 1 / sigma_m0 s + M2norm s ! j / sigma_e s)],
                    var_m1 := (var_m1 s)[j := Fin 1 / (Fin 1 / sigma_m1 s + M2norm s ! j / sigma_e s)]\<rparr>)
        [0..<q s]
        (s\<lparr>var_m0 := resize (q s) (Fin 0) (var_m0 s), var_m1 := resize (q s) (Fin 0) (var_m1 s)\<rparr>)"
    (is "_ = fold ?F _ ?s0")
    by (simp add: update_var_m_def Let_def)
  have inv: "fold ?F xs t =
      fold (\<lambda>j t. t\<lparr>var_m0 := (var_m0 t)[j := Fin 1 / (Fin 1 / sigma_m0 s + M2norm s ! j / sigma_e s)],
                    var_m1 := (var_m1 t)[j := Fin 1 / (Fin 1 / sigma_m1 s + M2norm s ! j / sigma_e s)]\<rparr>) xs t"
    if "sigma_m0 t = sigma_m0 s" "sigma_m1 t = sigma_m1 s" "M2norm t = M2norm s" "sigma_e t = sigma_e s"
    for xs and t :: "'a Variables"
    using that by (induction xs arbitrary: t) simp_all
  show "var_m0 (update_var_m s) ! j = Fin 1 / (Fin 1 / sigma_m0 s + M2norm s ! j / sigma_e s)"
    unfolding e using assms by (subst inv) (simp_all add: var_m_loop fold_set_nth)
  show "var_m1 (update_var_m s) ! j = Fin 1 / (Fin 1 / sigma_m1 s + M2norm s ! j / sigma_e s)"
    unfolding e using assms by (subst inv) (simp_all add: var_m_loop fold_set_nth)
qed

lemma before_step_var_m:
  assumes "j < q s"
  shows "var_m0 (before_step L it s k) ! j = Fin 1 / (Fin 1 / sigma_m0 s + M2norm s ! j / sigma_e s)"
    and "var_m1 (before_step L it s k) ! j = Fin 1 / (Fin 1 / sigma_m1 s + M2norm s ! j / sigma_e s)"
proof -
  have "var_m0 (before_step L it s k) = var_m0 (update_var_m (if it = 0 then Residual it s else s))"
    by (simp add: before_step_def before_noise_def fold_frame)
  then show "var_m0 (before_step L it s k) ! j = Fin 1 / (Fin 1 / sigma_m0 s + M2norm s ! j / sigma_e s)"
    using assms by (simp add: update_var_m_nth)
  have "var_m1 (before_step L it s k) = var_m1 (update_var_m (if it = 0 then Residual it s else s))"
    by (simp add: before_step_def before_noise_def fold_frame)
  then show "var_m1 (before_step L it s k) ! j = Fin 1 / (Fin 1 / sigma_m1 s + M2norm s ! j / sigma_e s)"
    using assms by (simp add: update_var_m_nth)
qed

lemma before_step_var_a:
  "var_alpha_a0 (before_step L it s k) ! 0
     = sigma_g (before_step L it s k) / (sigma_g (before_step L it s k) / sigma_ma0 s + A2norm s ! 0)"
  "var_alpha_a1 (before_step L it s k) ! 0
     = sigma_g (before_step L it s k) / (sigma_g (before_step L it s k) / sigma_ma1 s + A2norm s ! 0)"
  by (simp_all add: before_step_def fold_frame update_var_a_def Let_def)

lemma before_step_noise:
  "sigma_e (before_step L it s k) =
     fst (inv_gamma L (ke + of_size (n s) / Fin 2)
           (le + Fin (1 / 2) * sum_T (\<lambda>i. res1 (before_noise it s) ! i * res1 (before_noise it s) ! i) (n s))
           (generator s))"
  "sigma_g (before_step L it s k) =
     fst (inv_gamma L (kg + of_size (q s) * of_size (n s) / Fin 2)
           (lg + Fin (1 / 2) * sum_T (\<lambda>i. res2 (before_noise it s) ! i * res2 (before_noise it s) ! i) (n s * q s))
           (snd (inv_gamma L (ke + of_size (n s) / Fin 2)
             (le + Fin (1 / 2) * sum_T (\<lambda>i. res1 (before_noise it s) ! i * res1 (before_noise it s) ! i) (n s))
             (generator s))))"
  by (simp_all add: before_step_def fold_frame update_sigma_e_g_eq Let_def)

lemma update_beta_m_draw:
  "generator (update_beta_m L j m0 m1 s)
     = snd (normal_distribution L m0 (sqrt_T (var_m0 s ! j))
         (snd (normal_distribution L m1 (sqrt_T (var_m1 s ! j)) (generator s))))"
  "beta_m (update_beta_m L j m0 m1 s)
     = (beta_m s)[j := r1 s ! j * fst (normal_distribution L m1 (sqrt_T (var_m1 s ! j)) (generator s))
         + (Fin 1 - r1 s ! j) * fst (normal_distribution L m0 (sqrt_T (var_m0 s ! j))
             (snd (normal_distribution L m1 (sqrt_T (var_m1 s ! j)) (generator s))))]"
  by (simp_all add: update_beta_m_def Let_def split_beta)

lemma update_alpha_a_draw:
  "generator (update_alpha_a L j m0 m1 s)
     = snd (normal_distribution L m0 (sqrt_T (var_alpha_a0 s ! 0))
         (snd (normal_distribution L m1 (sqrt_T (var_alpha_a1 s ! 0)) (generator s))))"
  "alpha_a (update_alpha_a L j m0 m1 s)
     = (alpha_a s)[j := r3 s ! j * fst (normal_distribution L m1 (sqrt_T (var_alpha_a1 s ! 0)) (generator s))
         + (Fin 1 - r3 s ! j) * fst (normal_distribution L m0 (sqrt_T (var_alpha_a0 s ! 0))
             (snd (normal_distribution L m1 (sqrt_T (var_alpha_a1 s ! 0)) (generator s))))]"
  by (simp_all add: update_alpha_a_def Let_def split_beta)

lemma update_r1_generator:
  "generator (update_r1 L j m0 m1 s)
     = (if logOdds m1 (var_m1 s ! j) m0 (var_m0 s ! j) (sigma_m1 s) (sigma_m0 s) (pi_m s ! j) < Fin 300
        then snd (bernoulli_distribution L
               (exp_T (logOdds m1 (var_m1 s ! j) m0 (var_m0 s ! j) (sigma_m1 s) (sigma_m0 s) (pi_m s ! j))
                / (Fin 1 + exp_T (logOdds m1 (var_m1 s ! j) m0 (var_m0 s ! j) (sigma_m1 s) (sigma_m0 s) (pi_m s ! j))))
               (generator s))
        else generator s)"
  by (simp add: update_r1_def Let_def split_beta logOdds_def)


lemma coeff_mediator_step:
  "length (beta_m (mediator_step L k s)) = length (beta_m s)"
  "length (alpha_a (mediator_step L k s)) = length (alpha_a s)"
  by (simp_all add: mediator_step_def Let_def split_beta fold_frame update_beta_m_draw
      update_alpha_a_draw)

lemma before_step_coeff_length:
  "length (beta_m (before_step L it s j)) = length (beta_m s)"
  "length (alpha_a (before_step L it s j)) = length (alpha_a s)"
  unfolding before_step_def
  by (induction j) (simp_all add: coeff_mediator_step before_noise_def)

lemma before_step_Suc: "before_step L it s (Suc j) = mediator_step L j (before_step L it s j)"
  by (simp add: before_step_def)

lemma mediator_step_coeff:
  "beta_m (mediator_step L j s)
     = beta_m (update_beta_m L j (fst (mu_sums s j) / (sigma_e s / sigma_m0 s + M2norm s ! j))
                 (fst (mu_sums s j) / (sigma_e s / sigma_m1 s + M2norm s ! j)) s)"
  "alpha_a (mediator_step L j s) = alpha_a (at_r1 L j s)"
  "generator (at_r1 L j s)
     = generator (update_alpha_a L j (snd (mu_sums s j) * (var_alpha_a0 s ! 0 / sigma_g s))
           (snd (mu_sums s j) * (var_alpha_a1 s ! 0 / sigma_g s))
           (update_beta_m L j (fst (mu_sums s j) / (sigma_e s / sigma_m0 s + M2norm s ! j))
              (fst (mu_sums s j) / (sigma_e s / sigma_m1 s + M2norm s ! j)) s))"
  "generator (at_r3 L j s)
     = generator (update_r1 L j (fst (mu_sums s j) / (sigma_e s / sigma_m0 s + M2norm s ! j))
           (fst (mu_sums s j) / (sigma_e s / sigma_m1 s + M2norm s ! j)) (at_r1 L j s))"
  by (simp_all add: mediator_step_def at_r1_def at_r3_def Let_def split_beta fold_frame)

lemma at_r1_frame:
  "var_m0 (at_r1 L j s) = var_m0 s" "var_m1 (at_r1 L j s) = var_m1 s"
  "var_alpha_a0 (at_r1 L j s) = var_alpha_a0 s" "var_alpha_a1 (at_r1 L j s) = var_alpha_a1 s"
  "sigma_m0 (at_r1 L j s) = sigma_m0 s" "sigma_m1 (at_r1 L j s) = sigma_m1 s"
  "sigma_ma0 (at_r1 L j s) = sigma_ma0 s" "sigma_ma1 (at_r1 L j s) = sigma_ma1 s"
  "pi_m (at_r1 L j s) = pi_m s" "pi_a (at_r1 L j s) = pi_a s"
  "r1 (at_r1 L j s) = r1 s" "r3 (at_r1 L j s) = r3 s"
  by (simp_all add: at_r1_def Let_def split_beta)

section \<open>The residual caches are maintained\<close>

lemma fin_rv: "fin x \<Longrightarrow> Fin (rv x) = x"
  by (cases x) simp_all

lemma minus_Fin [simp]: "Fin a - Fin b = Fin (a - b)"
  by (simp add: minus_T_def)

lemma fold_sum_Fin:
  "(\<And>p. p < l \<Longrightarrow> f p = Fin (g p)) \<Longrightarrow>
   fold (\<lambda>p acc. acc + f p) [0..<l] (Fin a) = Fin (a + (\<Sum>p<l. g p))"
proof (induction l)
  case 0
  then show ?case by simp
next
  case (Suc l)
  then show ?case by (simp add: add.assoc)
qed

lemma block_div_mod:
  assumes "k * m \<le> (x::nat)" and "x < k * m + m"
  shows "x div m = k" and "x mod m = x - k * m"
proof -
  have m: "0 < m" using assms by (cases m) auto
  obtain r where r: "x = k * m + r" "r < m"
    using assms by (metis add_diff_inverse_nat nat_add_left_cancel_less not_less)
  show "x div m = k" using r m by simp
  show "x mod m = x - k * m" using r m by simp
qed

lemma fold2_upd_length [simp]:
  "length (fold (\<lambda>j C. fold (\<lambda>i C. C[h j i := f j i C]) (xs j) C) ys C) = length C"
  by (induction ys arbitrary: C) simp_all

lemma fold2_upd_nth:
  "fold (\<lambda>j C. fold (\<lambda>i C. C[j * m + i := f j i (C ! (j * m + i))]) [0..<m] C) [0..<k] C ! x
     = (if x < k * m \<and> x < length C then f (x div m) (x mod m) (C ! x) else C ! x)"
proof (induction k)
  case 0
  then show ?case by simp
next
  case (Suc k)
  let ?D = "fold (\<lambda>j C. fold (\<lambda>i C. C[j * m + i := f j i (C ! (j * m + i))]) [0..<m] C) [0..<k] C"
  have len: "length ?D = length C" by simp
  show ?case
  proof (cases "k * m \<le> x \<and> x < k * m + m")
    case True
    then have "x div m = k" "x mod m = x - k * m"
      using block_div_mod [of k m x] by simp_all
    then show ?thesis using True Suc len
      by (simp add: fold_upd_range [where b = "k * m"])
  next
    case False
    then show ?thesis using Suc len
      by (auto simp add: fold_upd_range [where b = "k * m"])
  qed
qed

lemma xgemm_length [simp]: "length (xgemm m k l alpha X lda B ldb beta C ldc) = length C"
  by (simp add: xgemm_def)

lemma xgemm_nth:
  "xgemm m k l alpha X lda B ldb beta C m ! x
     = (if x < k * m \<and> x < length C
        then alpha * fold (\<lambda>p acc. acc + X ! (p * lda + x mod m) * B ! (x div m * ldb + p)) [0..<l] (Fin 0)
               + beta * C ! x
        else C ! x)"
  unfolding xgemm_def
  by (rule fold2_upd_nth
      [where f = "\<lambda>j i v. alpha * fold (\<lambda>p acc. acc + X ! (p * lda + i) * B ! (j * ldb + p)) [0..<l] (Fin 0)
               + beta * v"])

lemma fin_nth: "list_all fin xs \<Longrightarrow> i < length xs \<Longrightarrow> fin (xs ! i)"
  by (simp add: list_all_length)

lemma idx_bound: "(p::nat) < k \<Longrightarrow> i < m \<Longrightarrow> p * m + i < m * k"
proof -
  assume p: "p < k" and i: "i < m"
  have "p * m + i < p * m + m" using i by simp
  also have "\<dots> = Suc p * m" by simp
  also have "\<dots> \<le> k * m" using p by (intro mult_le_mono1) simp
  finally show ?thesis by (simp add: mult.commute)
qed

lemma idx_bound2: "(p::nat) < k \<Longrightarrow> i < m \<Longrightarrow> p * m + i < k * m"
  using idx_bound [of p k i m] by (simp add: mult.commute)

lemma fold_sum_fin2:
  "(\<And>p. p < l \<Longrightarrow> fin (f p)) \<Longrightarrow> (\<And>p. p < l \<Longrightarrow> fin (g p)) \<Longrightarrow>
   fold (\<lambda>p acc. acc + f p * g p) [0..<l] (Fin 0) = Fin (\<Sum>p<l. rv (f p) * rv (g p))"
proof -
  assume f: "\<And>p. p < l \<Longrightarrow> fin (f p)" and g: "\<And>p. p < l \<Longrightarrow> fin (g p)"
  have "fold (\<lambda>p acc. acc + f p * g p) [0..<l] (Fin 0)
      = Fin (0 + (\<Sum>p<l. rv (f p) * rv (g p)))"
  proof (rule fold_sum_Fin)
    fix p assume "p < l"
    then have "fin (f p)" "fin (g p)" using f g by simp_all
    then show "f p * g p = Fin (rv (f p) * rv (g p))"
      by (cases "f p"; cases "g p") simp_all
  qed
  then show ?thesis by simp
qed

lemma wf_fin:
  assumes "wf s"
  shows "i < n s \<Longrightarrow> fin (Y s ! i)" "i < n s \<Longrightarrow> fin (A s ! i)"
    "k < q s \<Longrightarrow> i < n s \<Longrightarrow> fin (M s ! (k * n s + i))"
    "k < w1 s \<Longrightarrow> i < n s \<Longrightarrow> fin (C1 s ! (k * n s + i))"
    "k < w2 s \<Longrightarrow> i < n s \<Longrightarrow> fin (C2 s ! (k * n s + i))"
    "fin (beta_a s ! 0)" "k < q s \<Longrightarrow> fin (beta_m s ! k)" "k < q s \<Longrightarrow> fin (alpha_a s ! k)"
    "k < w1 s \<Longrightarrow> fin (beta_c s ! k)"
    "j < q s \<Longrightarrow> k < w2 s \<Longrightarrow> fin (alpha_c s ! (j * w2 s + k))"
    "k < q s \<Longrightarrow> fin (r1 s ! k)" "k < q s \<Longrightarrow> fin (r3 s ! k)"
  using assms by (simp_all add: wf_def fin_nth idx_bound)

lemma fin_ops:
  assumes "fin x" and "fin y"
  shows "x + y = Fin (rv x + rv y)" "x * y = Fin (rv x * rv y)" "x - y = Fin (rv x - rv y)"
  using assms by (cases x; cases y; simp)+

lemma posfinE: "posfin x \<Longrightarrow> (\<And>a. x = Fin a \<Longrightarrow> 0 < a \<Longrightarrow> P) \<Longrightarrow> P"
  by (cases x) (simp_all add: posfin_def)

lemma nonnegE: "nonneg x \<Longrightarrow> (\<And>a. x = Fin a \<Longrightarrow> 0 \<le> a \<Longrightarrow> P) \<Longrightarrow> P"
  by (cases x) (simp_all add: nonneg_def)

lemma finE: "fin x \<Longrightarrow> (\<And>a. x = Fin a \<Longrightarrow> P) \<Longrightarrow> P"
  by (cases x) simp_all

lemma posfin_Fin [simp]: "posfin (Fin a) \<longleftrightarrow> 0 < a"
  by (simp add: posfin_def)

lemma nonneg_Fin [simp]: "nonneg (Fin a) \<longleftrightarrow> 0 \<le> a"
  by (simp add: nonneg_def)

lemma posfin_fin: "posfin x \<Longrightarrow> fin x"
  by (simp add: posfin_def)

lemma posfin_nonneg: "posfin x \<Longrightarrow> nonneg x"
  by (erule posfinE) simp

lemma nonneg_fin: "nonneg x \<Longrightarrow> fin x"
  by (simp add: nonneg_def)

lemma posfin_div: "posfin x \<Longrightarrow> posfin y \<Longrightarrow> posfin (x / y)"
  by (elim posfinE) simp

lemma fin_div_posfin: "fin x \<Longrightarrow> posfin y \<Longrightarrow> fin (x / y)"
  by (elim posfinE finE) simp

lemma nonneg_div_posfin: "nonneg x \<Longrightarrow> posfin y \<Longrightarrow> nonneg (x / y)"
  by (elim posfinE nonnegE) simp

lemma posfin_add_nonneg: "posfin x \<Longrightarrow> nonneg y \<Longrightarrow> posfin (x + y)"
  by (elim posfinE nonnegE) simp

lemma nonneg_add_posfin: "nonneg x \<Longrightarrow> posfin y \<Longrightarrow> posfin (x + y)"
  by (elim posfinE nonnegE) simp

lemma nonneg_add: "nonneg x \<Longrightarrow> nonneg y \<Longrightarrow> nonneg (x + y)"
  by (elim nonnegE) simp

lemma nonneg_mult: "nonneg x \<Longrightarrow> nonneg y \<Longrightarrow> nonneg (x * y)"
  by (elim nonnegE) simp

lemma nonneg_square: "fin x \<Longrightarrow> nonneg (x * x)"
  by (elim finE) simp

lemma fin_add: "fin x \<Longrightarrow> fin y \<Longrightarrow> fin (x + y)"
  by (elim finE) simp

lemma fin_mult: "fin x \<Longrightarrow> fin y \<Longrightarrow> fin (x * y)"
  by (elim finE) simp

lemma posfin_sqrt: "posfin x \<Longrightarrow> posfin (sqrt_T x)"
  by (elim posfinE) simp

lemma indicator_nonneg: "indicator x \<Longrightarrow> nonneg x" "indicator x \<Longrightarrow> nonneg (Fin 1 - x)"
  by (auto simp add: indicator_def)

lemma indicator_fin: "indicator x \<Longrightarrow> fin x"
  by (auto simp add: indicator_def)

lemma fold_add_fin:
  "(\<And>i. i < k \<Longrightarrow> fin (f i)) \<Longrightarrow> fin a \<Longrightarrow> fin (fold (\<lambda>i acc. acc + f i) [0..<k] a)"
  by (induction k) (simp_all add: fin_add)

lemma fold_add_nonneg:
  "(\<And>i. i < k \<Longrightarrow> nonneg (f i)) \<Longrightarrow> nonneg a \<Longrightarrow> nonneg (fold (\<lambda>i acc. acc + f i) [0..<k] a)"
  by (induction k) (simp_all add: nonneg_add)

lemma sum_T_fin: "(\<And>i. i < k \<Longrightarrow> fin (f i)) \<Longrightarrow> fin (sum_T f k)"
  unfolding sum_T_def by (rule fold_add_fin) simp_all

lemma sum_T_nonneg: "(\<And>i. i < k \<Longrightarrow> nonneg (f i)) \<Longrightarrow> nonneg (sum_T f k)"
  unfolding sum_T_def by (rule fold_add_nonneg) simp_all

lemma lib_ok_normal:
  "lib_ok L \<Longrightarrow> fin m \<Longrightarrow> posfin v \<Longrightarrow> fin (fst (normal_distribution L m (sqrt_T v) g))"
  by (simp add: lib_ok_def posfin_sqrt)

lemma lib_ok_gamma:
  "lib_ok L \<Longrightarrow> posfin a \<Longrightarrow> posfin b \<Longrightarrow> posfin (Fin 1 / fst (gamma_distribution L a b g))"
  by (simp add: lib_ok_def posfin_div)

lemma lib_ok_inv_gamma:
  "lib_ok L \<Longrightarrow> posfin a \<Longrightarrow> posfin b \<Longrightarrow> posfin (fst (inv_gamma L a b g))"
  by (simp add: inv_gamma_def lib_ok_gamma posfin_div)

lemma caches_fin:
  assumes "caches_ok s"
  shows "i < n s \<Longrightarrow> fin (res1 s ! i)"
    "j < q s \<Longrightarrow> i < n s \<Longrightarrow> fin (res2 s ! (j * n s + i))"
    "j < q s \<Longrightarrow> i < n s \<Longrightarrow> fin (res2_c s ! (j * n s + i))"
  using assms by (simp_all add: caches_ok_def)

lemma Residual_frame_params:
  "Residual it s = s\<lparr>res1 := res1 (Residual it s), res2 := res2 (Residual it s),
                      res2_c := res2_c (Residual it s)\<rparr>"
  by (simp add: Residual_def Let_def)

lemma Residual_length:
  "wf s \<Longrightarrow> length (res1 (Residual it s)) = n s"
  "wf s \<Longrightarrow> length (res2 (Residual it s)) = n s * q s"
  "wf s \<Longrightarrow> length (res2_c (Residual it s)) = n s * q s"
  by (simp_all add: Residual_def Let_def wf_def)

lemma Residual_res1:
  assumes "wf s" and i: "i < n s"
  shows "res1 (Residual it s) ! i = Fin (res1_formula s i)"
proof -
  note f = wf_fin [OF assms(1)]
  have len: "length (Y s) = n s" using assms(1) by (simp add: wf_def)
  have m: "fold (\<lambda>p acc. acc + M s ! (p * n s + i) * beta_m s ! p) [0..<q s] (Fin 0)
      = Fin (\<Sum>p<q s. rv (M s ! (p * n s + i)) * rv (beta_m s ! p))"
    by (rule fold_sum_fin2) (simp_all add: f i)
  have c: "fold (\<lambda>p acc. acc + C1 s ! (p * n s + i) * beta_c s ! p) [0..<w1 s] (Fin 0)
      = Fin (\<Sum>p<w1 s. rv (C1 s ! (p * n s + i)) * rv (beta_c s ! p))"
    by (rule fold_sum_fin2) (simp_all add: f i)
  have y: "Y s ! i - beta_a s ! 0 * A s ! i = Fin (rv (Y s ! i) - rv (beta_a s ! 0) * rv (A s ! i))"
    using f(1) [OF i] f(2) [OF i] f(6) by (simp add: fin_ops)
  show ?thesis
    using i by (simp add: Residual_def Let_def xgemm_nth len m c y res1_formula_def
        fold_upd_range0 [where f = "\<lambda>i v. v - beta_a s ! 0 * A s ! i"])
qed

lemma block_idx [simp]:
  "(i::nat) < m \<Longrightarrow> (j * m + i) mod m = i" "(i::nat) < m \<Longrightarrow> (j * m + i) div m = j"
  by simp_all

lemma Residual_res2:
  assumes "wf s" and j: "j < q s" and i: "i < n s"
  shows "res2 (Residual it s) ! (j * n s + i) = Fin (res2_formula s j i)"
    and "res2_c (Residual it s) ! (j * n s + i) = Fin (res2_c_formula s j i)"
proof -
  note f = wf_fin [OF assms(1)]
  have len: "length (M s) = n s * q s" using assms(1) by (simp add: wf_def)
  have x: "j * n s + i < q s * n s" using idx_bound2 [OF j i] .
  have x': "j * n s + i < n s * q s" using idx_bound [OF j i] .
  have c: "fold (\<lambda>p acc. acc + C2 s ! (p * n s + i) * alpha_c s ! (j * w2 s + p)) [0..<w2 s] (Fin 0)
      = Fin (\<Sum>p<w2 s. rv (C2 s ! (p * n s + i)) * rv (alpha_c s ! (j * w2 s + p)))"
    by (rule fold_sum_fin2) (simp_all add: f i j)
  have a: "A s ! i * alpha_a s ! j = Fin (rv (A s ! i) * rv (alpha_a s ! j))"
    using f(2) [OF i] f(8) [OF j] by (simp add: fin_ops)
  have m: "M s ! (j * n s + i) = Fin (rv (M s ! (j * n s + i)))"
    using f(3) [OF j i] by (simp add: fin_rv)
  show "res2 (Residual it s) ! (j * n s + i) = Fin (res2_formula s j i)"
    using i x x' by (simp add: Residual_def Let_def xgemm_nth len c a res2_formula_def)
      (subst m, simp)
  show "res2_c (Residual it s) ! (j * n s + i) = Fin (res2_c_formula s j i)"
    using i x x' by (simp add: Residual_def Let_def xgemm_nth len c res2_c_formula_def)
      (subst m, simp)
qed

lemma Residual_ok: "wf s \<Longrightarrow> caches_ok (Residual it s)"
  by (simp add: caches_ok_def Residual_length Residual_res1 Residual_res2
      res1_formula_def res2_formula_def res2_c_formula_def)

lemma view_inv:
  assumes "view s = view t"
  shows "wf s = wf t" and "caches_ok s = caches_ok t"
  using assms
  by (simp_all add: view_def wf_def caches_ok_def res1_formula_def res2_formula_def res2_c_formula_def)

lemma sum_update_off:
  assumes "j < k" and "b + j < length xs"
  shows "(\<Sum>p<k. f p * rv (xs[b + j := v] ! (b + p)))
       = (\<Sum>p<k. f p * rv (xs ! (b + p))) + f j * (rv v - rv (xs ! (b + j)))"
proof -
  have "(\<Sum>p<k. f p * rv (xs[b + j := v] ! (b + p)))
      = (\<Sum>p<k. f p * rv (xs ! (b + p)) + (if p = j then f j * (rv v - rv (xs ! (b + j))) else 0))"
    using assms(2) by (intro sum.cong) (auto simp: nth_list_update algebra_simps)
  also have "\<dots> = (\<Sum>p<k. f p * rv (xs ! (b + p))) + f j * (rv v - rv (xs ! (b + j)))"
    using assms(1) by (simp add: sum.distrib)
  finally show ?thesis .
qed

lemma sum_update:
  assumes "j < k" and "j < length xs"
  shows "(\<Sum>p<k. f p * rv (xs[j := v] ! p))
       = (\<Sum>p<k. f p * rv (xs ! p)) + f j * (rv v - rv (xs ! j))"
  using sum_update_off [of j k 0 xs f v] assms by simp

lemma list_all_update: "list_all P xs \<Longrightarrow> P v \<Longrightarrow> list_all P (xs[j := v])"
  by (cases "j < length xs") (auto simp: list_all_length nth_list_update list_update_beyond)

lemma fin_mix:
  assumes "fin r" and "fin x1" and "fin x0"
  shows "fin (r * x1 + (Fin 1 - r) * x0)"
  using assms by (cases r; cases x1; cases x0) simp_all

lemma update_beta_m_eq:
  "j < length (beta_m s) \<Longrightarrow> update_beta_m L j mu0 mu1 s =
     (let d1 = normal_distribution L mu1 (sqrt_T (var_m1 s ! j)) (generator s);
          d0 = normal_distribution L mu0 (sqrt_T (var_m0 s ! j)) (snd d1);
          b = r1 s ! j * fst d1 + (Fin 1 - r1 s ! j) * fst d0
      in s\<lparr>old := beta_m s ! j, beta_m := (beta_m s)[j := b], generator := snd d0,
           res1 := fold (\<lambda>i r. r[i := r ! i + (beta_m s ! j - b) * M s ! (j * n s + i)])
                     [0..<n s] (res1 s)\<rparr>)"
  by (simp add: update_beta_m_def Let_def split_beta at2_def)

lemma update_beta_m_inv:
  assumes L: "lib_ok L" and w: "wf s" and c: "caches_ok s" and j: "j < q s"
    and m: "fin mu0" "fin mu1" and v: "posfin (var_m0 s ! j)" "posfin (var_m1 s ! j)"
  shows "wf (update_beta_m L j mu0 mu1 s)" and "caches_ok (update_beta_m L j mu0 mu1 s)"
proof -
  define d1 where "d1 = normal_distribution L mu1 (sqrt_T (var_m1 s ! j)) (generator s)"
  define d0 where "d0 = normal_distribution L mu0 (sqrt_T (var_m0 s ! j)) (snd d1)"
  define b where "b = r1 s ! j * fst d1 + (Fin 1 - r1 s ! j) * fst d0"
  define s' where "s' = s\<lparr>old := beta_m s ! j, beta_m := (beta_m s)[j := b], generator := snd d0,
           res1 := fold (\<lambda>i r. r[i := r ! i + (beta_m s ! j - b) * M s ! (j * n s + i)])
                     [0..<n s] (res1 s)\<rparr>"
  note f = wf_fin [OF w]
  have jl: "j < length (beta_m s)" using w j by (simp add: wf_def)
  have eq: "update_beta_m L j mu0 mu1 s = s'"
    using update_beta_m_eq [OF jl, of L mu0 mu1]
    by (simp add: Let_def s'_def b_def d0_def d1_def)
  have fb: "fin b"
    unfolding b_def d1_def d0_def by (intro fin_mix f(11) [OF j] lib_ok_normal L m v)
  show "wf (update_beta_m L j mu0 mu1 s)"
    unfolding eq using w fb by (simp add: wf_def s'_def list_all_update)
  have r1: "res1 s' ! i = Fin (res1_formula s' i)" if i: "i < n s" for i
  proof -
    have o: "res1 s ! i = Fin (res1_formula s i)" using c i by (simp add: caches_ok_def)
    have len: "length (res1 s) = n s" using c by (simp add: caches_ok_def)
    have m: "fin (M s ! (j * n s + i))" using f(3) [OF j i] .
    have bm: "fin (beta_m s ! j)" using f(7) [OF j] .
    have "res1 s' ! i = res1 s ! i + (beta_m s ! j - b) * M s ! (j * n s + i)"
      using i len
      by (simp add: s'_def fold_upd_range0 [where f = "\<lambda>i v. v + (beta_m s ! j - b) * M s ! (j * n s + i)"])
    also have "\<dots> = Fin (res1_formula s i + (rv (beta_m s ! j) - rv b) * rv (M s ! (j * n s + i)))"
      using m bm fb o by (cases "M s ! (j * n s + i)"; cases "beta_m s ! j"; cases b) simp_all
    also have "res1_formula s i + (rv (beta_m s ! j) - rv b) * rv (M s ! (j * n s + i)) = res1_formula s' i"
      unfolding res1_formula_def s'_def
      by (simp add: sum_update [OF j jl, where f = "\<lambda>k. rv (M s ! (k * n s + i))"])
        (simp add: algebra_simps)
    finally show ?thesis .
  qed
  show "caches_ok (update_beta_m L j mu0 mu1 s)"
    unfolding eq using c r1
    by (simp add: caches_ok_def) (simp add: s'_def res2_formula_def res2_c_formula_def)
qed

lemma col_upd_nth:
  assumes "(i::nat) < m"
  shows "fold (\<lambda>i r. r[j * m + i := f i (r ! (j * m + i))]) [0..<m] r ! (j' * m + i)
       = (if j' = j \<and> j' * m + i < length r then f i (r ! (j * m + i)) else r ! (j' * m + i))"
proof (cases "j' = j")
  case True
  then show ?thesis using assms by (simp add: fold_upd_range [where b = "j * m"])
next
  case False
  have "\<not> (j * m \<le> j' * m + i \<and> j' * m + i < j * m + m)"
  proof
    assume "j * m \<le> j' * m + i \<and> j' * m + i < j * m + m"
    then have "(j' * m + i) div m = j" using block_div_mod [of j m "j' * m + i"] by simp
    then show False using False assms by simp
  qed
  then show ?thesis using False by (auto simp add: fold_upd_range [where b = "j * m"])
qed

lemma update_alpha_a_eq:
  "j < length (alpha_a s) \<Longrightarrow> update_alpha_a L j mu0 mu1 s =
     (let d1 = normal_distribution L mu1 (sqrt_T (var_alpha_a1 s ! 0)) (generator s);
          d0 = normal_distribution L mu0 (sqrt_T (var_alpha_a0 s ! 0)) (snd d1);
          b = r3 s ! j * fst d1 + (Fin 1 - r3 s ! j) * fst d0
      in s\<lparr>old := alpha_a s ! j, alpha_a := (alpha_a s)[j := b], generator := snd d0,
           res2 := fold (\<lambda>i r. r[j * n s + i := r ! (j * n s + i) + (alpha_a s ! j - b) * A s ! i])
                     [0..<n s] (res2 s)\<rparr>)"
  by (simp add: update_alpha_a_def Let_def split_beta)

lemma update_alpha_a_inv:
  assumes L: "lib_ok L" and w: "wf s" and c: "caches_ok s" and j: "j < q s"
    and m: "fin mu0" "fin mu1" and v: "posfin (var_alpha_a0 s ! 0)" "posfin (var_alpha_a1 s ! 0)"
  shows "wf (update_alpha_a L j mu0 mu1 s)" and "caches_ok (update_alpha_a L j mu0 mu1 s)"
proof -
  define d1 where "d1 = normal_distribution L mu1 (sqrt_T (var_alpha_a1 s ! 0)) (generator s)"
  define d0 where "d0 = normal_distribution L mu0 (sqrt_T (var_alpha_a0 s ! 0)) (snd d1)"
  define b where "b = r3 s ! j * fst d1 + (Fin 1 - r3 s ! j) * fst d0"
  define s' where "s' = s\<lparr>old := alpha_a s ! j, alpha_a := (alpha_a s)[j := b], generator := snd d0,
           res2 := fold (\<lambda>i r. r[j * n s + i := r ! (j * n s + i) + (alpha_a s ! j - b) * A s ! i])
                     [0..<n s] (res2 s)\<rparr>"
  note f = wf_fin [OF w]
  have jl: "j < length (alpha_a s)" using w j by (simp add: wf_def)
  have eq: "update_alpha_a L j mu0 mu1 s = s'"
    using update_alpha_a_eq [OF jl, of L mu0 mu1]
    by (simp add: Let_def s'_def b_def d0_def d1_def)
  have fb: "fin b"
    unfolding b_def d1_def d0_def by (intro fin_mix f(12) [OF j] lib_ok_normal L m v)
  show "wf (update_alpha_a L j mu0 mu1 s)"
    unfolding eq using w fb by (simp add: wf_def s'_def list_all_update)
  have r2: "res2 s' ! (j' * n s + i) = Fin (res2_formula s' j' i)" if i: "i < n s" and j': "j' < q s" for i j'
  proof -
    have o: "res2 s ! (j' * n s + i) = Fin (res2_formula s j' i)" using c i j' by (simp add: caches_ok_def)
    have len: "length (res2 s) = n s * q s" using c by (simp add: caches_ok_def)
    have x: "j' * n s + i < n s * q s" using idx_bound [OF j' i] .
    show ?thesis
    proof (cases "j' = j")
      case True
      have a: "fin (A s ! i)" using f(2) [OF i] .
      have bm: "fin (alpha_a s ! j)" using f(8) [OF j] .
      have "res2 s' ! (j * n s + i) = res2 s ! (j * n s + i) + (alpha_a s ! j - b) * A s ! i"
        using i len x True
        by (simp add: s'_def col_upd_nth [where f = "\<lambda>i v. v + (alpha_a s ! j - b) * A s ! i"])
      also have "\<dots> = Fin (res2_formula s j i + (rv (alpha_a s ! j) - rv b) * rv (A s ! i))"
        using a bm fb o True by (cases "A s ! i"; cases "alpha_a s ! j"; cases b) simp_all
      also have "res2_formula s j i + (rv (alpha_a s ! j) - rv b) * rv (A s ! i) = res2_formula s' j i"
        using jl by (simp add: res2_formula_def s'_def algebra_simps)
      finally show ?thesis using True by simp
    next
      case False
      have "res2 s' ! (j' * n s + i) = res2 s ! (j' * n s + i)"
        using i False
        by (simp add: s'_def col_upd_nth [where f = "\<lambda>i v. v + (alpha_a s ! j - b) * A s ! i"])
      moreover have "res2_formula s' j' i = res2_formula s j' i"
        using False by (simp add: res2_formula_def s'_def)
      ultimately show ?thesis using o by simp
    qed
  qed
  show "caches_ok (update_alpha_a L j mu0 mu1 s)"
    unfolding eq using c r2
    by (simp add: caches_ok_def) (simp add: s'_def res1_formula_def res2_c_formula_def)
qed

lemma update_r1_inv:
  assumes "wf s" and "caches_ok s"
  shows "wf (update_r1 L j mu0 mu1 s)" and "caches_ok (update_r1 L j mu0 mu1 s)"
  using assms
  by (simp_all add: update_r1_def Let_def split_beta wf_def caches_ok_def list_all_update
      res1_formula_def res2_formula_def res2_c_formula_def)

lemma update_r3_inv:
  assumes "wf s" and "caches_ok s"
  shows "wf (update_r3 L j mu0 mu1 s)" and "caches_ok (update_r3 L j mu0 mu1 s)"
  using assms
  by (simp_all add: update_r3_def Let_def split_beta wf_def caches_ok_def list_all_update
      res1_formula_def res2_formula_def res2_c_formula_def)

lemma alpha_c_loop:
  "fold (\<lambda>i s. s\<lparr>res2 := (res2 s)[j * n s + i := res2 s ! (j * n s + i)
                    + (old s - alpha_c s ! (j * w2 s + j1)) * C2 s ! (j1 * n s + i)],
                 res2_c := (res2_c s)[j * n s + i := res2_c s ! (j * n s + i)
                    + (old s - alpha_c s ! (j * w2 s + j1)) * C2 s ! (j1 * n s + i)]\<rparr>) xs s
   = s\<lparr>res2 := fold (\<lambda>i r. r[j * n s + i := r ! (j * n s + i)
                    + (old s - alpha_c s ! (j * w2 s + j1)) * C2 s ! (j1 * n s + i)]) xs (res2 s),
        res2_c := fold (\<lambda>i r. r[j * n s + i := r ! (j * n s + i)
                    + (old s - alpha_c s ! (j * w2 s + j1)) * C2 s ! (j1 * n s + i)]) xs (res2_c s)\<rparr>"
  by (induction xs arbitrary: s) simp_all

lemma update_alpha_c_eq:
  "j * w2 s + j1 < length (alpha_c s) \<Longrightarrow> update_alpha_c L j j1 s =
     (let mu = fold (\<lambda>i mu. mu + C2 s ! (j1 * n s + i)
                    * (res2 s ! (j * n s + i) + alpha_c s ! (j * w2 s + j1) * C2 s ! (j1 * n s + i)))
                 [0..<n s] (Fin 0) / C2_2norm s ! j1;
          d = normal_distribution L mu (sqrt_T (sigma_g s / C2_2norm s ! j1)) (generator s);
          b = fst d
      in s\<lparr>old := alpha_c s ! (j * w2 s + j1), alpha_c := (alpha_c s)[j * w2 s + j1 := b],
           generator := snd d,
           res2 := fold (\<lambda>i r. r[j * n s + i := r ! (j * n s + i)
                    + (alpha_c s ! (j * w2 s + j1) - b) * C2 s ! (j1 * n s + i)]) [0..<n s] (res2 s),
           res2_c := fold (\<lambda>i r. r[j * n s + i := r ! (j * n s + i)
                    + (alpha_c s ! (j * w2 s + j1) - b) * C2 s ! (j1 * n s + i)]) [0..<n s] (res2_c s)\<rparr>)"
  by (simp add: update_alpha_c_def Let_def split_beta at2_def set2_def alpha_c_loop)

lemma block_neq:
  assumes "(k::nat) < m" and "k' < m" and "j' \<noteq> j"
  shows "j' * m + k \<noteq> j * m + k'"
proof
  assume "j' * m + k = j * m + k'"
  then have "(j' * m + k) div m = (j * m + k') div m" by simp
  then show False using assms by simp
qed

lemma sum_other_block:
  assumes "j' \<noteq> j" and "j1 < k"
  shows "(\<Sum>p<k. f p * rv (xs[j * k + j1 := v] ! (j' * k + p))) = (\<Sum>p<k. f p * rv (xs ! (j' * k + p)))"
proof (rule sum.cong)
  fix p assume "p \<in> {..<k}"
  then have "j' * k + p \<noteq> j * k + j1" using block_neq [of p k j1 j' j] assms by simp
  then show "f p * rv (xs[j * k + j1 := v] ! (j' * k + p)) = f p * rv (xs ! (j' * k + p))"
    by simp
qed simp

lemma update_alpha_c_inv:
  assumes L: "lib_ok L" and w: "wf s" and c: "caches_ok s" and j: "j < q s" and j1: "j1 < w2 s"
    and sg: "posfin (sigma_g s)" and cn: "posfin (C2_2norm s ! j1)"
  shows "wf (update_alpha_c L j j1 s)" and "caches_ok (update_alpha_c L j j1 s)"
proof -
  define mu where "mu = fold (\<lambda>i mu. mu + C2 s ! (j1 * n s + i)
                    * (res2 s ! (j * n s + i) + alpha_c s ! (j * w2 s + j1) * C2 s ! (j1 * n s + i)))
                 [0..<n s] (Fin 0) / C2_2norm s ! j1"
  define d where "d = normal_distribution L mu (sqrt_T (sigma_g s / C2_2norm s ! j1)) (generator s)"
  define b where "b = fst d"
  define a where "a = alpha_c s ! (j * w2 s + j1)"
  define s' where "s' = s\<lparr>old := a, alpha_c := (alpha_c s)[j * w2 s + j1 := b],
           generator := snd d,
           res2 := fold (\<lambda>i r. r[j * n s + i := r ! (j * n s + i) + (a - b) * C2 s ! (j1 * n s + i)])
                     [0..<n s] (res2 s),
           res2_c := fold (\<lambda>i r. r[j * n s + i := r ! (j * n s + i) + (a - b) * C2 s ! (j1 * n s + i)])
                     [0..<n s] (res2_c s)\<rparr>"
  note f = wf_fin [OF w]
  have jl: "j * w2 s + j1 < length (alpha_c s)"
    using w idx_bound [OF j j1] by (simp add: wf_def)
  have eq: "update_alpha_c L j j1 s = s'"
    using update_alpha_c_eq [OF jl, of L]
    by (simp add: Let_def s'_def b_def d_def mu_def a_def)
  have fa: "fin a" unfolding a_def using f(10) [OF j j1] .
  have "fin mu"
    unfolding mu_def
    by (intro fin_div_posfin cn fold_add_fin fin_mult fin_add f(5) [OF j1] caches_fin(2) [OF c j]
        f(10) [OF j j1]) simp_all
  then have fb: "fin b"
    unfolding b_def d_def by (intro lib_ok_normal L posfin_div sg cn)
  show "wf (update_alpha_c L j j1 s)"
    unfolding eq using w fb by (simp add: wf_def s'_def list_all_update)
  have su: "(\<Sum>p<w2 s. rv (C2 s ! (p * n s + i)) * rv ((alpha_c s)[j * w2 s + j1 := b] ! (j * w2 s + p)))
      = (\<Sum>p<w2 s. rv (C2 s ! (p * n s + i)) * rv (alpha_c s ! (j * w2 s + p)))
        + rv (C2 s ! (j1 * n s + i)) * (rv b - rv a)" for i
    unfolding a_def by (rule sum_update_off [OF j1 jl])
  have so: "(\<Sum>p<w2 s. rv (C2 s ! (p * n s + i)) * rv ((alpha_c s)[j * w2 s + j1 := b] ! (j' * w2 s + p)))
      = (\<Sum>p<w2 s. rv (C2 s ! (p * n s + i)) * rv (alpha_c s ! (j' * w2 s + p)))" if "j' \<noteq> j" for i j'
    by (rule sum_other_block [OF that j1])
  have upd: "fold (\<lambda>i r. r[j * n s + i := r ! (j * n s + i) + (a - b) * C2 s ! (j1 * n s + i)])
                [0..<n s] r ! (j' * n s + i)
      = (if j' = j \<and> j' * n s + i < length r
         then r ! (j * n s + i) + (a - b) * C2 s ! (j1 * n s + i) else r ! (j' * n s + i))"
    if "i < n s" for r i j'
    using that by (rule col_upd_nth [where f = "\<lambda>i v. v + (a - b) * C2 s ! (j1 * n s + i)"])
  have step: "x + (a - b) * C2 s ! (j1 * n s + i) = Fin (y + (rv a - rv b) * rv (C2 s ! (j1 * n s + i)))"
    if "x = Fin y" and "i < n s" for x y i
    using that fa fb f(5) [OF j1 that(2)]
    by (cases "C2 s ! (j1 * n s + i)"; cases a; cases b) simp_all
  have r2: "res2 s' ! (j' * n s + i) = Fin (res2_formula s' j' i)
            \<and> res2_c s' ! (j' * n s + i) = Fin (res2_c_formula s' j' i)"
    if i: "i < n s" and j': "j' < q s" for i j'
  proof -
    have o: "res2 s ! (j' * n s + i) = Fin (res2_formula s j' i)"
      "res2_c s ! (j' * n s + i) = Fin (res2_c_formula s j' i)"
      using c i j' by (simp_all add: caches_ok_def)
    have len: "length (res2 s) = n s * q s" "length (res2_c s) = n s * q s"
      using c by (simp_all add: caches_ok_def)
    have x: "j' * n s + i < n s * q s" using idx_bound [OF j' i] .
    show ?thesis
    proof (cases "j' = j")
      case True
      have "res2 s' ! (j * n s + i) = Fin (res2_formula s j i + (rv a - rv b) * rv (C2 s ! (j1 * n s + i)))"
        using i len x True o by (simp add: s'_def upd step)
      moreover have "res2_formula s j i + (rv a - rv b) * rv (C2 s ! (j1 * n s + i)) = res2_formula s' j i"
        unfolding res2_formula_def s'_def by (simp add: su) (simp add: algebra_simps)
      moreover have "res2_c s' ! (j * n s + i)
          = Fin (res2_c_formula s j i + (rv a - rv b) * rv (C2 s ! (j1 * n s + i)))"
        using i len x True o by (simp add: s'_def upd step)
      moreover have "res2_c_formula s j i + (rv a - rv b) * rv (C2 s ! (j1 * n s + i)) = res2_c_formula s' j i"
        unfolding res2_c_formula_def s'_def by (simp add: su) (simp add: algebra_simps)
      ultimately show ?thesis using True by simp
    next
      case False
      have "res2 s' ! (j' * n s + i) = res2 s ! (j' * n s + i)"
        "res2_c s' ! (j' * n s + i) = res2_c s ! (j' * n s + i)"
        using i False by (simp_all add: s'_def upd)
      moreover have "res2_formula s' j' i = res2_formula s j' i"
        "res2_c_formula s' j' i = res2_c_formula s j' i"
        using False by (simp_all add: res2_formula_def res2_c_formula_def s'_def so)
      ultimately show ?thesis using o by simp
    qed
  qed
  show "caches_ok (update_alpha_c L j j1 s)"
    unfolding eq using c r2
    by (simp add: caches_ok_def) (simp add: s'_def res1_formula_def)
qed

lemma fold_upt_inv:
  "P s \<Longrightarrow> (\<And>i s. i < k \<Longrightarrow> P s \<Longrightarrow> P (f i s)) \<Longrightarrow> P (fold f [0..<k] s)"
  by (induction k) simp_all

lemma r1_length_mediator_step:
  "length (r1 (mediator_step L j s)) = length (r1 s)"
  "length (r3 (mediator_step L j s)) = length (r3 s)"
  using r1_mediator_step [of L j s] r3_mediator_step [of L j s] by auto

lemma mu_sums_fin:
  assumes w: "wf s" and c: "caches_ok s" and j: "j < q s"
  shows "fin (fst (mu_sums s j))" and "fin (snd (mu_sums s j))"
  unfolding mu_sums_eq fst_conv snd_conv at2_def
  by (intro sum_T_fin fin_mult fin_add wf_fin(3) [OF w j] wf_fin(7) [OF w j] wf_fin(2) [OF w]
      caches_fin(1) [OF c] caches_fin(3) [OF c j]; assumption)+

lemma pos_nth:
  assumes "pos s"
  shows "nonneg (A2norm s ! 0)" "j < q s \<Longrightarrow> nonneg (M2norm s ! j)"
    "j < w1 s \<Longrightarrow> posfin (C1_2norm s ! j)" "j < w2 s \<Longrightarrow> posfin (C2_2norm s ! j)"
    "j < length (r1 s) \<Longrightarrow> indicator (r1 s ! j)" "j < length (r3 s) \<Longrightarrow> indicator (r3 s ! j)"
  using assms by (simp_all add: pos_def list_all_length)

lemma pos_sigma:
  assumes "pos s"
  shows "posfin (sigma_m0 s)" "posfin (sigma_m1 s)" "posfin (sigma_a s)" "posfin (sigma_ma0 s)"
    "posfin (sigma_ma1 s)" "posfin (sigma_g s)" "posfin (sigma_e s)"
  using assms by (simp_all add: pos_def)

lemma vars_ok_nth:
  assumes "vars_ok s"
  shows "j < q s \<Longrightarrow> posfin (var_m0 s ! j)" "j < q s \<Longrightarrow> posfin (var_m1 s ! j)"
    "posfin (var_alpha_a0 s ! 0)" "posfin (var_alpha_a1 s ! 0)" "posfin (var_a s ! 0)"
  using assms by (simp_all add: vars_ok_def list_all_length)

lemma update_r_indicator:
  "list_all indicator (r1 s) \<Longrightarrow> list_all indicator (r1 (update_r1 L j mu0 mu1 s))"
  "list_all indicator (r3 s) \<Longrightarrow> list_all indicator (r3 (update_r3 L j mu0 mu1 s))"
  by (simp_all add: update_r1_def update_r3_def Let_def split_beta list_all_update indicator_def)

lemma mediator_step_indicator:
  "list_all indicator (r1 s) \<Longrightarrow> list_all indicator (r1 (mediator_step L j s))"
  "list_all indicator (r3 s) \<Longrightarrow> list_all indicator (r3 (mediator_step L j s))"
  by (simp_all add: mediator_step_def Let_def split_beta fold_frame update_r_indicator)

lemma mediator_step_pos:
  assumes "pos s" shows "pos (mediator_step L j s)"
  using assms mediator_step_indicator [of s L j]
    sweep_length_r [of L "Suc 0" s]
  by (simp add: pos_def r1_length_mediator_step)

lemma mediator_step_vars_ok: "vars_ok (mediator_step L j s) = vars_ok s"
  by (simp add: vars_ok_def)

lemma mediator_step_inv:
  assumes L: "lib_ok L" and w: "wf (s::'g Variables)" and c: "caches_ok s" and j: "j < q s"
    and p: "pos s" and v: "vars_ok s"
  shows "wf (mediator_step L j s)" and "caches_ok (mediator_step L j s)"
proof -
  define mu_mj0 where "mu_mj0 = fst (mu_sums s j) / (sigma_e s / sigma_m0 s + M2norm s ! j)"
  define mu_mj1 where "mu_mj1 = fst (mu_sums s j) / (sigma_e s / sigma_m1 s + M2norm s ! j)"
  define mu_a0 where "mu_a0 = snd (mu_sums s j) * (var_alpha_a0 s ! 0 / sigma_g s)"
  define mu_a1 where "mu_a1 = snd (mu_sums s j) * (var_alpha_a1 s ! 0 / sigma_g s)"
  define t1 where "t1 = update_beta_m L j mu_mj0 mu_mj1 s"
  define t2 where "t2 = update_alpha_a L j mu_a0 mu_a1 t1"
  define t3 where "t3 = update_r1 L j mu_mj0 mu_mj1 t2"
  define t4 where "t4 = update_r3 L j mu_a0 mu_a1 t3"
  note ps = pos_sigma [OF p]
  note pn = pos_nth [OF p]
  note vn = vars_ok_nth [OF v]
  note mf = mu_sums_fin [OF w c j]
  have m: "fin mu_mj0" "fin mu_mj1"
    unfolding mu_mj0_def mu_mj1_def
    by (intro fin_div_posfin mf posfin_add_nonneg posfin_div ps pn(2) [OF j])+
  have ma: "fin mu_a0" "fin mu_a1"
    unfolding mu_a0_def mu_a1_def
    by (intro fin_mult mf posfin_fin posfin_div ps vn)+
  have eq: "mediator_step L j s = fold (update_alpha_c L j) [0..<w2 s] t4"
    by (simp add: mediator_step_def Let_def split_beta t4_def t3_def t2_def t1_def
        mu_mj0_def mu_mj1_def mu_a0_def mu_a1_def)
  have 1: "wf t1" "caches_ok t1" "q t1 = q s"
    unfolding t1_def using update_beta_m_inv [OF L w c j m vn(1) [OF j] vn(2) [OF j]] by simp_all
  have v1: "posfin (var_alpha_a0 t1 ! 0)" "posfin (var_alpha_a1 t1 ! 0)"
    using vn by (simp_all add: t1_def)
  have j1: "j < q t1" using j 1(3) by simp
  have 2: "wf t2" "caches_ok t2" "q t2 = q s"
    unfolding t2_def using update_alpha_a_inv [OF L 1(1) 1(2) j1 ma v1] 1(3) by (simp_all add: t1_def)
  have 3: "wf t3" "caches_ok t3" "q t3 = q s"
    unfolding t3_def using update_r1_inv [OF 2(1) 2(2)] 2(3) by (simp_all add: t2_def t1_def)
  have 4: "wf t4" "caches_ok t4" "q t4 = q s" "w2 t4 = w2 s"
    "sigma_g t4 = sigma_g s" "C2_2norm t4 = C2_2norm s"
    unfolding t4_def using update_r3_inv [OF 3(1) 3(2)] 3(3)
    by (simp_all add: t3_def t2_def t1_def)
  have "wf (fold (update_alpha_c L j) [0..<w2 s] t4)
        \<and> caches_ok (fold (update_alpha_c L j) [0..<w2 s] t4)
        \<and> q (fold (update_alpha_c L j) [0..<w2 s] t4) = q s
        \<and> w2 (fold (update_alpha_c L j) [0..<w2 s] t4) = w2 s
        \<and> sigma_g (fold (update_alpha_c L j) [0..<w2 s] t4) = sigma_g s
        \<and> C2_2norm (fold (update_alpha_c L j) [0..<w2 s] t4) = C2_2norm s"
  proof (rule fold_upt_inv [where P = "\<lambda>t. wf t \<and> caches_ok t \<and> q t = q s \<and> w2 t = w2 s
      \<and> sigma_g t = sigma_g s \<and> C2_2norm t = C2_2norm s"])
    show "wf t4 \<and> caches_ok t4 \<and> q t4 = q s \<and> w2 t4 = w2 s
        \<and> sigma_g t4 = sigma_g s \<and> C2_2norm t4 = C2_2norm s" using 4 by simp
  next
    fix i and t :: "'g Variables"
    assume i: "i < w2 s" and t: "wf t \<and> caches_ok t \<and> q t = q s \<and> w2 t = w2 s
        \<and> sigma_g t = sigma_g s \<and> C2_2norm t = C2_2norm s"
    then have b: "j < q t" "i < w2 t" using j by simp_all
    have g: "posfin (sigma_g t)" "posfin (C2_2norm t ! i)" using t ps pn(4) [OF i] by simp_all
    show "wf (update_alpha_c L j i t) \<and> caches_ok (update_alpha_c L j i t)
        \<and> q (update_alpha_c L j i t) = q s \<and> w2 (update_alpha_c L j i t) = w2 s
        \<and> sigma_g (update_alpha_c L j i t) = sigma_g s \<and> C2_2norm (update_alpha_c L j i t) = C2_2norm s"
      using update_alpha_c_inv [OF L _ _ b g] t by simp
  qed
  then show "wf (mediator_step L j s)" and "caches_ok (mediator_step L j s)"
    unfolding eq by simp_all
qed

lemma fold_inv: "P a \<Longrightarrow> (\<And>x a. P a \<Longrightarrow> P (f x a)) \<Longrightarrow> P (fold f xs a)"
  by (induction xs arbitrary: a) simp_all

lemma beta_c_loop:
  assumes L: "lib_ok L" and fj: "fin (beta_c (s::'g Variables) ! j)"
    and se: "posfin (sigma_e s)" and cn: "posfin (C1_2norm s ! j)"
    and fc: "\<And>i. i < k \<Longrightarrow> fin (C1 s ! (j * n s + i))" and fr: "\<And>i. i < k \<Longrightarrow> fin (res1 s ! i)"
    and fm: "fin mu0"
  shows "\<exists>m b g. fin m \<and> fin b \<and>
     fold (\<lambda>i (mu_cj, s).
             (let mu_cj = mu_cj + at2 (n s) (C1 s) i j * (res1 s ! i + at2 (n s) (C1 s) i j * beta_c s ! j);
                  mu_cj = mu_cj / C1_2norm s ! j;
                  (x, g) = normal_distribution L mu_cj (sqrt_T (sigma_e s / C1_2norm s ! j)) (generator s)
              in (mu_cj, s\<lparr>beta_c := (beta_c s)[j := x], generator := g\<rparr>))) [0..<k] (mu0, s)
       = (m, s\<lparr>beta_c := (beta_c s)[j := b], generator := g\<rparr>)"
    (is "\<exists>m b g. _ \<and> _ \<and> fold ?F _ _ = _")
  using fc fr
proof (induction k)
  case 0
  show ?case
    using fj fm by (intro exI [of _ mu0] exI [of _ "beta_c s ! j"] exI [of _ "generator s"]) simp
next
  case (Suc k)
  have "\<exists>m b g. fin m \<and> fin b \<and>
     fold ?F [0..<k] (mu0, s) = (m, s\<lparr>beta_c := (beta_c s)[j := b], generator := g\<rparr>)"
    using Suc.prems by (intro Suc.IH) simp_all
  then obtain m b g where m: "fin m" and b: "fin b"
    and e: "fold ?F [0..<k] (mu0, s) = (m, s\<lparr>beta_c := (beta_c s)[j := b], generator := g\<rparr>)"
    by blast
  have fb: "fin ((beta_c s)[j := b] ! j)"
    using fj b by (cases "j < length (beta_c s)") (simp_all add: list_update_beyond)
  define m' where "m' = (m + C1 s ! (j * n s + k) * (res1 s ! k + C1 s ! (j * n s + k) * (beta_c s)[j := b] ! j))
      / C1_2norm s ! j"
  define d where "d = normal_distribution L m' (sqrt_T (sigma_e s / C1_2norm s ! j)) g"
  have fm': "fin m'"
    unfolding m'_def
    by (intro fin_div_posfin cn fin_add fin_mult m fb Suc.prems) simp_all
  have fx: "fin (fst d)"
    unfolding d_def by (intro lib_ok_normal L fm' posfin_div se cn)
  have "fold ?F [0..<Suc k] (mu0, s) = ?F k (fold ?F [0..<k] (mu0, s))"
    by simp
  also have "\<dots> = ?F k (m, s\<lparr>beta_c := (beta_c s)[j := b], generator := g\<rparr>)"
    by (simp only: e)
  also have "\<dots> = (m', s\<lparr>beta_c := (beta_c s)[j := fst d], generator := snd d\<rparr>)"
    by (simp add: Let_def split_beta at2_def m'_def d_def)
  finally show ?case using fm' fx by blast
qed

lemma update_beta_c_shape:
  assumes L: "lib_ok L" and w: "wf (s::'g Variables)" and c: "caches_ok s" and j: "j < w1 s"
    and se: "posfin (sigma_e s)" and cn: "posfin (C1_2norm s ! j)"
  shows "\<exists>b g. fin b \<and> update_beta_c L j s =
     s\<lparr>old := beta_c s ! j, beta_c := (beta_c s)[j := b], generator := g,
       res1 := fold (\<lambda>i r. r[i := r ! i + (beta_c s ! j - b) * C1 s ! (j * n s + i)])
                 [0..<n s] (res1 s)\<rparr>"
proof -
  let ?s = "s\<lparr>old := beta_c s ! j\<rparr>"
  define F :: "nat \<Rightarrow> T \<times> 'g Variables \<Rightarrow> T \<times> 'g Variables" where "F = (\<lambda>i (mu_cj, s).
             (let mu_cj = mu_cj + at2 (n s) (C1 s) i j * (res1 s ! i + at2 (n s) (C1 s) i j * beta_c s ! j);
                  mu_cj = mu_cj / C1_2norm s ! j;
                  (x, g) = normal_distribution L mu_cj (sqrt_T (sigma_e s / C1_2norm s ! j)) (generator s)
              in (mu_cj, s\<lparr>beta_c := (beta_c s)[j := x], generator := g\<rparr>)))"
  have jl: "j < length (beta_c s)" using w j by (simp add: wf_def)
  have u: "update_beta_c L j s =
      (let t = snd (fold F [0..<n s] (Fin 0, ?s))
       in t\<lparr>res1 := fold (\<lambda>i r. r[i := r ! i + (old t - beta_c t ! j) * C1 t ! (j * n t + i)])
                        [0..<n t] (res1 t)\<rparr>)"
    by (simp add: update_beta_c_def Let_def split_beta F_def at2_def)
  have "\<exists>m b g. fin m \<and> fin b \<and> fold F [0..<n ?s] (Fin 0, ?s)
       = (m, ?s\<lparr>beta_c := (beta_c ?s)[j := b], generator := g\<rparr>)"
    unfolding F_def
    using wf_fin(9) [OF w j] wf_fin(4) [OF w j] caches_fin(1) [OF c] se cn
    by (intro beta_c_loop [OF L]) simp_all
  then obtain m b g where b: "fin b"
    and e: "fold F [0..<n s] (Fin 0, ?s) = (m, ?s\<lparr>beta_c := (beta_c ?s)[j := b], generator := g\<rparr>)"
    by auto
  show ?thesis
    using b jl
    by (intro exI [of _ b] exI [of _ g]) (simp add: u e Let_def)
qed

lemma update_beta_c_inv:
  assumes L: "lib_ok L" and w: "wf (s::'g Variables)" and c: "caches_ok s" and j: "j < w1 s"
    and se: "posfin (sigma_e s)" and cn: "posfin (C1_2norm s ! j)"
  shows "wf (update_beta_c L j s)" and "caches_ok (update_beta_c L j s)"
proof -
  note f = wf_fin [OF w]
  have jl: "j < length (beta_c s)" using w j by (simp add: wf_def)
  obtain b g where fb: "fin b" and eq: "update_beta_c L j s =
     s\<lparr>old := beta_c s ! j, beta_c := (beta_c s)[j := b], generator := g,
       res1 := fold (\<lambda>i r. r[i := r ! i + (beta_c s ! j - b) * C1 s ! (j * n s + i)])
                 [0..<n s] (res1 s)\<rparr>"
    using update_beta_c_shape [OF L w c j se cn] by blast
  define s' where "s' = s\<lparr>old := beta_c s ! j, beta_c := (beta_c s)[j := b], generator := g,
       res1 := fold (\<lambda>i r. r[i := r ! i + (beta_c s ! j - b) * C1 s ! (j * n s + i)])
                 [0..<n s] (res1 s)\<rparr>"
  have eq': "update_beta_c L j s = s'" using eq by (simp add: s'_def)
  show "wf (update_beta_c L j s)"
    unfolding eq' using w fb by (simp add: wf_def s'_def list_all_update)
  have r1: "res1 s' ! i = Fin (res1_formula s' i)" if i: "i < n s" for i
  proof -
    have o: "res1 s ! i = Fin (res1_formula s i)" using c i by (simp add: caches_ok_def)
    have len: "length (res1 s) = n s" using c by (simp add: caches_ok_def)
    have m: "fin (C1 s ! (j * n s + i))" using f(4) [OF j i] .
    have bm: "fin (beta_c s ! j)" using f(9) [OF j] .
    have "res1 s' ! i = res1 s ! i + (beta_c s ! j - b) * C1 s ! (j * n s + i)"
      using i len
      by (simp add: s'_def fold_upd_range0 [where f = "\<lambda>i v. v + (beta_c s ! j - b) * C1 s ! (j * n s + i)"])
    also have "\<dots> = Fin (res1_formula s i + (rv (beta_c s ! j) - rv b) * rv (C1 s ! (j * n s + i)))"
      using m bm fb o by (cases "C1 s ! (j * n s + i)"; cases "beta_c s ! j"; cases b) simp_all
    also have "res1_formula s i + (rv (beta_c s ! j) - rv b) * rv (C1 s ! (j * n s + i)) = res1_formula s' i"
      unfolding res1_formula_def s'_def
      by (simp add: sum_update [OF j jl, where f = "\<lambda>k. rv (C1 s ! (k * n s + i))"])
        (simp add: algebra_simps)
    finally show ?thesis .
  qed
  show "caches_ok (update_beta_c L j s)"
    unfolding eq' using c r1
    by (simp add: caches_ok_def) (simp add: s'_def res2_formula_def res2_c_formula_def)
qed

lemma update_beta_a_eq:
  "0 < length (beta_a s) \<Longrightarrow> update_beta_a L s =
     (let mu = fold (\<lambda>i mu_a. mu_a + A s ! i * (res1 s ! i + beta_a s ! 0 * A s ! i)) [0..<n s] (Fin 0)
                 * (var_a s ! 0 / sigma_e s);
          d = normal_distribution L mu (sqrt_T (var_a s ! 0)) (generator s);
          b = fst d
      in s\<lparr>old := beta_a s ! 0, beta_a := (beta_a s)[0 := b], generator := snd d,
           res1 := fold (\<lambda>i r. r[i := r ! i + (beta_a s ! 0 - b) * A s ! i]) [0..<n s] (res1 s)\<rparr>)"
  by (simp add: update_beta_a_def Let_def split_beta)

lemma update_beta_a_inv:
  assumes L: "lib_ok L" and w: "wf s" and c: "caches_ok s"
    and se: "posfin (sigma_e s)" and va: "posfin (var_a s ! 0)"
  shows "wf (update_beta_a L s)" and "caches_ok (update_beta_a L s)"
proof -
  define mu where "mu = fold (\<lambda>i mu_a. mu_a + A s ! i * (res1 s ! i + beta_a s ! 0 * A s ! i)) [0..<n s] (Fin 0)
                 * (var_a s ! 0 / sigma_e s)"
  define d where "d = normal_distribution L mu (sqrt_T (var_a s ! 0)) (generator s)"
  define b where "b = fst d"
  define s' where "s' = s\<lparr>old := beta_a s ! 0, beta_a := (beta_a s)[0 := b], generator := snd d,
           res1 := fold (\<lambda>i r. r[i := r ! i + (beta_a s ! 0 - b) * A s ! i]) [0..<n s] (res1 s)\<rparr>"
  note f = wf_fin [OF w]
  have jl: "0 < length (beta_a s)" using w by (simp add: wf_def)
  have eq: "update_beta_a L s = s'"
    using update_beta_a_eq [OF jl, of L] by (simp add: Let_def s'_def b_def d_def mu_def)
  have "fin (fold (\<lambda>i mu_a. mu_a + A s ! i * (res1 s ! i + beta_a s ! 0 * A s ! i)) [0..<n s] (Fin 0))"
    by (intro fold_add_fin fin_mult fin_add wf_fin(2) [OF w] wf_fin(6) [OF w] caches_fin(1) [OF c])
      simp_all
  moreover have "fin (var_a s ! 0 / sigma_e s)"
    by (intro posfin_fin posfin_div va se)
  ultimately have "fin mu" unfolding mu_def by (rule fin_mult)
  then have fb: "fin b" unfolding b_def d_def by (intro lib_ok_normal L va)
  show "wf (update_beta_a L s)"
    unfolding eq using w fb by (simp add: wf_def s'_def list_all_update)
  have r1: "res1 s' ! i = Fin (res1_formula s' i)" if i: "i < n s" for i
  proof -
    have o: "res1 s ! i = Fin (res1_formula s i)" using c i by (simp add: caches_ok_def)
    have len: "length (res1 s) = n s" using c by (simp add: caches_ok_def)
    have m: "fin (A s ! i)" using f(2) [OF i] .
    have bm: "fin (beta_a s ! 0)" using f(6) .
    have "res1 s' ! i = res1 s ! i + (beta_a s ! 0 - b) * A s ! i"
      using i len
      by (simp add: s'_def fold_upd_range0 [where f = "\<lambda>i v. v + (beta_a s ! 0 - b) * A s ! i"])
    also have "\<dots> = Fin (res1_formula s i + (rv (beta_a s ! 0) - rv b) * rv (A s ! i))"
      using m bm fb o by (cases "A s ! i"; cases "beta_a s ! 0"; cases b) simp_all
    also have "res1_formula s i + (rv (beta_a s ! 0) - rv b) * rv (A s ! i) = res1_formula s' i"
      using jl unfolding res1_formula_def s'_def by (simp add: algebra_simps)
    finally show ?thesis .
  qed
  show "caches_ok (update_beta_a L s)"
    unfolding eq using c r1
    by (simp add: caches_ok_def) (simp add: s'_def res2_formula_def res2_c_formula_def)
qed

lemma idx_split:
  assumes "x < m * k"
  shows "\<exists>j i. x = j * m + i \<and> j < k \<and> i < (m::nat)"
proof -
  have m: "0 < m" using assms by (cases m) auto
  have "x div m < k" using assms m by (simp add: less_mult_imp_div_less mult.commute)
  then show ?thesis using m by (intro exI [of _ "x div m"] exI [of _ "x mod m"]) simp
qed

lemma update_var_m_length:
  "length (var_m0 (update_var_m s)) = q s" "length (var_m1 (update_var_m s)) = q s"
  by (simp_all add: update_var_m_def Let_def
      fold_preserves [where sel = "\<lambda>s. length (var_m0 s)"]
      fold_preserves [where sel = "\<lambda>s. length (var_m1 s)"])

lemma posfin_one [simp]: "posfin (Fin 1)"
  by simp

lemma update_var_m_posfin:
  assumes p: "pos s"
  shows "list_all posfin (var_m0 (update_var_m s))" "list_all posfin (var_m1 (update_var_m s))"
proof -
  note ps = pos_sigma [OF p]
  have "posfin (Fin 1 / (Fin 1 / sigma_m0 s + M2norm s ! j / sigma_e s))"
    "posfin (Fin 1 / (Fin 1 / sigma_m1 s + M2norm s ! j / sigma_e s))" if "j < q s" for j
    by (intro posfin_div posfin_add_nonneg nonneg_div_posfin pos_nth(2) [OF p that] ps posfin_one)+
  then show "list_all posfin (var_m0 (update_var_m s))" "list_all posfin (var_m1 (update_var_m s))"
    by (simp_all add: list_all_length update_var_m_length update_var_m_nth)
qed

lemma update_var_a_posfin:
  assumes p: "pos s"
  shows "posfin (var_alpha_a0 (update_var_a s) ! 0)" "posfin (var_alpha_a1 (update_var_a s) ! 0)"
    "posfin (var_a (update_var_a s) ! 0)"
proof -
  note ps = pos_sigma [OF p]
  have "posfin (sigma_g s / (sigma_g s / sigma_ma0 s + A2norm s ! 0))"
    "posfin (sigma_g s / (sigma_g s / sigma_ma1 s + A2norm s ! 0))"
    "posfin (sigma_e s / (sigma_e s / sigma_a s + A2norm s ! 0))"
    by (intro posfin_div posfin_add_nonneg pos_nth(1) [OF p] ps)+
  then show "posfin (var_alpha_a0 (update_var_a s) ! 0)" "posfin (var_alpha_a1 (update_var_a s) ! 0)"
    "posfin (var_a (update_var_a s) ! 0)"
    by (simp_all add: update_var_a_def Let_def)
qed

lemma half_nonneg: "nonneg x \<Longrightarrow> nonneg (Fin (1 / 2) * x)"
  by (erule nonnegE) simp

lemma update_sigma_e_g_pos:
  assumes L: "lib_ok L" and c: "caches_ok s" and p: "pos s"
  shows "pos (update_sigma_e_g L s)"
proof -
  have f2: "fin (res2 s ! x)" if x: "x < n s * q s" for x
  proof -
    obtain j i where "x = j * n s + i" "j < q s" "i < n s" using idx_split [OF x] by blast
    then show ?thesis using caches_fin(2) [OF c] by simp
  qed
  have a: "posfin (ke + of_size (n s) / Fin 2)" "posfin (kg + of_size (q s) * of_size (n s) / Fin 2)"
    by (simp_all add: ke_def kg_def of_size_def add_pos_nonneg)
  have b: "posfin (le + Fin (1 / 2) * sum_T (\<lambda>i. res1 s ! i * res1 s ! i) (n s))"
    by (intro posfin_add_nonneg half_nonneg sum_T_nonneg nonneg_square caches_fin(1) [OF c])
      (simp_all add: le_def)
  have d: "posfin (lg + Fin (1 / 2) * sum_T (\<lambda>i. res2 s ! i * res2 s ! i) (n s * q s))"
    by (intro posfin_add_nonneg half_nonneg sum_T_nonneg nonneg_square f2)
      (simp_all add: lg_def)
  show ?thesis
    using p lib_ok_inv_gamma [OF L a(1) b] lib_ok_inv_gamma [OF L a(2) d]
    by (simp add: update_sigma_e_g_eq Let_def pos_def)
qed

lemma update_sigma_m_a_pos:
  assumes L: "lib_ok L" and w: "wf s" and p: "pos s"
  shows "pos (update_sigma_m_a L s)"
proof -
  have l: "length (r1 s) = q s" "length (r3 s) = q s" using w by (simp_all add: wf_def)
  have i1: "indicator (r1 s ! j)" and i3: "indicator (r3 s ! j)" if "j < q s" for j
    using pos_nth(5,6) [OF p, of j] l that by simp_all
  note f = wf_fin [OF w]
  have n1: "nonneg (r1 s ! j * (beta_m s ! j * beta_m s ! j))"
    "nonneg ((Fin 1 - r1 s ! j) * (beta_m s ! j * beta_m s ! j))"
    "nonneg (r3 s ! j * (alpha_a s ! j * alpha_a s ! j))"
    "nonneg ((Fin 1 - r3 s ! j) * (alpha_a s ! j * alpha_a s ! j))" if "j < q s" for j
    by (intro nonneg_mult nonneg_square indicator_nonneg i1 i3 f(7) f(8) that)+
  have k: "posfin km1" "posfin lm1" "posfin km0" "posfin lm0" "posfin kma1" "posfin lma1"
    "posfin kma0" "posfin lma0" "posfin la"
    by (simp_all add: km1_def lm1_def km0_def lm0_def kma1_def lma1_def kma0_def lma0_def la_def)
  have a: "posfin (ka + Fin (1 / 2))" by (simp add: ka_def)
  have b: "posfin (la + beta_a s ! 0 * beta_a s ! 0 / Fin 2)"
    by (intro posfin_add_nonneg k nonneg_div_posfin nonneg_square f(6)) simp
  have sh: "posfin (km1 + Fin (1 / 2) * sum_T (\<lambda>j. r1 s ! j) (q s))"
    "posfin (kma1 + Fin (1 / 2) * sum_T (\<lambda>j. r3 s ! j) (q s))"
    "posfin (km0 + Fin (1 / 2) * sum_T (\<lambda>j. Fin 1 - r1 s ! j) (q s))"
    "posfin (kma0 + Fin (1 / 2) * sum_T (\<lambda>j. Fin 1 - r3 s ! j) (q s))"
    by (intro posfin_add_nonneg k half_nonneg sum_T_nonneg indicator_nonneg i1 i3; assumption)+
  have ra: "posfin (lm1 + Fin (1 / 2) * sum_T (\<lambda>j. r1 s ! j * (beta_m s ! j * beta_m s ! j)) (q s))"
    "posfin (lma1 + Fin (1 / 2) * sum_T (\<lambda>j. r3 s ! j * (alpha_a s ! j * alpha_a s ! j)) (q s))"
    "posfin (lm0 + Fin (1 / 2) * sum_T (\<lambda>j. (Fin 1 - r1 s ! j) * (beta_m s ! j * beta_m s ! j)) (q s))"
    "posfin (lma0 + Fin (1 / 2) * sum_T (\<lambda>j. (Fin 1 - r3 s ! j) * (alpha_a s ! j * alpha_a s ! j)) (q s))"
    by (intro posfin_add_nonneg k half_nonneg sum_T_nonneg n1; assumption)+
  show ?thesis
    using p lib_ok_inv_gamma [OF L sh(1) ra(1)] lib_ok_inv_gamma [OF L a b]
      lib_ok_inv_gamma [OF L sh(2) ra(2)] lib_ok_inv_gamma [OF L sh(3) ra(3)]
      lib_ok_inv_gamma [OF L sh(4) ra(4)]
    by (simp add: update_sigma_m_a_eq Let_def pos_def)
qed

lemma gibbs_sweep_inv:
  assumes L: "lib_ok L" and w: "wf (s::'g Variables)" and p: "pos s" and c: "it = 0 \<or> caches_ok s"
  shows "wf (gibbs_sweep L it s)" and "caches_ok (gibbs_sweep L it s)" and "pos (gibbs_sweep L it s)"
proof -
  define s1 where "s1 = (if it = 0 then Residual it s else s)"
  define s2 where "s2 = update_var_m s1"
  define s3 where "s3 = update_sigma_e_g L s2"
  define s4 where "s4 = update_var_a s3"
  define s5 where "s5 = fold (mediator_step L) [0..<q s4] s4"
  define s6 where "s6 = fold (update_beta_c L) [0..<w1 s5] s5"
  define s7 where "s7 = update_beta_a L s6"
  have eq: "gibbs_sweep L it s = update_sigma_m_a L s7"
    by (simp add: gibbs_sweep_def Let_def s7_def s6_def s5_def s4_def s3_def s2_def s1_def)
  have "wf (Residual it s)" using w by (simp add: wf_def)
  then have 1: "wf s1" "caches_ok s1"
    using w c Residual_ok [OF w, of it] by (auto simp add: s1_def)
  have p1: "pos s1" using p by (simp add: s1_def pos_def)
  have "view s2 = view s1" by (simp add: view_def s2_def)
  then have 2: "wf s2" "caches_ok s2" using 1 view_inv by blast+
  have p2: "pos s2" using p1 by (simp add: s2_def pos_def)
  have v2: "length (var_m0 s2) = q s2" "length (var_m1 s2) = q s2"
    "list_all posfin (var_m0 s2)" "list_all posfin (var_m1 s2)"
    using update_var_m_posfin [OF p1] by (simp_all add: s2_def update_var_m_length)
  have "view s3 = view s2" by (simp add: view_def s3_def)
  then have 3: "wf s3" "caches_ok s3" using 2 view_inv by blast+
  have p3: "pos s3" unfolding s3_def using L 2(2) p2 by (rule update_sigma_e_g_pos)
  have "view s4 = view s3" by (simp add: view_def s4_def)
  then have 4: "wf s4" "caches_ok s4" using 3 view_inv by blast+
  have p4: "pos s4" using p3 by (simp add: s4_def pos_def)
  have v4: "vars_ok s4"
    using v2 update_var_a_posfin [OF p3] by (simp add: vars_ok_def s4_def s3_def)
  have "wf s5 \<and> caches_ok s5 \<and> pos s5 \<and> vars_ok s5 \<and> q s5 = q s4"
    unfolding s5_def
  proof (rule fold_upt_inv [where P = "\<lambda>t. wf t \<and> caches_ok t \<and> pos t \<and> vars_ok t \<and> q t = q s4"])
    show "wf s4 \<and> caches_ok s4 \<and> pos s4 \<and> vars_ok s4 \<and> q s4 = q s4" using 4 p4 v4 by simp
  next
    fix j and t :: "'g Variables"
    assume "j < q s4" and "wf t \<and> caches_ok t \<and> pos t \<and> vars_ok t \<and> q t = q s4"
    then show "wf (mediator_step L j t) \<and> caches_ok (mediator_step L j t) \<and> pos (mediator_step L j t)
        \<and> vars_ok (mediator_step L j t) \<and> q (mediator_step L j t) = q s4"
      using mediator_step_inv [OF L, of t j] mediator_step_pos [of t L j]
      by (simp add: mediator_step_vars_ok)
  qed
  then have 5: "wf s5" "caches_ok s5" "pos s5" "vars_ok s5" by simp_all
  have "wf s6 \<and> caches_ok s6 \<and> pos s6 \<and> vars_ok s6 \<and> w1 s6 = w1 s5"
    unfolding s6_def
  proof (rule fold_upt_inv [where P = "\<lambda>t. wf t \<and> caches_ok t \<and> pos t \<and> vars_ok t \<and> w1 t = w1 s5"])
    show "wf s5 \<and> caches_ok s5 \<and> pos s5 \<and> vars_ok s5 \<and> w1 s5 = w1 s5" using 5 by simp
  next
    fix j and t :: "'g Variables"
    assume j: "j < w1 s5" and t: "wf t \<and> caches_ok t \<and> pos t \<and> vars_ok t \<and> w1 t = w1 s5"
    then have jt: "j < w1 t" by simp
    have pt: "pos t" using t by simp
    have "pos (update_beta_c L j t) = pos t" "vars_ok (update_beta_c L j t) = vars_ok t"
      by (simp_all add: pos_def vars_ok_def)
    then show "wf (update_beta_c L j t) \<and> caches_ok (update_beta_c L j t) \<and> pos (update_beta_c L j t)
        \<and> vars_ok (update_beta_c L j t) \<and> w1 (update_beta_c L j t) = w1 s5"
      using update_beta_c_inv [OF L _ _ jt pos_sigma(7) [OF pt] pos_nth(3) [OF pt jt]] t by simp
  qed
  then have 6: "wf s6" "caches_ok s6" "pos s6" "vars_ok s6" by simp_all
  have 7: "wf s7" "caches_ok s7"
    unfolding s7_def
    using update_beta_a_inv [OF L 6(1) 6(2) pos_sigma(7) [OF 6(3)] vars_ok_nth(5) [OF 6(4)]]
    by simp_all
  have p7: "pos s7" using 6(3) by (simp add: s7_def pos_def)
  have "view (update_sigma_m_a L s7) = view s7" by (simp add: view_def)
  then show "wf (gibbs_sweep L it s)" and "caches_ok (gibbs_sweep L it s)"
    unfolding eq using 7 view_inv by blast+
  show "pos (gibbs_sweep L it s)"
    unfolding eq using L 7(1) p7 by (rule update_sigma_m_a_pos)
qed

lemma Iteration_inv:
  assumes L: "lib_ok L" and w: "wf (s::'g Variables)" and p: "pos s" and c: "it = 0 \<or> caches_ok s"
  shows "wf (fst (Iteration L burnIn it (s, w'))) \<and> pos (fst (Iteration L burnIn it (s, w')))
         \<and> caches_ok (fst (Iteration L burnIn it (s, w')))"
proof -
  have "view (fst (Iteration L burnIn it (s, w'))) = view (gibbs_sweep L it s)"
    by (simp add: view_def Iteration_fst)
  moreover have "pos (fst (Iteration L burnIn it (s, w'))) = pos (gibbs_sweep L it s)"
    by (simp add: pos_def Iteration_fst)
  ultimately show ?thesis using gibbs_sweep_inv [OF L w p c] view_inv by blast
qed

lemma run_inv:
  assumes L: "lib_ok L" and w: "wf (s::'g Variables)" and p: "pos s"
  shows "wf (fst (fold (Iteration L burnIn) [0..<niter] (s, w')))
         \<and> pos (fst (fold (Iteration L burnIn) [0..<niter] (s, w')))
         \<and> (0 < niter \<longrightarrow> caches_ok (fst (fold (Iteration L burnIn) [0..<niter] (s, w'))))"
proof (induction niter)
  case 0
  then show ?case using w p by simp
next
  case (Suc niter)
  obtain a b where e: "fold (Iteration L burnIn) [0..<niter] (s, w') = (a, b)"
    by (cases "fold (Iteration L burnIn) [0..<niter] (s, w')")
  have a: "wf a" "pos a" "niter = 0 \<or> caches_ok a" using Suc e by auto
  show ?case using Iteration_inv [OF L a, of burnIn b] by (simp add: e)
qed

lemma caches_ok_Residual:
  assumes w: "wf s" and c: "caches_ok s"
  shows "res1 s = res1 (Residual it s)" "res2 s = res2 (Residual it s)" "res2_c s = res2_c (Residual it s)"
proof -
  have r: "caches_ok (Residual it s)" using Residual_ok [OF w] .
  show "res1 s = res1 (Residual it s)"
    using c r by (intro nth_equalityI) (simp_all add: caches_ok_def res1_formula_def)
  have idx: "\<exists>j i. x = j * n s + i \<and> j < q s \<and> i < n s" if "x < n s * q s" for x
  proof -
    have n: "0 < n s" using that by (cases "n s") auto
    have "x div n s < q s" using that n by (simp add: less_mult_imp_div_less mult.commute)
    then show ?thesis using n by (intro exI [of _ "x div n s"] exI [of _ "x mod n s"]) simp
  qed
  show "res2 s = res2 (Residual it s)"
  proof (intro nth_equalityI)
    show "length (res2 s) = length (res2 (Residual it s))" using c r by (simp add: caches_ok_def)
    fix x assume "x < length (res2 s)"
    then have "x < n s * q s" using c by (simp add: caches_ok_def)
    then obtain j i where "x = j * n s + i" "j < q s" "i < n s" using idx by blast
    then show "res2 s ! x = res2 (Residual it s) ! x"
      using c r by (simp add: caches_ok_def res2_formula_def)
  qed
  show "res2_c s = res2_c (Residual it s)"
  proof (intro nth_equalityI)
    show "length (res2_c s) = length (res2_c (Residual it s))" using c r by (simp add: caches_ok_def)
    fix x assume "x < length (res2_c s)"
    then have "x < n s * q s" using c by (simp add: caches_ok_def)
    then obtain j i where "x = j * n s + i" "j < q s" "i < n s" using idx by blast
    then show "res2_c s ! x = res2_c (Residual it s) ! x"
      using c r by (simp add: caches_ok_def res2_c_formula_def)
  qed
qed

lemma ctor_wf:
  assumes "input_ok nn ww1 ww2 qq uY uA uM uC1 uC2 ubm uaa"
  shows "wf (Variables_ctor L g0 uY uA uM uC1 uC2 ubm uaa upm upa nn ww1 ww2 qq qq1 qq2)"
  using assms
  by (simp add: input_ok_def wf_def Variables_ctor_def Let_def split_beta resize_def list_all_length)

lemma inner_norm_fold:
  "j < length N \<Longrightarrow>
   fold (\<lambda>i N. N[j := N ! j + g i]) [0..<d] N = N[j := fold (\<lambda>i a. a + g i) [0..<d] (N ! j)]"
  by (induction d) simp_all

lemma outer_norm_fold:
  "\<forall>j\<in>set xs. j < length N \<Longrightarrow>
   fold (\<lambda>j N. fold (\<lambda>i N. N[j := N ! j + g j i]) [0..<d] N) xs N
     = fold (\<lambda>j N. N[j := fold (\<lambda>i a. a + g j i) [0..<d] (N ! j)]) xs N"
  by (induction xs arbitrary: N) (simp_all add: inner_norm_fold)

lemma col_2norm_nth:
  assumes j: "j < k" and f: "\<And>i. i < d \<Longrightarrow> fin (X ! (j * d + i))"
  shows "col_2norm d X k (resize k (Fin 0) []) ! j = Fin (\<Sum>i<d. rv (X ! (j * d + i)) * rv (X ! (j * d + i)))"
proof -
  have "col_2norm d X k N
      = fold (\<lambda>j N. N[j := fold (\<lambda>i a. a + X ! (j * d + i) * X ! (j * d + i)) [0..<d] (N ! j)]) [0..<k] N"
    if "length N = k" for N
    unfolding col_2norm_def using that by (intro outer_norm_fold) simp
  then have "col_2norm d X k (resize k (Fin 0) []) ! j
      = fold (\<lambda>i a. a + X ! (j * d + i) * X ! (j * d + i)) [0..<d] (Fin 0)"
    using j
    by (simp add: resize_def
        fold_upd_range0 [where f = "\<lambda>j v. fold (\<lambda>i a. a + X ! (j * d + i) * X ! (j * d + i)) [0..<d] v"])
  then show ?thesis using fold_sum_fin2 [of d "\<lambda>i. X ! (j * d + i)" "\<lambda>i. X ! (j * d + i)"] f by simp
qed

lemma col_2norm_length: "length (col_2norm d X k N) = length N"
  unfolding col_2norm_def by (rule fold2_upd_length)

lemma col_2norm_nonneg:
  assumes "list_all fin X" and "length X = d * k"
  shows "list_all nonneg (col_2norm d X k (resize k (Fin 0) []))"
proof -
  have "nonneg (col_2norm d X k (resize k (Fin 0) []) ! j)" if j: "j < k" for j
  proof -
    have "fin (X ! (j * d + i))" if "i < d" for i
      using assms idx_bound [OF j that] by (simp add: list_all_length)
    then show ?thesis by (simp add: col_2norm_nth [OF j] sum_nonneg)
  qed
  then show ?thesis by (simp add: list_all_length col_2norm_length)
qed

lemma col_2norm_posfin:
  assumes "list_all fin X" and "length X = d * k" and nz: "cols_nonzero d k X"
  shows "list_all posfin (col_2norm d X k (resize k (Fin 0) []))"
proof -
  have "posfin (col_2norm d X k (resize k (Fin 0) []) ! j)" if j: "j < k" for j
  proof -
    have f: "fin (X ! (j * d + i))" if "i < d" for i
      using assms idx_bound [OF j that] by (simp add: list_all_length)
    obtain i where i: "i < d" "X ! (j * d + i) \<noteq> Fin 0"
      using nz j by (auto simp add: cols_nonzero_def)
    then have "rv (X ! (j * d + i)) \<noteq> 0" using f [OF i(1)] by (cases "X ! (j * d + i)") simp_all
    then have "0 < rv (X ! (j * d + i)) * rv (X ! (j * d + i))" by (auto simp add: zero_less_mult_iff)
    then have "0 < (\<Sum>i<d. rv (X ! (j * d + i)) * rv (X ! (j * d + i)))"
      using i(1) by (intro sum_pos2 [of _ i]) simp_all
    then show ?thesis using f by (simp add: col_2norm_nth [OF j])
  qed
  then show ?thesis by (simp add: list_all_length col_2norm_length)
qed

lemma A2norm_nonneg:
  assumes "list_all fin X" and "length X = d"
  shows "list_all nonneg (fold (\<lambda>i N. N[0 := N ! 0 + X ! i * X ! i]) [0..<d] (resize 1 (Fin 0) []))"
proof -
  have "fold (\<lambda>i a. a + X ! i * X ! i) [0..<d] (Fin 0) = Fin (\<Sum>i<d. rv (X ! i) * rv (X ! i))"
    using assms by (intro fold_sum_fin2) (simp_all add: list_all_length)
  then show ?thesis
    by (simp add: inner_norm_fold resize_def sum_nonneg)
qed

lemma ctor_pos:
  assumes L: "lib_ok L" and i: "input_ok nn ww1 ww2 qq uY uA uM uC1 uC2 ubm uaa"
    and c1: "cols_nonzero nn ww1 uC1" and c2: "cols_nonzero nn ww2 uC2"
  shows "pos (Variables_ctor L g0 uY uA uM uC1 uC2 ubm uaa upm upa nn ww1 ww2 qq qq1 qq2)"
proof -
  have k: "posfin km0" "posfin (Fin 1 / lm0)" "posfin km1" "posfin (Fin 1 / lm1)" "posfin ka"
    "posfin (Fin 1 / la)" "posfin kma0" "posfin (Fin 1 / lma0)" "posfin kma1" "posfin (Fin 1 / lma1)"
    "posfin kg" "posfin (Fin 1 / lg)" "posfin ke" "posfin (Fin 1 / le)"
    by (simp_all add: km1_def lm1_def km0_def lm0_def kma1_def lma1_def kma0_def lma0_def la_def
        ka_def kg_def lg_def ke_def le_def)
  note g = lib_ok_gamma [OF L]
  have n: "list_all nonneg (col_2norm nn uM qq (resize qq (Fin 0) []))"
    "list_all posfin (col_2norm nn uC1 ww1 (resize ww1 (Fin 0) []))"
    "list_all posfin (col_2norm nn uC2 ww2 (resize ww2 (Fin 0) []))"
    using i c1 c2
    by (simp_all add: input_ok_def col_2norm_nonneg col_2norm_posfin)
  have na: "list_all nonneg (fold (\<lambda>i N. N[0 := N ! 0 + uA ! i * uA ! i]) [0..<nn] (resize 1 (Fin 0) []))"
    by (rule A2norm_nonneg) (use i in \<open>simp_all add: input_ok_def\<close>)
  show ?thesis
    using n na
    by (simp add: pos_def Variables_ctor_def Let_def split_beta g k col_2norm_length
        list_all_length indicator_def)
      (simp add: resize_def)
qed

lemma zero_div_zero: "(Fin 0 + Fin 0 * x) / Fin 0 = NaN"
  by (cases x) simp_all

lemma NaN_left [simp]: "NaN + (x::T) = NaN" "NaN * (x::T) = NaN"
  by simp_all

lemma res1_length_mediator_step:
  "length (res1 (mediator_step L j s)) = length (res1 s)"
  by (simp add: mediator_step_def Let_def split_beta fold_frame update_beta_m_def)

lemma update_beta_c_zero:
  assumes "n s = Suc 0" and "C1 s ! 0 = Fin 0" and "C1_2norm s ! 0 = Fin 0"
    and "0 < length (beta_c s)" and "0 < length (res1 s)"
    and "\<And>sd g. fst (normal_distribution L NaN sd g) = NaN"
  shows "beta_c (update_beta_c L 0 s) ! 0 = NaN" and "res1 (update_beta_c L 0 s) ! 0 = NaN"
  using assms by (simp_all add: update_beta_c_def Let_def split_beta at2_def zero_div_zero)

lemma update_beta_a_NaN:
  assumes "res1 s ! 0 = NaN" and "0 < n s"
  shows "res1 (update_beta_a L s) ! 0 = NaN"
proof (cases "0 < length (res1 s)")
  case True
  then show ?thesis
    using assms
    by (simp add: update_beta_a_def Let_def split_beta
        fold_upd_range0 [where f = "\<lambda>i v. v + c * A s ! i" for c])
next
  case False
  then show ?thesis
    using assms
    by (simp add: update_beta_a_def Let_def split_beta
        fold_upd_range0 [where f = "\<lambda>i v. v + c * A s ! i" for c])
qed

lemma L0_ok: "lib_ok L0"
  by (simp add: lib_ok_def L0_simps)

lemma L1_simps:
  "gamma_distribution L1 shape scale g = (Fin 1, Suc g)"
  "normal_distribution L1 mean sd g = (mean, Suc g)"
  by (simp_all add: L1_def L0_def)

lemma L1_ok: "lib_ok L1"
  by (simp add: lib_ok_def L1_simps)

section \<open>The adaptive prior step accepts or rejects jointly\<close>

text \<open>
  Claim C4. With both containers of length \<open>q\<close>, the step computes the log ratio of the
  four log-posteriors (\<open>r3\<close> for \<open>pi_a\<close>, \<open>r1\<close> for \<open>pi_m\<close>) and one uniform number \<open>u\<close>; when
  \<open>logRatio > log u\<close> both \<open>pi_m\<close> and \<open>pi_a\<close> are their proposals afterwards, otherwise both
  are what they were.
\<close>

theorem adaptive_prior_joint:
  assumes "length (pi_m s) = q s" and "length (pi_a s) = q s"
  shows "if log_T (uniform_draw L s w) < logRatio L s w
         then pi_m (fst (adaptive_prior L (s, w))) = proposal_m L s w
              \<and> pi_a (fst (adaptive_prior L (s, w))) = proposal_a L s w
         else pi_m (fst (adaptive_prior L (s, w))) = pi_m s
              \<and> pi_a (fst (adaptive_prior L (s, w))) = pi_a s"
  using assms by (simp add: adaptive_prior_fst)

theorem adaptive_prior_joint_witness:
  "if log_T (uniform_draw L0 s0 w0) < logRatio L0 s0 w0
   then pi_m (fst (adaptive_prior L0 (s0, w0))) = proposal_m L0 s0 w0
        \<and> pi_a (fst (adaptive_prior L0 (s0, w0))) = proposal_a L0 s0 w0
   else pi_m (fst (adaptive_prior L0 (s0, w0))) = pi_m s0
        \<and> pi_a (fst (adaptive_prior L0 (s0, w0))) = pi_a s0"
proof -
  have h1: "length (pi_m s0) = q s0" by (simp add: s0_shape)
  have h2: "length (pi_a s0) = q s0" by (simp add: s0_shape)
  show ?thesis by (rule adaptive_prior_joint [OF h1 h2])
qed

section \<open>The range of the prior inclusion probabilities\<close>

lemma reflect_bound:
  assumes "0 < a" and "a < 1 / real k" and "w \<le> k * k" and "0 < w"
  shows "1 / real k \<le> 1 / (real w * a)"
proof -
  have k: "0 < k" using assms by (cases k) auto
  have "real w \<le> real (k * k)"
    using assms(3) by (rule of_nat_mono)
  then have "real w * a \<le> real (k * k) * a"
    using assms(1) by (intro mult_right_mono) auto
  also have "\<dots> < real (k * k) * (1 / real k)"
    using assms k by (intro mult_strict_left_mono) auto
  also have "\<dots> = real k" using k by simp
  finally have lt: "real w * a < real k" .
  have pos: "0 < real w * a" using assms by simp
  show ?thesis using lt pos k by (simp add: frac_le)
qed

text \<open>A proposal is not-a-number, infinite, or a finite value of at least \<open>1/q\<close>.\<close>

lemma propose_cases:
  "propose k p e = NaN \<or> propose k p e = PInf
   \<or> (\<exists>x. propose k p e = Fin x \<and> 1 / real k \<le> x)"
proof (cases "p * exp_T e")
  case (Fin a)
  show ?thesis
  proof (cases "1 < \<bar>a\<bar>")
    case True
    then show ?thesis
      using Fin reflect_bound [of "1 / \<bar>a\<bar>" k "k * k mod 18446744073709551616"]
      by (simp add: propose_def Let_def of_size_def size_mul_def)
  next
    case False
    then show ?thesis
      using Fin reflect_bound [of "\<bar>a\<bar>" k "k * k mod 18446744073709551616"]
      by (auto simp add: propose_def Let_def of_size_def size_mul_def)
  qed
next
  case PInf
  then show ?thesis by (cases k) (simp_all add: propose_def Let_def of_size_def size_mul_def)
next
  case MInf
  then show ?thesis by (cases k) (simp_all add: propose_def Let_def of_size_def size_mul_def)
next
  case NaN
  then show ?thesis by (simp add: propose_def Let_def of_size_def size_mul_def)
qed

lemma propose_accepted:
  assumes "log_T (Fin 1 - propose k p e) \<noteq> NaN"
  shows "\<exists>x. propose k p e = Fin x \<and> 1 / real k \<le> x \<and> x \<le> 1"
  using propose_cases [of k p e] assms
  by (auto simp: minus_T_def split: if_splits)

text \<open>One not-a-number term makes a log-posterior, and then the log ratio, not-a-number.\<close>

lemma fold_plus_NaN:
  "j < k \<Longrightarrow> f j = NaN \<Longrightarrow> fold (\<lambda>j acc. acc + f j) [0..<k] a = NaN"
proof (induction k)
  case 0
  then show ?case by simp
next
  case (Suc k)
  show ?case
  proof (cases "j = k")
    case True
    then show ?thesis using Suc.prems by simp
  next
    case False
    then have "j < k" using Suc.prems by simp
    then show ?thesis using Suc by simp
  qed
qed

lemma logPosterior_NaN:
  "j < k \<Longrightarrow> log_T (Fin 1 - p ! j) = NaN \<Longrightarrow> logPosterior r p k = NaN"
  unfolding logPosterior_def
  by (rule fold_plus_NaN [where j = j]) simp_all

lemma logRatio_not_NaN:
  assumes "logRatio L s w \<noteq> NaN"
  shows "logPosterior (r3 s) (proposal_a L s w) (q s) \<noteq> NaN
         \<and> logPosterior (r1 s) (proposal_m L s w) (q s) \<noteq> NaN"
  using assms by (auto simp: logRatio_def)

lemma in_range_proposal:
  assumes "2 \<le> k" and "v = Fin x" and "1 / real k \<le> x" and "x \<le> 1"
  shows "in_range k v"
proof -
  have "1 / (real k * real k) < 1 / real k"
    using assms(1) by (simp add: field_simps)
  then show ?thesis using assms by (simp add: in_range_def)
qed

lemma in_range_two: "in_range k x \<Longrightarrow> 0 < k \<Longrightarrow> 2 \<le> k"
proof (rule ccontr)
  assume r: "in_range k x" and "0 < k" and "\<not> 2 \<le> k"
  then have "k = 1" by arith
  then show False using r by (cases x) (auto simp: in_range_def)
qed

lemma accepted_in_range:
  assumes acc: "log_T (uniform_draw L s w) < logRatio L s w"
    and k: "2 \<le> q s" and j: "j < q s"
  shows "in_range (q s) (proposal_m L s w ! j) \<and> in_range (q s) (proposal_a L s w ! j)"
proof -
  have "logRatio L s w \<noteq> NaN" using acc by auto
  then have nn: "logPosterior (r3 s) (proposal_a L s w) (q s) \<noteq> NaN"
    "logPosterior (r1 s) (proposal_m L s w) (q s) \<noteq> NaN"
    using logRatio_not_NaN by blast+
  have "log_T (Fin 1 - proposal_m L s w ! j) \<noteq> NaN"
    using nn(2) logPosterior_NaN [OF j] by blast
  then have "\<exists>x. proposal_m L s w ! j = Fin x \<and> 1 / real (q s) \<le> x \<and> x \<le> 1"
    using j by (simp add: proposal_m_def propose_accepted)
  then obtain x where x: "proposal_m L s w ! j = Fin x" "1 / real (q s) \<le> x" "x \<le> 1"
    by blast
  have "log_T (Fin 1 - proposal_a L s w ! j) \<noteq> NaN"
    using nn(1) logPosterior_NaN [OF j] by blast
  then have "\<exists>y. proposal_a L s w ! j = Fin y \<and> 1 / real (q s) \<le> y \<and> y \<le> 1"
    using j by (simp add: proposal_a_def propose_accepted)
  then obtain y where y: "proposal_a L s w ! j = Fin y" "1 / real (q s) \<le> y" "y \<le> 1"
    by blast
  show ?thesis using in_range_proposal [OF k x] in_range_proposal [OF k y] by simp
qed

lemma adaptive_prior_range:
  assumes "length (pi_m s) = q s" and "length (pi_a s) = q s"
    and "\<forall>j<q s. in_range (q s) (pi_m s ! j) \<and> in_range (q s) (pi_a s ! j)"
  shows "\<forall>j<q s. in_range (q s) (pi_m (fst (adaptive_prior L (s, w))) ! j)
                \<and> in_range (q s) (pi_a (fst (adaptive_prior L (s, w))) ! j)"
proof (intro allI impI)
  fix j assume j: "j < q s"
  then have "in_range (q s) (pi_m s ! j)" using assms(3) by simp
  then have k: "2 \<le> q s" using j by (intro in_range_two) auto
  show "in_range (q s) (pi_m (fst (adaptive_prior L (s, w))) ! j)
         \<and> in_range (q s) (pi_a (fst (adaptive_prior L (s, w))) ! j)"
    using assms j accepted_in_range [OF _ k j, of L w]
    by (simp add: adaptive_prior_fst)
qed

lemma Iteration_pi_ok:
  assumes "pi_ok k s"
  shows "pi_ok k (fst (Iteration L burnIn it (s, w)))"
proof -
  let ?s = "gibbs_sweep L it s"
  let ?w = "w\<lparr>crand := srand L it (crand w)\<rparr>"
  have a: "length (pi_m ?s) = q ?s" "length (pi_a ?s) = q ?s"
    "\<forall>j<q ?s. in_range (q ?s) (pi_m ?s ! j) \<and> in_range (q ?s) (pi_a ?s ! j)"
    using assms by (simp_all add: pi_ok_def)
  have "\<forall>j<q ?s. in_range (q ?s) (pi_m (fst (adaptive_prior L (?s, ?w))) ! j)
                \<and> in_range (q ?s) (pi_a (fst (adaptive_prior L (?s, ?w))) ! j)"
    by (rule adaptive_prior_range [OF a])
  then show ?thesis using assms by (simp add: pi_ok_def Iteration_fst)
qed

lemma mcmc_pi_ok:
  assumes "pi_ok k s"
  shows "pi_ok k (fst (fold (Iteration L burnIn) [0..<niter] (s, w)))"
proof (induction niter)
  case 0
  then show ?case using assms by simp
next
  case (Suc niter)
  then show ?case
    using Iteration_pi_ok [of k "fst (fold (Iteration L burnIn) [0..<niter] (s, w))" L burnIn niter
        "snd (fold (Iteration L burnIn) [0..<niter] (s, w))"]
    by simp
qed



text \<open>
  The claim as stated fails for entries that start at or below \<open>1/q\<^sup>2\<close>: with \<open>q = 2\<close> and
  both vectors at \<open>1/5\<close>, the proposal is \<open>1 / (4 * 1/5) = 5/4\<close>, the logarithm of
  \<open>1 - 5/4\<close> is not-a-number, the step rejects, and \<open>pi_m[0]\<close> is still \<open>1/5 \<le> 1/4\<close>
  after the first iteration.
\<close>

lemma propose_low: "propose 2 (Fin (1 / 5)) (Fin 0) = Fin (5 / 4)"
  by (simp add: propose_def Let_def of_size_def size_mul_def)


section \<open>The result sink\<close>

text \<open>
  Claim C7. \<open>Iteration burnIn it\<close> changes the files exactly when \<open>it > burnIn\<close> and
  \<open>it mod 10 = 0\<close>: then the one file named \<open>results_<q>.txt\<close> (the name is a function of \<open>q\<close>
  alone) keeps what it held, or starts empty, and gets one row at its end, made of the
  values the iteration ends with; every other file is as before. Otherwise the files
  are untouched.
\<close>

theorem sink_append:
  "files (snd (Iteration L burnIn it (s, w))) =
     (if burnIn < it \<and> it mod 10 = 0
      then (files w)(''results_'' @ to_string (int_of_size (q s)) @ ''.txt'' \<mapsto>
              (case files w (''results_'' @ to_string (int_of_size (q s)) @ ''.txt'') of
                 None \<Rightarrow> [] | Some c \<Rightarrow> c)
                @ sink_row L (fst (Iteration L burnIn it (s, w))))
      else files w)"
  by (simp add: Iteration_snd append_file_def row_sink_row outfilename_def)

section \<open>What an iteration does outside the object\<close>

text \<open>
  Claim C9, as amended. Besides the members of the object, one call of
  \<open>Iteration burnIn it\<close> changes exactly this: the random state of the process is reseeded
  by \<^verbatim>\<open>srand( it )\<close> and advanced by the three calls of \<^verbatim>\<open>rand\<close>; the standard output
  gets the line of the seven variance components when \<open>it mod 10000 = 0\<close> and the line
  \<open>Iter it\<close> when \<open>it mod 1000 = 0\<close>; and the sink file gets one row when \<open>it > burnIn\<close> and
  \<open>it mod 10 = 0\<close>.
\<close>

theorem Iteration_effects:
  "crand (snd (Iteration L burnIn it (s, w))) = rand_after L (q s) (srand L it (crand w))
   \<and> console (snd (Iteration L burnIn it (s, w))) =
       console w
         @ (if it mod 10000 = 0
            then [PrintSigmas it (sigma_m0 s) (sigma_e s) (sigma_g s) (sigma_ma0 s)
                    (sigma_m1 s) (sigma_a s) (sigma_ma1 s)] else [])
         @ (if it mod 1000 = 0 then [PrintIter it] else [])
   \<and> files (snd (Iteration L burnIn it (s, w))) =
       (if burnIn < it \<and> it mod 10 = 0
        then append_file (outfilename s) (row L (fst (Iteration L burnIn it (s, w)))) (files w)
        else files w)"
  by (simp add: Iteration_snd)

text \<open>
  The claim as stated allows no output but the row: the call with \<open>it = 0\<close> prints to the
  standard output.
\<close>

theorem Iteration_prints_counterexample:
  "console (snd (Iteration L0 0 0 (s0, w0))) \<noteq> console w0"
  by (simp add: Iteration_snd w0_def)

section \<open>Reproducibility\<close>



section \<open>The variance components\<close>

text \<open>
  Claim C6. After one iteration each of the seven variance components is the reciprocal
  of a Gamma draw with the stated shape and rate: \<open>sigma_e\<close> with \<open>ke + n/2\<close> and
  \<open>le + (1/2) \<Sum> res1[i]\<^sup>2\<close>, \<open>sigma_g\<close> with \<open>kg + q*n/2\<close> and \<open>lg + (1/2) \<Sum> res2[i]\<^sup>2\<close> over all
  \<open>n*q\<close> entries (both from the residuals the iteration starts with), and, from the
  coefficients and indicators after the sweep, \<open>sigma_m1\<close>, \<open>sigma_ma1\<close> with
  \<open>k + (1/2) \<Sum> r[j]\<close> and \<open>l + (1/2) \<Sum> r[j] * c[j]\<^sup>2\<close>, \<open>sigma_m0\<close>, \<open>sigma_ma0\<close> with \<open>1 - r[j]\<close> in
  place of \<open>r[j]\<close>, and \<open>sigma_a\<close> with \<open>ka + 1/2\<close> and \<open>la + beta_a\<^sup>2/2\<close>. The draws are taken
  in this order: \<open>sigma_e\<close>, \<open>sigma_g\<close>, then \<open>sigma_m1\<close>, \<open>sigma_a\<close>, \<open>sigma_ma1\<close>, \<open>sigma_m0\<close>,
  \<open>sigma_ma0\<close>.
\<close>

theorem variance_draws:
  "let sa = before_noise it s;
       sb = before_components L it s;
       s' = fst (Iteration L burnIn it (s, w));
       e = inv_gamma L (ke + of_size (n sa) / Fin 2)
             (le + Fin (1 / 2) * sum_T (\<lambda>i. res1 sa ! i * res1 sa ! i) (n sa)) (generator sa);
       g = inv_gamma L (kg + of_size (q sa) * of_size (n sa) / Fin 2)
             (lg + Fin (1 / 2) * sum_T (\<lambda>i. res2 sa ! i * res2 sa ! i) (n sa * q sa)) (snd e);
       m1 = inv_gamma L (km1 + Fin (1 / 2) * sum_T (\<lambda>j. r1 sb ! j) (q sb))
              (lm1 + Fin (1 / 2) * sum_T (\<lambda>j. r1 sb ! j * (beta_m sb ! j * beta_m sb ! j)) (q sb))
              (generator sb);
       a = inv_gamma L (ka + Fin (1 / 2)) (la + beta_a sb ! 0 * beta_a sb ! 0 / Fin 2) (snd m1);
       ma1 = inv_gamma L (kma1 + Fin (1 / 2) * sum_T (\<lambda>j. r3 sb ! j) (q sb))
              (lma1 + Fin (1 / 2) * sum_T (\<lambda>j. r3 sb ! j * (alpha_a sb ! j * alpha_a sb ! j)) (q sb))
              (snd a);
       m0 = inv_gamma L (km0 + Fin (1 / 2) * sum_T (\<lambda>j. Fin 1 - r1 sb ! j) (q sb))
              (lm0 + Fin (1 / 2) * sum_T (\<lambda>j. (Fin 1 - r1 sb ! j) * (beta_m sb ! j * beta_m sb ! j)) (q sb))
              (snd ma1);
       ma0 = inv_gamma L (kma0 + Fin (1 / 2) * sum_T (\<lambda>j. Fin 1 - r3 sb ! j) (q sb))
              (lma0 + Fin (1 / 2) * sum_T (\<lambda>j. (Fin 1 - r3 sb ! j) * (alpha_a sb ! j * alpha_a sb ! j)) (q sb))
              (snd m0)
   in sigma_e s' = fst e \<and> sigma_g s' = fst g \<and> sigma_m1 s' = fst m1 \<and> sigma_a s' = fst a
      \<and> sigma_ma1 s' = fst ma1 \<and> sigma_m0 s' = fst m0 \<and> sigma_ma0 s' = fst ma0"
proof -
  have n: "sigma_e (gibbs_sweep L it s) = sigma_e (update_sigma_e_g L (before_noise it s))"
    "sigma_g (gibbs_sweep L it s) = sigma_g (update_sigma_e_g L (before_noise it s))"
    by (simp_all add: gibbs_sweep_components before_components_noise)
  show ?thesis
    unfolding Let_def Iteration_fst adaptive_prior_frame n
    unfolding gibbs_sweep_components
    by (simp add: update_sigma_e_g_eq update_sigma_m_a_eq Let_def)
qed

section \<open>The inclusion indicators\<close>



section \<open>The update of the outcome-stage covariate coefficients\<close>

lemma upt_2: "[0..<2] = [0, 1]"
  by (simp add: upt_rec numeral_2_eq_2)

text \<open>
  Claim C3 says that \<open>beta_c[j]\<close> is drawn once, from a Normal distribution whose mean is
  the complete inner product of column \<open>j\<close> of \<open>C1\<close> with \<open>res1 + C1[:,j] * beta_c[j]\<close>,
  divided by \<open>C1_2norm[j]\<close>. The code divides, constructs the distribution and draws inside
  the loop over the observations. For two observations it draws twice: the first draw
  has the mean of the first term alone, divided by \<open>C1_2norm[j]\<close>; it is stored in
  \<open>beta_c[j]\<close>, so the second term adds back the first draw instead of the value before
  the update, and the second mean divides the first, already divided, once more.
  \<open>beta_c[j]\<close> ends as the second draw and the engine has advanced by two draws.
\<close>

theorem beta_c_two_draws:
  assumes "n s = 2" and "j < length (beta_c s)"
  shows "let sd = sqrt_T (sigma_e s / C1_2norm s ! j);
             mu1 = (Fin 0 + at2 2 (C1 s) 0 j * (res1 s ! 0 + at2 2 (C1 s) 0 j * beta_c s ! j))
                     / C1_2norm s ! j;
             d1 = normal_distribution L mu1 sd (generator s);
             mu2 = (mu1 + at2 2 (C1 s) 1 j * (res1 s ! 1 + at2 2 (C1 s) 1 j * fst d1))
                     / C1_2norm s ! j;
             d2 = normal_distribution L mu2 sd (snd d1)
         in beta_c (update_beta_c L j s) ! j = fst d2
            \<and> generator (update_beta_c L j s) = snd d2"
  using assms
  by (simp add: update_beta_c_def Let_def split_beta upt_2)

text \<open>
  In the first iteration on the concrete instance, the visit of \<open>beta_c[0]\<close> starts in the
  state \<open>before_step L0 0 s0 2\<close> and takes two draws from the engine.
\<close>

theorem beta_c_two_draws_witness:
  "generator (update_beta_c L0 0 (before_step L0 0 s0 2))
     = Suc (Suc (generator (before_step L0 0 s0 2)))"
proof -
  have h1: "n (before_step L0 0 s0 2) = 2" by (simp add: s0_shape)
  have h2: "0 < length (beta_c (before_step L0 0 s0 2))"
    by (simp add: s0_def Variables_ctor_def Let_def split_beta resize_def)
  show ?thesis
    using beta_c_two_draws [OF h1 h2, of L0] by (simp add: Let_def L0_simps)
qed

section \<open>Residual consistency\<close>




section \<open>The constructor's initial values\<close>

text \<open>
  Claim C10. Whatever data, library and engine state the constructor is given, it leaves
  \<open>r1\<close> and \<open>r3\<close> as \<open>q\<close> zeros, \<open>beta_c\<close> as \<open>w1\<close> zeros, \<open>alpha_c\<close> as \<open>w2 * q\<close> zeros and
  \<open>beta_a\<close> as the one constant \<open>0.0135567741\<close>; none of the right-hand sides mentions the
  data matrices, the engine or a draw.
\<close>

theorem ctor_initial_values:
  "r1 (Variables_ctor L g0 uY uA uM uC1 uC2 ubm uaa upm upa nn ww1 ww2 qq qq1 qq2)
     = replicate qq (Fin 0)
   \<and> r3 (Variables_ctor L g0 uY uA uM uC1 uC2 ubm uaa upm upa nn ww1 ww2 qq qq1 qq2)
     = replicate qq (Fin 0)
   \<and> beta_c (Variables_ctor L g0 uY uA uM uC1 uC2 ubm uaa upm upa nn ww1 ww2 qq qq1 qq2)
     = replicate ww1 (Fin 0)
   \<and> alpha_c (Variables_ctor L g0 uY uA uM uC1 uC2 ubm uaa upm upa nn ww1 ww2 qq qq1 qq2)
     = replicate (ww2 * qq) (Fin 0)
   \<and> beta_a (Variables_ctor L g0 uY uA uM uC1 uC2 ubm uaa upm upa nn ww1 ww2 qq qq1 qq2)
     = [Fin (135567741 / 10000000000)]"
  by (simp add: Variables_ctor_def resize_def Let_def split: prod.splits)

end
